theory Spec2Isabelle
  imports Main "HOL-Library.Word" "HOL-Library.AList"
begin

unbundle bit_operations_syntax

section \<open>The mapped file and fixed-layout decoding\<close>

text \<open>
  An ARDF file is read through a read-only memory map, modelled as the list of its bytes.
  Every offset, size and count of the format is an unsigned little-endian field, so they
  are natural numbers; Python's integers are unbounded and the sums of offsets never wrap.
  The source stores a reference to the map in every decoded object (\<open>data: mmap\<close>); the
  map never changes, so the model passes it as an argument instead.
\<close>

type_synonym byte = "8 word"
type_synonym mmap = "byte list"

fun le_nat :: "byte list \<Rightarrow> nat" where
  "le_nat [] = 0"
| "le_nat (b # bs) = unat b + 256 * le_nat bs"

text \<open>The unsigned field of \<open>w\<close> bytes at position \<open>k\<close> of an unpacked record.\<close>

definition field :: "byte list \<Rightarrow> nat \<Rightarrow> nat \<Rightarrow> nat" where
  "field bs k w = le_nat (take w (drop k bs))"

text \<open>A bytes literal such as \<open>b"VSET"\<close>.\<close>

definition tag :: "string \<Rightarrow> byte list" where
  "tag s = map (\<lambda>c. of_nat (of_char c)) s"

text \<open>
  Python's \<open>data[a:b]\<close> for non-negative bounds: clamped to the buffer, empty when
  \<open>b \<le> a\<close>.
\<close>

definition py_slice :: "'a list \<Rightarrow> nat \<Rightarrow> nat \<Rightarrow> 'a list" where
  "py_slice xs a b = take (b - a) (drop a xs)"

text \<open>Python's \<open>range(start, stop, step)\<close> for a positive step.\<close>

definition py_range :: "nat \<Rightarrow> nat \<Rightarrow> nat \<Rightarrow> nat list" where
  "py_range start stop step =
     map (\<lambda>k. start + k * step) [0..<(stop - start + step - 1) div step]"

section \<open>Chunk headers\<close>

record ARDFHeader =
  h_offset :: nat
  h_crc :: nat
  h_size :: nat
  h_name :: "byte list"
  h_flags :: nat

text \<open>
  The exceptions the readers raise. \<open>ChecksumMismatch\<close> is the
  \<open>ValueError("Invalid section. Expected ..., got ...", header)\<close> of \<open>validate\<close>;
  \<open>Malformed\<close> is every \<open>ValueError("Malformed ...", header)\<close>, with its message;
  \<open>IndexOutOfRange\<close> is the \<open>ValueError("Invalid index:", (lines, points), (r, c))\<close>
  of \<open>get_curve\<close>. The others are the interpreter's own: \<open>struct.error\<close> when
  \<open>unpack_from\<close> would read past the end of the map, a failed \<open>assert\<close>, a missing
  dictionary key, an array index out of bounds, a local variable read before it was
  assigned, NumPy's refusal to overlay an array on a buffer that is too small or to
  assign or reshape arrays of the wrong length, the \<open>RuntimeError\<close> of too many channels,
  a byte that windows-1252 does not define, an offset that does not fit a C \<open>ssize_t\<close>,
  and NumPy's refusal to create an array of more bytes than a signed 64-bit integer counts.
\<close>

datatype error =
    StructError
  | ChecksumMismatch ARDFHeader
  | Malformed string ARDFHeader
  | AssertionError
  | IndexOutOfRange "nat \<times> nat" "int \<times> int"
  | KeyError
  | IndexError
  | UnboundLocalError
  | BufferTooSmall
  | ShapeMismatch
  | RuntimeError
  | UnicodeDecodeError
  | OverflowError
  | ArrayTooBig

text \<open>
  \<open>struct.unpack_from\<close> of a format of \<open>n\<close> bytes: the raw record. The offset is
  converted to a C \<open>ssize_t\<close> first, which raises \<open>OverflowError\<close> from \<open>2^63\<close> on;
  reading past the end of the map is \<open>struct.error\<close>.
\<close>

definition unpack_from :: "nat \<Rightarrow> mmap \<Rightarrow> nat \<Rightarrow> error + byte list" where
  "unpack_from n data offset =
     (if 0x8000000000000000 \<le> offset then Inl OverflowError
      else if offset + n \<le> length data then Inr (take n (drop offset data))
      else Inl StructError)"

text \<open>\<open>ARDFHeader.unpack\<close>: format \<open><LL4sL\<close>, 16 bytes.\<close>

definition ARDFHeader_unpack :: "mmap \<Rightarrow> nat \<Rightarrow> error + ARDFHeader" where
  "ARDFHeader_unpack data offset =
     (case unpack_from 16 data offset of
        Inl e \<Rightarrow> Inl e
      | Inr bs \<Rightarrow> Inr \<lparr>h_offset = offset, h_crc = field bs 0 4, h_size = field bs 4 4,
                        h_name = take 4 (drop 8 bs), h_flags = field bs 12 4\<rparr>)"

subsection \<open>The checksum\<close>

text \<open>
  \<open>zlib.crc32\<close> is the library's CRC-32: the register is shifted towards the low end
  and the reflected polynomial \<open>0xEDB88320\<close> is folded in whenever a one leaves it; the
  register starts at \<open>0xFFFFFFFF\<close> and the result is complemented.
\<close>

definition crc_shift :: "32 word \<Rightarrow> 32 word" where
  "crc_shift c = (if bit c 0 then drop_bit 1 c XOR 0xEDB88320 else drop_bit 1 c)"

definition crc_update :: "32 word \<Rightarrow> byte \<Rightarrow> 32 word" where
  "crc_update c b = (crc_shift ^^ 8) (c XOR ucast b)"

definition zlib_crc32 :: "byte list \<Rightarrow> 32 word" where
  "zlib_crc32 bs = foldl crc_update 0xFFFFFFFF bs XOR 0xFFFFFFFF"

text \<open>
  The checksum in the words of the format description (and of the comment in
  \<open>validate\<close>): polynomial \<open>0x04C11DB7\<close>, each input byte reflected, the register
  shifted towards the high end, the output reflected, initial value and final XOR
  \<open>0xFFFFFFFF\<close>.
\<close>

definition msb_shift :: "32 word \<Rightarrow> 32 word" where
  "msb_shift c = (if bit c 31 then push_bit 1 c XOR 0x04C11DB7 else push_bit 1 c)"

definition spec_update :: "32 word \<Rightarrow> byte \<Rightarrow> 32 word" where
  "spec_update c b = (msb_shift ^^ 8) (c XOR push_bit 24 (ucast (word_reverse b)))"

definition spec_crc32 :: "byte list \<Rightarrow> 32 word" where
  "spec_crc32 bs = word_reverse (foldl spec_update 0xFFFFFFFF bs) XOR 0xFFFFFFFF"

text \<open>\<open>ARDFHeader.validate\<close>.\<close>

definition validate :: "mmap \<Rightarrow> ARDFHeader \<Rightarrow> error + bool" where
  "validate data h =
     (let crc = zlib_crc32 (py_slice data (h_offset h + 4) (h_offset h + h_size h))
      in if h_crc h \<noteq> unat crc then Inl (ChecksumMismatch h) else Inr True)"

section \<open>Tables of contents\<close>

text \<open>The pre-body \<open>size, nentries, stride\<close> (format \<open><QLL\<close>) at \<open>offset + 16\<close>.\<close>

definition toc_prebody :: "mmap \<Rightarrow> nat \<Rightarrow> error + nat \<times> nat \<times> nat" where
  "toc_prebody data offset =
     (case unpack_from 16 data (offset + 16) of
        Inl e \<Rightarrow> Inl e
      | Inr bs \<Rightarrow> Inr (field bs 0 8, field bs 8 4, field bs 12 4))"

record ARDFTableOfContents =
  toc_offset :: nat
  toc_size :: nat
  toc_entries :: "(ARDFHeader \<times> nat) list"

text \<open>The entry loop of \<open>ARDFTableOfContents.unpack\<close> over the entry offsets.\<close>

fun toc_scan :: "mmap \<Rightarrow> nat list \<Rightarrow> error + (ARDFHeader \<times> nat) list" where
  "toc_scan data [] = Inr []"
| "toc_scan data (entry_offset # rest) =
     (case unpack_from 24 data entry_offset of
        Inl e \<Rightarrow> Inl e
      | Inr bs \<Rightarrow>
          let pointer = field bs 16 8 in
          if pointer = 0 then Inr []
          else
            let entry_header = \<lparr>h_offset = entry_offset, h_crc = field bs 0 4,
                  h_size = field bs 4 4, h_name = take 4 (drop 8 bs), h_flags = field bs 12 4\<rparr>
            in if h_name entry_header \<notin>
                  {tag ''IMAG'', tag ''VOLM'', tag ''NEXT'', tag ''THMB'', tag ''NSET''}
               then Inl (Malformed ''Malformed table of contents.'' entry_header)
               else (case validate data entry_header of
                       Inl e \<Rightarrow> Inl e
                     | Inr _ \<Rightarrow>
                         (case toc_scan data rest of
                            Inl e \<Rightarrow> Inl e
                          | Inr entries \<Rightarrow> Inr ((entry_header, pointer) # entries))))"

definition ARDFTableOfContents_unpack :: "mmap \<Rightarrow> ARDFHeader \<Rightarrow> error + ARDFTableOfContents" where
  "ARDFTableOfContents_unpack data header =
     (if h_size header \<noteq> 32 then Inl (Malformed ''Malformed table of contents'' header)
      else case validate data header of
        Inl e \<Rightarrow> Inl e
      | Inr _ \<Rightarrow>
          (case toc_prebody data (h_offset header) of
             Inl e \<Rightarrow> Inl e
           | Inr (sz, nentries, stride) \<Rightarrow>
               if stride \<noteq> 24 then Inl AssertionError
               else if int sz - 32 \<noteq> int (nentries * stride) then Inl AssertionError
               else (case toc_scan data
                            (py_range (h_offset header + 32) (h_offset header + sz) stride) of
                       Inl e \<Rightarrow> Inl e
                     | Inr entries \<Rightarrow>
                         Inr \<lparr>toc_offset = h_offset header, toc_size = sz,
                              toc_entries = entries\<rparr>)))"

record ARDFTextTableOfContents =
  ttoc_offset :: nat
  ttoc_size :: nat
  ttoc_entries :: "(ARDFHeader \<times> nat) list"

text \<open>
  The entry loop of \<open>ARDFTextTableOfContents.unpack\<close>: format \<open><LL4sLQQ\<close>, 32 bytes, the
  pointer last.
\<close>

fun ttoc_scan :: "mmap \<Rightarrow> nat list \<Rightarrow> error + (ARDFHeader \<times> nat) list" where
  "ttoc_scan data [] = Inr []"
| "ttoc_scan data (entry_offset # rest) =
     (case unpack_from 32 data entry_offset of
        Inl e \<Rightarrow> Inl e
      | Inr bs \<Rightarrow>
          let pointer = field bs 24 8 in
          if pointer = 0 then Inr []
          else
            let entry_header = \<lparr>h_offset = entry_offset, h_crc = field bs 0 4,
                  h_size = field bs 4 4, h_name = take 4 (drop 8 bs), h_flags = field bs 12 4\<rparr>
            in if h_name entry_header \<noteq> tag ''TOFF''
               then Inl (Malformed ''Malformed text table entry.'' entry_header)
               else (case validate data entry_header of
                       Inl e \<Rightarrow> Inl e
                     | Inr _ \<Rightarrow>
                         (case ttoc_scan data rest of
                            Inl e \<Rightarrow> Inl e
                          | Inr entries \<Rightarrow> Inr ((entry_header, pointer) # entries))))"

definition ARDFTextTableOfContents_unpack ::
    "mmap \<Rightarrow> ARDFHeader \<Rightarrow> error + ARDFTextTableOfContents" where
  "ARDFTextTableOfContents_unpack data header =
     (if h_size header \<noteq> 32 \<or> h_name header \<noteq> tag ''TTOC''
      then Inl (Malformed ''Malformed text table of contents.'' header)
      else case validate data header of
        Inl e \<Rightarrow> Inl e
      | Inr _ \<Rightarrow>
          (case toc_prebody data (h_offset header) of
             Inl e \<Rightarrow> Inl e
           | Inr (sz, nentries, stride) \<Rightarrow>
               if stride \<noteq> 32 then Inl AssertionError
               else if int sz - 32 \<noteq> int (nentries * stride) then Inl AssertionError
               else (case ttoc_scan data
                            (py_range (h_offset header + 32) (h_offset header + sz) stride) of
                       Inl e \<Rightarrow> Inl e
                     | Inr entries \<Rightarrow>
                         Inr \<lparr>ttoc_offset = h_offset header, ttoc_size = sz,
                              ttoc_entries = entries\<rparr>)))"

record ARDFVolumeTableOfContents =
  vtoc_offset :: nat
  vtoc_size :: nat
  vtoc_lines :: "nat list"
  vtoc_points :: "nat list"
  vtoc_pointers :: "nat list"

text \<open>
  The entry loop of \<open>ARDFVolumeTableOfContents.unpack\<close>, over the enumerated entry
  offsets. The structured array \<open>vtoc_arr\<close> is a list of rows
  \<open>(force_index, line, point, pointer)\<close>, zero-filled at first; an entry with a zero
  checksum (an interrupted scan) truncates it and ends the loop.
\<close>

fun vtoc_scan :: "mmap \<Rightarrow> (nat \<times> nat) list \<Rightarrow> (nat \<times> nat \<times> nat \<times> nat) list
    \<Rightarrow> error + (nat \<times> nat \<times> nat \<times> nat) list" where
  "vtoc_scan data [] vtoc_arr = Inr vtoc_arr"
| "vtoc_scan data ((i, entry_offset) # rest) vtoc_arr =
     (case ARDFHeader_unpack data entry_offset of
        Inl e \<Rightarrow> Inl e
      | Inr entry_header \<Rightarrow>
          if h_crc entry_header = 0 then Inr (take i vtoc_arr)
          else if h_name entry_header \<noteq> tag ''VOFF''
          then Inl (Malformed ''Malformed volume table entry.'' entry_header)
          else (case validate data entry_header of
                  Inl e \<Rightarrow> Inl e
                | Inr _ \<Rightarrow>
                    (case unpack_from 24 data (entry_offset + 16) of
                       Inl e \<Rightarrow> Inl e
                     | Inr bs \<Rightarrow>
                         if i < length vtoc_arr
                         then vtoc_scan data rest
                                (vtoc_arr[i := (field bs 0 4, field bs 4 4, field bs 8 8, field bs 16 8)])
                         else Inl IndexError)))"

definition ARDFVolumeTableOfContents_unpack ::
    "mmap \<Rightarrow> ARDFHeader \<Rightarrow> error + ARDFVolumeTableOfContents" where
  "ARDFVolumeTableOfContents_unpack data header =
     (if h_size header \<noteq> 32 \<or> h_name header \<noteq> tag ''VTOC''
      then Inl (Malformed ''Malformed volume table of contents.'' header)
      else case toc_prebody data (h_offset header) of
        Inl e \<Rightarrow> Inl e
      | Inr (sz, nentries, stride) \<Rightarrow>
          if stride \<noteq> 40 then Inl AssertionError
          else if int sz - 32 \<noteq> int (nentries * stride) then Inl AssertionError
          else
            let offsets = py_range (h_offset header + 32) (h_offset header + sz) stride
            in (case vtoc_scan data (zip [0..<length offsets] offsets)
                       (replicate nentries (0, 0, 0, 0)) of
                  Inl e \<Rightarrow> Inl e
                | Inr vtoc_arr \<Rightarrow>
                    Inr \<lparr>vtoc_offset = h_offset header, vtoc_size = sz,
                         vtoc_lines = map (\<lambda>(f, l, p, q). l) vtoc_arr,
                         vtoc_points = map (\<lambda>(f, l, p, q). p) vtoc_arr,
                         vtoc_pointers = map (\<lambda>(f, l, p, q). q) vtoc_arr\<rparr>))"

section \<open>Volume sets and volume data\<close>

record ARDFVset =
  vset_offset :: nat
  vset_size :: nat
  vset_force_index :: nat
  vset_line :: nat
  vset_point :: nat
  vset_vtype :: nat
  vset_prev_vset_offset :: nat
  vset_next_vset_offset :: nat

text \<open>\<open>ARDFVset.unpack\<close>: format \<open><LLLLQQ\<close> after the header; the size is the constant 48.\<close>

definition ARDFVset_unpack :: "mmap \<Rightarrow> ARDFHeader \<Rightarrow> error + ARDFVset" where
  "ARDFVset_unpack data vset_header =
     (if h_name vset_header \<noteq> tag ''VSET''
      then Inl (Malformed ''malformed VSET header'' vset_header)
      else case validate data vset_header of
        Inl e \<Rightarrow> Inl e
      | Inr _ \<Rightarrow>
          (case unpack_from 32 data (h_offset vset_header + 16) of
             Inl e \<Rightarrow> Inl e
           | Inr bs \<Rightarrow>
               Inr \<lparr>vset_offset = h_offset vset_header, vset_size = 48,
                    vset_force_index = field bs 0 4, vset_line = field bs 4 4,
                    vset_point = field bs 8 4, vset_vtype = field bs 12 4,
                    vset_prev_vset_offset = field bs 16 8,
                    vset_next_vset_offset = field bs 24 8\<rparr>))"

record ARDFVdata =
  vdat_offset :: nat
  vdat_size :: nat
  vdat_force_index :: nat
  vdat_line :: nat
  vdat_point :: nat
  vdat_nfloats :: nat
  vdat_channel :: nat
  vdat_seg_offsets :: "nat list"

text \<open>\<open>ARDFVdata.unpack\<close>: format \<open><10L\<close> after the header; the size is the constant 56.\<close>

definition ARDFVdata_unpack :: "mmap \<Rightarrow> ARDFHeader \<Rightarrow> error + ARDFVdata" where
  "ARDFVdata_unpack data header =
     (case unpack_from 40 data (h_offset header + 16) of
        Inl e \<Rightarrow> Inl e
      | Inr bs \<Rightarrow>
          Inr \<lparr>vdat_offset = h_offset header, vdat_size = 56,
               vdat_force_index = field bs 0 4, vdat_line = field bs 4 4,
               vdat_point = field bs 8 4, vdat_nfloats = field bs 12 4,
               vdat_channel = field bs 16 4,
               vdat_seg_offsets = map (\<lambda>k. field bs (20 + 4 * k) 4) [0..<5]\<rparr>)"

definition array_offset :: "ARDFVdata \<Rightarrow> nat" where
  "array_offset vdat = vdat_offset vdat + vdat_size vdat"

text \<open>
  A sample of a curve. The arithmetic of 32-bit floats is not modelled: \<open>Scaled w\<close> is
  the float whose bits in the file are \<open>w\<close>, multiplied by
  \<open>NANOMETER_UNIT_CONVERSION\<close>, and \<open>NaN\<close> is the fill value of the placeholder
  curve. Two samples that are equal here are the same value bit for bit.
\<close>

datatype sample = NaN | Scaled "32 word"

text \<open>
  \<open>ARDFVdata.get_ndarray\<close>: a float array overlaid on the map after the header. NumPy
  refuses the overlay when the map ends before the array does.
\<close>

definition get_ndarray :: "mmap \<Rightarrow> ARDFVdata \<Rightarrow> error + sample list" where
  "get_ndarray data vdat =
     (if array_offset vdat + vdat_nfloats vdat * 4 \<le> length data
      then Inr (map (\<lambda>k. Scaled (of_nat (field data (array_offset vdat + 4 * k) 4)))
                 [0..<vdat_nfloats vdat])
      else Inl BufferTooSmall)"

section \<open>The force-map reader\<close>

record ARDFVchan =
  vchan_name :: string
  vchan_unit :: string

type_synonym ChanMap = "string \<rightharpoonup> nat \<times> ARDFVchan"

text \<open>A curve: \<open>(zxr, dxr)\<close>, the approach and retract halves of height and deflection.\<close>

type_synonym curve = "(sample list \<times> sample list) \<times> (sample list \<times> sample list)"

text \<open>
  The reader and its traversal cache \<open>_seen_vsets\<close>, a dictionary from
  \<open>(line, point, vtype)\<close> to the volume set first seen with that index.
\<close>

record ARDFForceMapReader =
  fm_data :: mmap
  fm_vtoc :: ARDFVolumeTableOfContents
  fm_lines :: nat
  fm_points :: nat
  fm_vtype :: nat
  fm_channels :: ChanMap
  fm_seen_vsets :: "nat \<times> nat \<times> nat \<rightharpoonup> ARDFVset"

definition zname :: "ARDFForceMapReader \<Rightarrow> string" where
  "zname rd = (if ''Raw'' \<in> dom (fm_channels rd) then ''Raw'' else ''ZSnsr'')"

text \<open>\<open>self.channels[name][0]\<close>.\<close>

definition channel_index :: "ChanMap \<Rightarrow> string \<Rightarrow> error + nat" where
  "channel_index channels name =
     (case channels name of None \<Rightarrow> Inl KeyError | Some (i, vchn) \<Rightarrow> Inr i)"

text \<open>
  \<open>numpy.searchsorted\<close> with one key and the default side: the library's binary search,
  which returns the leftmost insertion point when the array is sorted.
\<close>

function bisect_left :: "nat list \<Rightarrow> nat \<Rightarrow> nat \<Rightarrow> nat \<Rightarrow> nat" where
  "bisect_left a key min_idx max_idx =
     (if min_idx < max_idx
      then let mid_idx = min_idx + (max_idx - min_idx) div 2
           in if a ! mid_idx < key then bisect_left a key (mid_idx + 1) max_idx
              else bisect_left a key min_idx mid_idx
      else min_idx)"
  by pat_completeness auto
termination
  by (relation "measure (\<lambda>(a, key, min_idx, max_idx). max_idx - min_idx)") auto

declare bisect_left.simps [simp del]

definition searchsorted :: "nat list \<Rightarrow> nat \<Rightarrow> nat" where
  "searchsorted a key = bisect_left a key 0 (length a)"

text \<open>The placeholder \<open>np.full(shape=(2, 2, 100), fill_value=np.nan)\<close>.\<close>

definition nan_curve :: curve where
  "nan_curve = ((replicate 100 NaN, replicate 100 NaN), (replicate 100 NaN, replicate 100 NaN))"

text \<open>
  The bisection of \<open>get_curve\<close> for the row pointer: \<open>Inr None\<close> when the row is not in
  the line column. Indexing an empty column raises.
\<close>

definition bisect_row_pointer :: "ARDFVolumeTableOfContents \<Rightarrow> nat \<Rightarrow> error + nat option" where
  "bisect_row_pointer vtoc r =
     (if vtoc_lines vtoc = [] then Inl IndexError
      else
        let reversed = hd (vtoc_lines vtoc) > last (vtoc_lines vtoc);
            lines_sl = (if reversed then rev (vtoc_lines vtoc) else vtoc_lines vtoc);
            pointers_sl = (if reversed then rev (vtoc_pointers vtoc) else vtoc_pointers vtoc);
            i = searchsorted lines_sl r
        in if i \<ge> length (vtoc_lines vtoc) \<or> r \<noteq> lines_sl ! i then Inr None
           else if i < length pointers_sl then Inr (Some (pointers_sl ! i))
           else Inl IndexError)"

text \<open>
  One step of the generator \<open>traverse_vsets\<close>, from a pointer to its next \<open>yield\<close>:
  \<open>Inr None\<close> when the chain ends at a header that is not a VSET. The volume set is
  entered into the cache before it is yielded.
\<close>

definition next_vset :: "mmap \<Rightarrow> (nat \<times> nat \<times> nat \<rightharpoonup> ARDFVset) \<Rightarrow> nat
    \<Rightarrow> error + (ARDFVset \<times> (nat \<times> nat \<times> nat \<rightharpoonup> ARDFVset)) option" where
  "next_vset data seen pointer =
     (case ARDFHeader_unpack data pointer of
        Inl e \<Rightarrow> Inl e
      | Inr header \<Rightarrow>
          if h_name header \<noteq> tag ''VSET'' then Inr None
          else (case ARDFVset_unpack data header of
                  Inl e \<Rightarrow> Inl e
                | Inr vset \<Rightarrow>
                    let index = (vset_line vset, vset_point vset, vset_vtype vset)
                    in Inr (Some (vset, if index \<notin> dom seen then seen(index \<mapsto> vset) else seen))))"

text \<open>
  The loop of \<open>get_curve\<close> over a row: it follows the chain, filling the cache, and
  breaks at the first volume set of another line. The chain may be cyclic, so the loop
  takes fuel: \<open>None\<close> is a loop that has not ended within it.
\<close>

fun fill_row :: "nat \<Rightarrow> mmap \<Rightarrow> nat \<Rightarrow> nat \<Rightarrow> (nat \<times> nat \<times> nat \<rightharpoonup> ARDFVset)
    \<Rightarrow> (error + (nat \<times> nat \<times> nat \<rightharpoonup> ARDFVset)) option" where
  "fill_row 0 data r pointer seen = None"
| "fill_row (Suc fuel) data r pointer seen =
     (case next_vset data seen pointer of
        Inl e \<Rightarrow> Some (Inl e)
      | Inr None \<Rightarrow> Some (Inr seen)
      | Inr (Some (vset, seen')) \<Rightarrow>
          if vset_line vset \<noteq> r then Some (Inr seen')
          else fill_row fuel data r (vset_next_vset_offset vset) seen')"

text \<open>
  The generator \<open>traverse_vdats\<close>: its prelude steps over the VNAM chunk, then each step
  yields one VDAT chunk and the pointer behind it, or ends at another header.
\<close>

definition vdats_start :: "mmap \<Rightarrow> nat \<Rightarrow> error + nat" where
  "vdats_start data pointer =
     (case ARDFHeader_unpack data pointer of
        Inl e \<Rightarrow> Inl e
      | Inr vnam_header \<Rightarrow>
          if h_name vnam_header \<noteq> tag ''VNAM''
          then Inl (Malformed ''Malformed volume name'' vnam_header)
          else (case validate data vnam_header of
                  Inl e \<Rightarrow> Inl e
                | Inr _ \<Rightarrow> Inr (h_offset vnam_header + h_size vnam_header)))"

definition next_vdat :: "mmap \<Rightarrow> nat \<Rightarrow> error + (ARDFVdata \<times> nat) option" where
  "next_vdat data pointer =
     (case ARDFHeader_unpack data pointer of
        Inl e \<Rightarrow> Inl e
      | Inr vdat_header \<Rightarrow>
          if h_name vdat_header \<noteq> tag ''VDAT'' then Inr None
          else (case validate data vdat_header of
                  Inl e \<Rightarrow> Inl e
                | Inr _ \<Rightarrow>
                    (case ARDFVdata_unpack data vdat_header of
                       Inl e \<Rightarrow> Inl e
                     | Inr vdat \<Rightarrow>
                         Inr (Some (vdat, h_offset vdat_header + h_size vdat_header)))))"

text \<open>\<open>z[: s[1]], z[s[1] : s[2]]\<close>.\<close>

definition split_xr :: "sample list \<Rightarrow> nat list \<Rightarrow> sample list \<times> sample list" where
  "split_xr z s = (py_slice z 0 (s ! 1), py_slice z (s ! 1) (s ! 2))"

text \<open>
  The body of the loop over the volume data, the same in \<open>get_curve\<close> and
  \<open>iter_curves\<close>; the local variables \<open>zxr\<close> and \<open>dxr\<close> are optional, for they may
  not have been assigned yet.
\<close>

definition select_channel :: "ARDFForceMapReader \<Rightarrow> string \<Rightarrow> ARDFVdata
    \<Rightarrow> (sample list \<times> sample list) option \<times> (sample list \<times> sample list) option
    \<Rightarrow> error + (sample list \<times> sample list) option \<times> (sample list \<times> sample list) option" where
  "select_channel rd zn vdat zd =
     (let s = vdat_seg_offsets vdat in
      case channel_index (fm_channels rd) zn of
        Inl e \<Rightarrow> Inl e
      | Inr zi \<Rightarrow>
          if vdat_channel vdat = zi
          then (case get_ndarray (fm_data rd) vdat of
                  Inl e \<Rightarrow> Inl e
                | Inr z \<Rightarrow> Inr (Some (split_xr z s), snd zd))
          else (case channel_index (fm_channels rd) ''Defl'' of
                  Inl e \<Rightarrow> Inl e
                | Inr di \<Rightarrow>
                    if vdat_channel vdat = di
                    then (case get_ndarray (fm_data rd) vdat of
                            Inl e \<Rightarrow> Inl e
                          | Inr d \<Rightarrow> Inr (fst zd, Some (split_xr d s)))
                    else Inr zd))"

fun read_vdats :: "nat \<Rightarrow> ARDFForceMapReader \<Rightarrow> string \<Rightarrow> nat
    \<Rightarrow> (sample list \<times> sample list) option \<times> (sample list \<times> sample list) option
    \<Rightarrow> (error + (sample list \<times> sample list) option \<times> (sample list \<times> sample list) option) option" where
  "read_vdats 0 rd zn pointer zd = None"
| "read_vdats (Suc fuel) rd zn pointer zd =
     (case next_vdat (fm_data rd) pointer of
        Inl e \<Rightarrow> Some (Inl e)
      | Inr None \<Rightarrow> Some (Inr zd)
      | Inr (Some (vdat, pointer')) \<Rightarrow>
          (case select_channel rd zn vdat zd of
             Inl e \<Rightarrow> Some (Inl e)
           | Inr zd' \<Rightarrow> read_vdats fuel rd zn pointer' zd'))"

text \<open>\<open>for vdat in self.traverse_vdats(vset.offset + vset.size): ...\<close>\<close>

definition read_zd :: "nat \<Rightarrow> ARDFForceMapReader \<Rightarrow> string \<Rightarrow> ARDFVset
    \<Rightarrow> (sample list \<times> sample list) option \<times> (sample list \<times> sample list) option
    \<Rightarrow> (error + (sample list \<times> sample list) option \<times> (sample list \<times> sample list) option) option" where
  "read_zd fuel rd zn vset zd =
     (case vdats_start (fm_data rd) (vset_offset vset + vset_size vset) of
        Inl e \<Rightarrow> Some (Inl e)
      | Inr pointer \<Rightarrow> read_vdats fuel rd zn pointer zd)"

text \<open>Reading \<open>zxr, dxr\<close>: a local variable that was never assigned raises.\<close>

definition bound_zd :: "(sample list \<times> sample list) option \<times> (sample list \<times> sample list) option
    \<Rightarrow> error + curve" where
  "bound_zd zd =
     (case zd of
        (Some zxr, Some dxr) \<Rightarrow> Inr (zxr, dxr)
      | _ \<Rightarrow> Inl UnboundLocalError)"

text \<open>
  The block of \<open>get_curve\<close> under \<open>if curve not in self._seen_vsets\<close>: the cache after
  it, or \<open>Inr None\<close> where the source returns the placeholder.
\<close>

definition seek_row :: "nat \<Rightarrow> ARDFForceMapReader \<Rightarrow> nat
    \<Rightarrow> (error + (nat \<times> nat \<times> nat \<rightharpoonup> ARDFVset) option) option" where
  "seek_row fuel rd r =
     (case bisect_row_pointer (fm_vtoc rd) r of
        Inl e \<Rightarrow> Some (Inl e)
      | Inr None \<Rightarrow> Some (Inr None)
      | Inr (Some pointer) \<Rightarrow>
          (case fill_row fuel (fm_data rd) r pointer (fm_seen_vsets rd) of
             None \<Rightarrow> None
           | Some (Inl e) \<Rightarrow> Some (Inl e)
           | Some (Inr seen) \<Rightarrow> Some (Inr (Some seen))))"

text \<open>
  \<open>ARDFForceMapReader.get_curve\<close>: the curve and the reader with its cache as the call
  leaves it. The row and column are Python integers.
\<close>

definition get_curve :: "nat \<Rightarrow> ARDFForceMapReader \<Rightarrow> int \<Rightarrow> int
    \<Rightarrow> (error + curve \<times> ARDFForceMapReader) option" where
  "get_curve fuel rd r c =
     (if \<not> (0 \<le> r \<and> r < int (fm_lines rd) \<and> 0 \<le> c \<and> c < int (fm_points rd))
      then Some (Inl (IndexOutOfRange (fm_lines rd, fm_points rd) (r, c)))
      else
        let curve = (nat r, nat c, fm_vtype rd) in
        case (if curve \<notin> dom (fm_seen_vsets rd) then seek_row fuel rd (nat r)
              else Some (Inr (Some (fm_seen_vsets rd)))) of
          None \<Rightarrow> None
        | Some (Inl e) \<Rightarrow> Some (Inl e)
        | Some (Inr None) \<Rightarrow> Some (Inr (nan_curve, rd))
        | Some (Inr (Some seen)) \<Rightarrow>
            (case seen curve of
               None \<Rightarrow> Some (Inl KeyError)
             | Some vset \<Rightarrow>
                 (case read_zd fuel rd (zname rd) vset (None, None) of
                    None \<Rightarrow> None
                  | Some (Inl e) \<Rightarrow> Some (Inl e)
                  | Some (Inr zd) \<Rightarrow>
                      (case bound_zd zd of
                         Inl e \<Rightarrow> Some (Inl e)
                       | Inr zdxr \<Rightarrow> Some (Inr (zdxr, rd\<lparr>fm_seen_vsets := seen\<rparr>))))))"

text \<open>
  \<open>ARDFForceMapReader.iter_curves\<close> is a generator. The model gives what it has yielded,
  in order, the cache, and how it stopped: exhausted (the chain ended), by an exception,
  or still running when the fuel was spent. The local variables \<open>zxr\<close> and \<open>dxr\<close>
  live across the iterations of the outer loop.
\<close>

datatype stop = Exhausted | Raised error | OutOfFuel



subsection \<open>Loading every curve\<close>

text \<open>
  Python's \<open>xs[a:b]\<close> for integer bounds: a negative bound counts from the end, and both
  are clamped to the list.
\<close>

definition py_clamp :: "int \<Rightarrow> nat \<Rightarrow> nat" where
  "py_clamp i n = (if i < 0 then nat (max 0 (int n + i)) else min (nat i) n)"

definition py_slice_int :: "'a list \<Rightarrow> int \<Rightarrow> int \<Rightarrow> 'a list" where
  "py_slice_int xs a b = py_slice xs (py_clamp a (length xs)) (py_clamp b (length xs))"

text \<open>
  The inner loop of \<open>get_all_curves\<close> over the volume data of one volume set. Its
  local variables are \<open>zvdat\<close>, \<open>dvdat\<close> and the loop variable \<open>vdat\<close>, which the outer
  loop reads after it. The height channel is looked up under the name \<open>"ZSnsr"\<close>.
\<close>

fun gather_vdats :: "nat \<Rightarrow> ARDFForceMapReader \<Rightarrow> nat
    \<Rightarrow> ARDFVdata option \<times> ARDFVdata option \<times> ARDFVdata option
    \<Rightarrow> (error + ARDFVdata option \<times> ARDFVdata option \<times> ARDFVdata option) option" where
  "gather_vdats 0 rd pointer st = None"
| "gather_vdats (Suc fuel) rd pointer (zvdat, dvdat, last_vdat) =
     (case next_vdat (fm_data rd) pointer of
        Inl e \<Rightarrow> Some (Inl e)
      | Inr None \<Rightarrow> Some (Inr (zvdat, dvdat, last_vdat))
      | Inr (Some (vdat, pointer')) \<Rightarrow>
          (case channel_index (fm_channels rd) ''ZSnsr'' of
             Inl e \<Rightarrow> Some (Inl e)
           | Inr zi \<Rightarrow>
               if vdat_channel vdat = zi
               then gather_vdats fuel rd pointer' (Some vdat, dvdat, Some vdat)
               else (case channel_index (fm_channels rd) ''Defl'' of
                       Inl e \<Rightarrow> Some (Inl e)
                     | Inr di \<Rightarrow>
                         if vdat_channel vdat = di
                         then gather_vdats fuel rd pointer' (zvdat, Some vdat, Some vdat)
                         else gather_vdats fuel rd pointer' (zvdat, dvdat, Some vdat))))"

text \<open>
  The first loop of \<open>get_all_curves\<close>. The dictionary \<open>vdats\<close> keeps its keys in the
  order of their first insertion; \<open>AList.update\<close> does the same. \<open>bound\<close> records
  whether the loop variable \<open>vset\<close> was ever assigned.
\<close>

record gathered =
  g_minext :: nat
  g_vdats :: "((nat \<times> nat) \<times> ARDFVdata \<times> ARDFVdata) list"
  g_locals :: "ARDFVdata option \<times> ARDFVdata option \<times> ARDFVdata option"
  g_vset_bound :: bool
  g_seen :: "nat \<times> nat \<times> nat \<rightharpoonup> ARDFVset"

fun gather_vsets :: "nat \<Rightarrow> ARDFForceMapReader \<Rightarrow> nat \<Rightarrow> gathered
    \<Rightarrow> (error + gathered) option" where
  "gather_vsets 0 rd pointer g = None"
| "gather_vsets (Suc fuel) rd pointer g =
     (case next_vset (fm_data rd) (g_seen g) pointer of
        Inl e \<Rightarrow> Some (Inl e)
      | Inr None \<Rightarrow> Some (Inr g)
      | Inr (Some (vset, seen')) \<Rightarrow>
          if vset_vtype vset \<noteq> fm_vtype rd
          then gather_vsets fuel rd (vset_next_vset_offset vset)
                 (g\<lparr>g_vset_bound := True, g_seen := seen'\<rparr>)
          else (case vdats_start (fm_data rd) (vset_offset vset + vset_size vset) of
                  Inl e \<Rightarrow> Some (Inl e)
                | Inr p \<Rightarrow>
                    (case gather_vdats fuel rd p (g_locals g) of
                       None \<Rightarrow> None
                     | Some (Inl e) \<Rightarrow> Some (Inl e)
                     | Some (Inr (Some zvdat, Some dvdat, Some vdat)) \<Rightarrow>
                         gather_vsets fuel rd (vset_next_vset_offset vset)
                           \<lparr>g_minext = min (g_minext g) (vdat_seg_offsets vdat ! 1),
                            g_vdats = AList.update (vset_line vset, vset_point vset)
                                        (zvdat, dvdat) (g_vdats g),
                            g_locals = (Some zvdat, Some dvdat, Some vdat),
                            g_vset_bound = True, g_seen = seen'\<rparr>
                     | Some (Inr _) \<Rightarrow> Some (Inl UnboundLocalError))))"

text \<open>
  The second loop: each gathered pixel is cut around its split point and stored. The
  result array starts uninitialised (\<open>np.empty\<close>); the model is the dictionary of the
  pixels that were assigned, each with its height and deflection rows already reshaped
  into approach and retract halves.
\<close>

definition assign_row :: "nat \<Rightarrow> sample list \<Rightarrow> sample list
    \<Rightarrow> error + sample list \<times> sample list" where
  "assign_row minfloats z d =
     (if length z \<noteq> length d then Inl ShapeMismatch
      else if length z = minfloats then Inr (z, d)
      else if length z = 1 then Inr (replicate minfloats (hd z), replicate minfloats (hd d))
      else Inl ShapeMismatch)"

fun fill_curves :: "ARDFForceMapReader \<Rightarrow> nat
    \<Rightarrow> ((nat \<times> nat) \<times> ARDFVdata \<times> ARDFVdata) list
    \<Rightarrow> (nat \<times> nat \<rightharpoonup> curve) \<Rightarrow> error + (nat \<times> nat \<rightharpoonup> curve)" where
  "fill_curves rd minext [] x = Inr x"
| "fill_curves rd minext (((r, c), (zvdat, dvdat)) # rest) x =
     (let minfloats = 2 * minext;
          floats = vdat_seg_offsets zvdat ! 1 * 2;
          halfextra = (int floats - int minfloats) div 2
      in case get_ndarray (fm_data rd) zvdat of
           Inl e \<Rightarrow> Inl e
         | Inr z \<Rightarrow>
             (case get_ndarray (fm_data rd) dvdat of
                Inl e \<Rightarrow> Inl e
              | Inr d \<Rightarrow>
                  if \<not> (r < fm_lines rd \<and> c < fm_points rd) then Inl IndexError
                  else (case assign_row minfloats
                               (py_slice_int z halfextra (int minfloats + halfextra))
                               (py_slice_int d halfextra (int minfloats + halfextra)) of
                          Inl e \<Rightarrow> Inl e
                        | Inr (zrow, drow) \<Rightarrow>
                            fill_curves rd minext rest
                              (x((r, c) \<mapsto> ((take minext zrow, drop minext zrow),
                                             (take minext drow, drop minext drow)))))))"

text \<open>
  \<open>np.empty(shape, dtype)\<close> multiplies the item size by every dimension that is not
  zero and raises \<open>ValueError\<close> when the product leaves the range of a signed 64-bit
  integer. (Below that bound the allocation itself may still fail for lack of memory,
  which depends on the machine and is not modelled.)
\<close>

definition np_empty_too_big :: "nat list \<Rightarrow> nat \<Rightarrow> bool" where
  "np_empty_too_big shape itemsize \<longleftrightarrow>
     0x7FFFFFFFFFFFFFFF < itemsize * prod_list (filter (\<lambda>d. d \<noteq> 0) shape)"

text \<open>
  \<open>ARDFForceMapReader.get_all_curves\<close>. The final \<open>reshape\<close> to
  \<open>(lines, points, 2, 2, -1)\<close> cannot infer the last dimension, and raises, only when
  the grid is empty; with \<open>minext = 0\<close> on a grid that is not, it returns curves of no
  samples.
\<close>

definition get_all_curves :: "nat \<Rightarrow> ARDFForceMapReader
    \<Rightarrow> (error + (nat \<times> nat \<rightharpoonup> curve)) option" where
  "get_all_curves fuel rd =
     (case vtoc_pointers (fm_vtoc rd) of
        [] \<Rightarrow> Some (Inl IndexError)
      | pointer # _ \<Rightarrow>
          (case gather_vsets fuel rd pointer
                  \<lparr>g_minext = 0xFFFFFFFF, g_vdats = [], g_locals = (None, None, None),
                   g_vset_bound = False, g_seen = fm_seen_vsets rd\<rparr> of
             None \<Rightarrow> None
           | Some (Inl e) \<Rightarrow> Some (Inl e)
           | Some (Inr g) \<Rightarrow>
               if \<not> g_vset_bound g \<or> snd (snd (g_locals g)) = None
               then Some (Inl UnboundLocalError)
               else if np_empty_too_big [fm_lines rd, fm_points rd, 2, 2 * g_minext g] 4
               then Some (Inl ArrayTooBig)
               else (case fill_curves rd (g_minext g) (g_vdats g) Map.empty of
                       Inl e \<Rightarrow> Some (Inl e)
                     | Inr x \<Rightarrow>
                         if fm_lines rd * fm_points rd = 0
                         then Some (Inl ShapeMismatch)
                         else Some (Inr x))))"

section \<open>Volumes\<close>

text \<open>
  Text is decoded as windows-1252, which leaves five bytes undefined; a decoded character
  is modelled by the character of the same code. \<open>decode_cstring\<close> strips the trailing
  zero bytes first.
\<close>

definition decode_1252 :: "byte list \<Rightarrow> error + string" where
  "decode_1252 bs =
     (if \<exists>b\<in>set bs. b \<in> {0x81, 0x8D, 0x8F, 0x90, 0x9D} then Inl UnicodeDecodeError
      else Inr (map (\<lambda>b. char_of (unat b)) bs))"

definition decode_cstring :: "byte list \<Rightarrow> error + string" where
  "decode_cstring cstring = decode_1252 (rev (dropWhile (\<lambda>b. b = 0) (rev cstring)))"

text \<open>Python's \<open>s.split(sep)\<close> for a separator of one character.\<close>

fun split_on :: "char \<Rightarrow> string \<Rightarrow> string list" where
  "split_on sep [] = [[]]"
| "split_on sep (x # xs) =
     (if x = sep then [] # split_on sep xs
      else (case split_on sep xs of
              [] \<Rightarrow> [[x]]
            | piece # pieces \<Rightarrow> (x # piece) # pieces))"

text \<open>\<open>ARDFVchan.unpack\<close>: two strings of 32 bytes after the header.\<close>

definition ARDFVchan_unpack :: "mmap \<Rightarrow> ARDFHeader \<Rightarrow> error + ARDFVchan" where
  "ARDFVchan_unpack data header =
     (if h_size header \<noteq> 80 \<or> h_name header \<noteq> tag ''VCHN''
      then Inl (Malformed ''Malformed channel definition.'' header)
      else case validate data header of
        Inl e \<Rightarrow> Inl e
      | Inr _ \<Rightarrow>
          (case unpack_from 64 data (h_offset header + 16) of
             Inl e \<Rightarrow> Inl e
           | Inr bs \<Rightarrow>
               (case decode_cstring (take 32 bs) of
                  Inl e \<Rightarrow> Inl e
                | Inr name \<Rightarrow>
                    (case decode_cstring (take 32 (drop 32 bs)) of
                       Inl e \<Rightarrow> Inl e
                     | Inr unit \<Rightarrow> Inr \<lparr>vchan_name = name, vchan_unit = unit\<rparr>))))"

record ARDFXdef =
  xdef_offset :: nat
  xdef_size :: nat
  xdef_xdef :: "string list"

text \<open>
  \<open>ARDFXdef.unpack\<close>: the experiment definition is a string of \<open>nchars\<close> characters
  read from the map at \<open>offset + 24\<close>; a read stops at the end of the map.
\<close>

definition ARDFXdef_unpack :: "mmap \<Rightarrow> ARDFHeader \<Rightarrow> error + ARDFXdef" where
  "ARDFXdef_unpack data header =
     (if h_size header \<noteq> 96 \<or> h_name header \<noteq> tag ''XDEF''
      then Inl (Malformed ''Malformed experiment definition.'' header)
      else case validate data header of
        Inl e \<Rightarrow> Inl e
      | Inr _ \<Rightarrow>
          (case unpack_from 8 data (h_offset header + 16) of
             Inl e \<Rightarrow> Inl e
           | Inr bs \<Rightarrow>
               let nchars = field bs 4 4 in
               if field bs 0 4 \<noteq> 0 then Inl AssertionError
               else if nchars > h_size header
               then Inl (Malformed ''Experiment definition too long.'' header)
               else (case decode_1252
                            (py_slice data (h_offset header + 24) (h_offset header + 24 + nchars)) of
                       Inl e \<Rightarrow> Inl e
                     | Inr text \<Rightarrow>
                         Inr \<lparr>xdef_offset = h_offset header, xdef_size = h_size header,
                              xdef_xdef = butlast (split_on CHR '';'' text)\<rparr>)))"

text \<open>
  The loop of \<open>parse_volm\<close> over the implicit table of channels, \<open>for i in range(5)\<close>:
  it ends at the first header that is not a VCHN, which it hands on with the channel map;
  running through all five indices raises.
\<close>

fun read_channels :: "mmap \<Rightarrow> nat list \<Rightarrow> nat \<Rightarrow> ChanMap \<Rightarrow> error + ARDFHeader \<times> ChanMap" where
  "read_channels data [] offset channels = Inl RuntimeError"
| "read_channels data (i # rest) offset channels =
     (case ARDFHeader_unpack data offset of
        Inl e \<Rightarrow> Inl e
      | Inr header \<Rightarrow>
          if h_name header \<noteq> tag ''VCHN'' then Inr (header, channels)
          else (case ARDFVchan_unpack data header of
                  Inl e \<Rightarrow> Inl e
                | Inr vchn \<Rightarrow>
                    if vchan_unit vchn \<noteq> ''m'' then Inl AssertionError
                    else read_channels data rest (h_offset header + h_size header)
                           (channels(vchan_name vchn \<mapsto> (i, vchn)))))"

text \<open>
  The volume definition chunk: format \<open><LL24sddd32s32s32s32sQ\<close> after the header, 192
  bytes. The three step sizes are doubles, kept as their 64 bits.
\<close>

record vdef_fields =
  vdef_points :: nat
  vdef_lines :: nat
  vdef_reserved :: "byte list"
  vdef_x_step :: "64 word"
  vdef_y_step :: "64 word"
  vdef_t_step :: "64 word"
  vdef_cstrings :: "byte list list"
  vdef_nseg :: nat

definition unpack_vdef :: "mmap \<Rightarrow> nat \<Rightarrow> error + vdef_fields" where
  "unpack_vdef data offset =
     (case unpack_from 192 data offset of
        Inl e \<Rightarrow> Inl e
      | Inr bs \<Rightarrow>
          Inr \<lparr>vdef_points = field bs 0 4, vdef_lines = field bs 4 4,
               vdef_reserved = take 24 (drop 8 bs),
               vdef_x_step = of_nat (field bs 32 8), vdef_y_step = of_nat (field bs 40 8),
               vdef_t_step = of_nat (field bs 48 8),
               vdef_cstrings = map (\<lambda>k. take 32 (drop (56 + 32 * k) bs)) [0..<4],
               vdef_nseg = field bs 184 8\<rparr>)"

record ARDFVolume =
  volm_offset :: nat
  volm_reader :: ARDFForceMapReader
  volm_shape :: "nat \<times> nat"
  volm_x_step :: "64 word"
  volm_y_step :: "64 word"
  volm_t_step :: "64 word"
  volm_x_units :: string
  volm_y_units :: string
  volm_t_units :: string
  volm_xdef :: ARDFXdef

text \<open>Sequencing of steps that may raise.\<close>

definition and_then :: "error + 'a \<Rightarrow> ('a \<Rightarrow> error + 'b) \<Rightarrow> error + 'b" where
  "and_then m f = (case m of Inl e \<Rightarrow> Inl e | Inr x \<Rightarrow> f x)"

definition require :: "bool \<Rightarrow> error \<Rightarrow> error + unit" where
  "require ok e = (if ok then Inr () else Inl e)"

text \<open>
  \<open>ARDFVolume.parse_volm\<close>. The branch that would build the dense-stride reader is
  guarded by \<open>if 0 and ...\<close> and never runs, so the reader is always the force-map
  reader; \<open>complete\<close>, which only that guard reads, is left out.
\<close>

definition parse_volm :: "mmap \<Rightarrow> ARDFHeader \<Rightarrow> error + ARDFVolume" where
  "parse_volm data volm_header =
     and_then (require (\<not> (h_size volm_header \<noteq> 32 \<or> h_name volm_header \<noteq> tag ''VOLM''))
                 (Malformed ''Malformed volume header.'' volm_header)) (\<lambda>_.
     and_then (ARDFTableOfContents_unpack data volm_header) (\<lambda>volm_toc.
     and_then (require (toc_entries volm_toc \<noteq> []) IndexError) (\<lambda>_.
     and_then (validate data (fst (last (toc_entries volm_toc)))) (\<lambda>_.
     and_then (ARDFHeader_unpack data (toc_offset volm_toc + toc_size volm_toc)) (\<lambda>ttoc_header.
     and_then (ARDFTextTableOfContents_unpack data ttoc_header) (\<lambda>ttoc.
     and_then (ARDFHeader_unpack data (ttoc_offset ttoc + ttoc_size ttoc)) (\<lambda>vdef_header.
     and_then (require (\<not> (h_name vdef_header \<noteq> tag ''VDEF'' \<or> h_size vdef_header \<noteq> 192 + 16))
                 (Malformed ''Malformed volume definition.'' vdef_header)) (\<lambda>_.
     and_then (validate data vdef_header) (\<lambda>_.
     and_then (unpack_vdef data (h_offset vdef_header + 16)) (\<lambda>vdef.
     and_then (require (\<forall>b\<in>set (vdef_reserved vdef). b = 0) AssertionError) (\<lambda>_.
     and_then (decode_cstring (vdef_cstrings vdef ! 0)) (\<lambda>x_units.
     and_then (decode_cstring (vdef_cstrings vdef ! 1)) (\<lambda>y_units.
     and_then (decode_cstring (vdef_cstrings vdef ! 2)) (\<lambda>t_units.
     and_then (decode_cstring (vdef_cstrings vdef ! 3)) (\<lambda>seg_names.
     and_then (require (vdef_nseg vdef = length (butlast (split_on CHR '';'' seg_names)))
                 AssertionError) (\<lambda>_.
     and_then (read_channels data [0..<5] (h_offset vdef_header + h_size vdef_header) Map.empty)
       (\<lambda>(header, channels).
     and_then (ARDFXdef_unpack data header) (\<lambda>xdef.
     and_then (ARDFHeader_unpack data (xdef_offset xdef + xdef_size xdef)) (\<lambda>vtoc_header.
     and_then (ARDFVolumeTableOfContents_unpack data vtoc_header) (\<lambda>vtoc.
     and_then (ARDFHeader_unpack data (vtoc_offset vtoc + vtoc_size vtoc)) (\<lambda>mlov_header.
     and_then (require (\<not> (h_size mlov_header \<noteq> 16 \<or> h_name mlov_header \<noteq> tag ''MLOV''))
                 (Malformed ''Malformed volume table of contents.'' mlov_header)) (\<lambda>_.
     and_then (validate data mlov_header) (\<lambda>_.
     and_then (require (vtoc_pointers vtoc \<noteq> []) IndexError) (\<lambda>_.
     and_then (ARDFHeader_unpack data (hd (vtoc_pointers vtoc))) (\<lambda>first_vset_header.
     and_then (ARDFVset_unpack data first_vset_header) (\<lambda>first_vset.
       Inr \<lparr>volm_offset = h_offset volm_header,
            volm_reader = \<lparr>fm_data = data, fm_vtoc = vtoc, fm_lines = vdef_lines vdef,
              fm_points = vdef_points vdef, fm_vtype = vset_vtype first_vset,
              fm_channels = channels, fm_seen_vsets = Map.empty\<rparr>,
            volm_shape = (vdef_points vdef, vdef_lines vdef),
            volm_x_step = vdef_x_step vdef, volm_y_step = vdef_y_step vdef,
            volm_t_step = vdef_t_step vdef,
            volm_x_units = x_units, volm_y_units = y_units, volm_t_units = t_units,
            volm_xdef = xdef\<rparr>))))))))))))))))))))))))))"

section \<open>The chain of volume sets\<close>

text \<open>
  What follows describes the file rather than the reader: the volume set that
  \<open>traverse_vsets\<close> reads at a pointer, whatever the cache holds; the volume sets that the
  row loop of \<open>get_curve\<close> is handed, up to and including the first one of another
  line; and the whole chain from a pointer, when it ends at a header that is not a VSET
  (\<open>None\<close>: it raises, or has not ended within the fuel).
\<close>

definition vset_at :: "mmap \<Rightarrow> nat \<Rightarrow> error + ARDFVset option" where
  "vset_at data pointer =
     (case ARDFHeader_unpack data pointer of
        Inl e \<Rightarrow> Inl e
      | Inr header \<Rightarrow>
          if h_name header \<noteq> tag ''VSET'' then Inr None
          else (case ARDFVset_unpack data header of
                  Inl e \<Rightarrow> Inl e
                | Inr vset \<Rightarrow> Inr (Some vset)))"

definition vset_index :: "ARDFVset \<Rightarrow> nat \<times> nat \<times> nat" where
  "vset_index vset = (vset_line vset, vset_point vset, vset_vtype vset)"

fun row_vsets :: "nat \<Rightarrow> mmap \<Rightarrow> nat \<Rightarrow> nat \<Rightarrow> ARDFVset list" where
  "row_vsets 0 data r pointer = []"
| "row_vsets (Suc fuel) data r pointer =
     (case vset_at data pointer of
        Inr (Some vset) \<Rightarrow>
          vset # (if vset_line vset \<noteq> r then []
                  else row_vsets fuel data r (vset_next_vset_offset vset))
      | _ \<Rightarrow> [])"



section \<open>Inverse of the checksum shift, and the inputs of the examples\<close>

text \<open>The shift of the register loses nothing: the bit that left is the top bit after it.\<close>

definition crc_unshift :: "32 word \<Rightarrow> 32 word" where
  "crc_unshift d = (if bit d 31 then push_bit 1 (d XOR 0xEDB88320) OR 1 else push_bit 1 d)"

text \<open>
  The checksum on natural numbers, for evaluating it on the bytes of an example: the
  same shifts on the value of the register.
\<close>

definition ncrc_shift :: "nat \<Rightarrow> nat" where
  "ncrc_shift c = (if odd c then (c div 2) XOR 0xEDB88320 else c div 2)"

definition ncrc_update :: "nat \<Rightarrow> nat \<Rightarrow> nat" where
  "ncrc_update c b = (ncrc_shift ^^ 8) (c XOR b)"

definition ncrc32 :: "nat list \<Rightarrow> nat" where
  "ncrc32 bs = foldl ncrc_update 0xFFFFFFFF bs XOR 0xFFFFFFFF"

text \<open>
  The file header \<open>ARDF\<close> of 16 bytes with its checksum \<open>0x65CAF4ED\<close>: it validates,
  and no longer does once the first byte of its tag is cleared.
\<close>

definition ardf_header_bytes :: mmap where
  "ardf_header_bytes = [237, 244, 202, 101, 16, 0, 0, 0, 65, 82, 68, 70, 0, 0, 0, 0]"

definition ardf_header :: ARDFHeader where
  "ardf_header = \<lparr>h_offset = 0, h_crc = 1707799789, h_size = 16, h_name = tag ''ARDF'', h_flags = 0\<rparr>"

text \<open>A reader of a 10 by 4 grid over the descending column, with an empty cache.\<close>

definition descending_vtoc :: ARDFVolumeTableOfContents where
  "descending_vtoc = \<lparr>vtoc_offset = 0, vtoc_size = 232, vtoc_lines = [9, 7, 5, 3, 1],
     vtoc_points = [0, 0, 0, 0, 0], vtoc_pointers = [1000, 2000, 3000, 4000, 5000]\<rparr>"

definition descending_reader :: ARDFForceMapReader where
  "descending_reader = \<lparr>fm_data = [], fm_vtoc = descending_vtoc, fm_lines = 10, fm_points = 4,
     fm_vtype = 2, fm_channels = Map.empty, fm_seen_vsets = Map.empty\<rparr>"


subsection \<open>An example volume\<close>

text \<open>
  A volume of 1112 bytes as \<open>parse_volm\<close> reads it, chunk by chunk, every checksum right:
  the volume header with its table of contents (one NSET entry), an empty text table, the
  volume definition (2 points by 3 lines), the channels \<open>Raw\<close> and \<open>Defl\<close>, the
  experiment definition, the volume table of contents with the lines 0 and 1, the MLOV
  footer, and two volume sets, the points \<open>(0, 0)\<close> and \<open>(1, 0)\<close>, each with its name
  chunk and two data chunks of four floats. Sixteen zero bytes end the chain.
\<close>

definition demo_volm_bytes :: "byte list" where
  "demo_volm_bytes =
    [14, 49, 31, 132, 32, 0, 0, 0, 86, 79, 76, 77, 0, 0, 0, 0, 56, 0, 0, 0, 0, 0, 0, 0, 1, 0,
     0, 0, 24, 0, 0, 0]"

definition demo_nset_bytes :: "byte list" where
  "demo_nset_bytes =
    [6, 171, 220, 173, 24, 0, 0, 0, 78, 83, 69, 84, 0, 0, 0, 0, 2, 0, 0, 0, 0, 0, 0, 0]"

definition demo_ttoc_bytes :: "byte list" where
  "demo_ttoc_bytes =
    [167, 209, 188, 172, 32, 0, 0, 0, 84, 84, 79, 67, 0, 0, 0, 0, 32, 0, 0, 0, 0, 0, 0, 0, 0,
     0, 0, 0, 32, 0, 0, 0]"

definition demo_vdef_bytes :: "byte list" where
  "demo_vdef_bytes =
    [130, 138, 117, 113, 208, 0, 0, 0, 86, 68, 69, 70, 0, 0, 0, 0, 2, 0, 0, 0, 3, 0, 0, 0, 0,
     0, 0, 0, 0, 0, 0, 0, 0, 0, 0, 0, 0, 0, 0, 0, 0, 0, 0, 0, 0, 0, 0, 0, 58, 140, 48, 226,
     142, 121, 69, 62, 58, 140, 48, 226, 142, 121, 85, 62, 252, 169, 241, 210, 77, 98, 64, 63,
     109, 0, 0, 0, 0, 0, 0, 0, 0, 0, 0, 0, 0, 0, 0, 0, 0, 0, 0, 0, 0, 0, 0, 0, 0, 0, 0, 0, 0,
     0, 0, 0, 109, 0, 0, 0, 0, 0, 0, 0, 0, 0, 0, 0, 0, 0, 0, 0, 0, 0, 0, 0, 0, 0, 0, 0, 0, 0,
     0, 0, 0, 0, 0, 0, 115, 0, 0, 0, 0, 0, 0, 0, 0, 0, 0, 0, 0, 0, 0, 0, 0, 0, 0, 0, 0, 0, 0,
     0, 0, 0, 0, 0, 0, 0, 0, 0, 69, 120, 116, 59, 82, 101, 116, 59, 0, 0, 0, 0, 0, 0, 0, 0, 0,
     0, 0, 0, 0, 0, 0, 0, 0, 0, 0, 0, 0, 0, 0, 0, 2, 0, 0, 0, 0, 0, 0, 0]"

definition demo_vchn0_bytes :: "byte list" where
  "demo_vchn0_bytes =
    [76, 199, 240, 91, 80, 0, 0, 0, 86, 67, 72, 78, 0, 0, 0, 0, 82, 97, 119, 0, 0, 0, 0, 0, 0,
     0, 0, 0, 0, 0, 0, 0, 0, 0, 0, 0, 0, 0, 0, 0, 0, 0, 0, 0, 0, 0, 0, 0, 109, 0, 0, 0, 0, 0,
     0, 0, 0, 0, 0, 0, 0, 0, 0, 0, 0, 0, 0, 0, 0, 0, 0, 0, 0, 0, 0, 0, 0, 0, 0, 0]"

definition demo_vchn1_bytes :: "byte list" where
  "demo_vchn1_bytes =
    [94, 92, 73, 160, 80, 0, 0, 0, 86, 67, 72, 78, 0, 0, 0, 0, 68, 101, 102, 108, 0, 0, 0, 0,
     0, 0, 0, 0, 0, 0, 0, 0, 0, 0, 0, 0, 0, 0, 0, 0, 0, 0, 0, 0, 0, 0, 0, 0, 109, 0, 0, 0, 0,
     0, 0, 0, 0, 0, 0, 0, 0, 0, 0, 0, 0, 0, 0, 0, 0, 0, 0, 0, 0, 0, 0, 0, 0, 0, 0, 0]"

definition demo_xdef_bytes :: "byte list" where
  "demo_xdef_bytes =
    [197, 70, 237, 12, 96, 0, 0, 0, 88, 68, 69, 70, 0, 0, 0, 0, 0, 0, 0, 0, 8, 0, 0, 0, 69,
     120, 116, 59, 82, 101, 116, 59, 0, 0, 0, 0, 0, 0, 0, 0, 0, 0, 0, 0, 0, 0, 0, 0, 0, 0, 0,
     0, 0, 0, 0, 0, 0, 0, 0, 0, 0, 0, 0, 0, 0, 0, 0, 0, 0, 0, 0, 0, 0, 0, 0, 0, 0, 0, 0, 0, 0,
     0, 0, 0, 0, 0, 0, 0, 0, 0, 0, 0, 0, 0, 0, 0]"

definition demo_vtoc_bytes :: "byte list" where
  "demo_vtoc_bytes =
    [94, 250, 79, 58, 32, 0, 0, 0, 86, 84, 79, 67, 0, 0, 0, 0, 112, 0, 0, 0, 0, 0, 0, 0, 2, 0,
     0, 0, 40, 0, 0, 0]"

definition demo_voff0_bytes :: "byte list" where
  "demo_voff0_bytes =
    [42, 88, 98, 234, 40, 0, 0, 0, 86, 79, 70, 70, 0, 0, 0, 0, 0, 0, 0, 0, 0, 0, 0, 0, 0, 0, 0,
     0, 0, 0, 0, 0, 168, 2, 0, 0, 0, 0, 0, 0]"

definition demo_voff1_bytes :: "byte list" where
  "demo_voff1_bytes =
    [227, 123, 74, 174, 40, 0, 0, 0, 86, 79, 70, 70, 0, 0, 0, 0, 1, 0, 0, 0, 1, 0, 0, 0, 0, 0,
     0, 0, 0, 0, 0, 0, 120, 3, 0, 0, 0, 0, 0, 0]"

definition demo_mlov_bytes :: "byte list" where
  "demo_mlov_bytes =
    [112, 97, 163, 15, 16, 0, 0, 0, 77, 76, 79, 86, 0, 0, 0, 0]"

definition demo_vset0_bytes :: "byte list" where
  "demo_vset0_bytes =
    [4, 196, 111, 85, 48, 0, 0, 0, 86, 83, 69, 84, 0, 0, 0, 0, 0, 0, 0, 0, 0, 0, 0, 0, 0, 0, 0,
     0, 2, 0, 0, 0, 0, 0, 0, 0, 0, 0, 0, 0, 120, 3, 0, 0, 0, 0, 0, 0]"

definition demo_vnam0_bytes :: "byte list" where
  "demo_vnam0_bytes =
    [199, 154, 215, 148, 16, 0, 0, 0, 86, 78, 65, 77, 0, 0, 0, 0]"

definition demo_zdat0_bytes :: "byte list" where
  "demo_zdat0_bytes =
    [111, 175, 138, 241, 72, 0, 0, 0, 86, 68, 65, 84, 0, 0, 0, 0, 0, 0, 0, 0, 0, 0, 0, 0, 0, 0,
     0, 0, 4, 0, 0, 0, 0, 0, 0, 0, 0, 0, 0, 0, 2, 0, 0, 0, 4, 0, 0, 0, 0, 0, 0, 0, 0, 0, 0, 0,
     0, 0, 128, 63, 0, 0, 0, 64, 0, 0, 64, 64, 0, 0, 128, 64]"

definition demo_ddat0_bytes :: "byte list" where
  "demo_ddat0_bytes =
    [207, 154, 215, 100, 72, 0, 0, 0, 86, 68, 65, 84, 0, 0, 0, 0, 0, 0, 0, 0, 0, 0, 0, 0, 0, 0,
     0, 0, 4, 0, 0, 0, 1, 0, 0, 0, 0, 0, 0, 0, 2, 0, 0, 0, 4, 0, 0, 0, 0, 0, 0, 0, 0, 0, 0, 0,
     0, 0, 0, 63, 0, 0, 128, 62, 0, 0, 0, 62, 0, 0, 128, 61]"

definition demo_vset1_bytes :: "byte list" where
  "demo_vset1_bytes =
    [23, 233, 61, 117, 48, 0, 0, 0, 86, 83, 69, 84, 0, 0, 0, 0, 1, 0, 0, 0, 1, 0, 0, 0, 0, 0,
     0, 0, 2, 0, 0, 0, 168, 2, 0, 0, 0, 0, 0, 0, 72, 4, 0, 0, 0, 0, 0, 0]"

definition demo_vnam1_bytes :: "byte list" where
  "demo_vnam1_bytes =
    [199, 154, 215, 148, 16, 0, 0, 0, 86, 78, 65, 77, 0, 0, 0, 0]"

definition demo_zdat1_bytes :: "byte list" where
  "demo_zdat1_bytes =
    [78, 38, 20, 248, 72, 0, 0, 0, 86, 68, 65, 84, 0, 0, 0, 0, 1, 0, 0, 0, 1, 0, 0, 0, 0, 0, 0,
     0, 4, 0, 0, 0, 0, 0, 0, 0, 0, 0, 0, 0, 2, 0, 0, 0, 4, 0, 0, 0, 0, 0, 0, 0, 0, 0, 0, 0, 0,
     0, 160, 64, 0, 0, 192, 64, 0, 0, 224, 64, 0, 0, 0, 65]"

definition demo_ddat1_bytes :: "byte list" where
  "demo_ddat1_bytes =
    [24, 196, 246, 176, 72, 0, 0, 0, 86, 68, 65, 84, 0, 0, 0, 0, 1, 0, 0, 0, 1, 0, 0, 0, 0, 0,
     0, 0, 4, 0, 0, 0, 1, 0, 0, 0, 0, 0, 0, 0, 2, 0, 0, 0, 4, 0, 0, 0, 0, 0, 0, 0, 0, 0, 0, 0,
     0, 0, 128, 191, 0, 0, 0, 192, 0, 0, 64, 192, 0, 0, 128, 192]"

definition demo_tail_bytes :: "byte list" where
  "demo_tail_bytes =
    [0, 0, 0, 0, 0, 0, 0, 0, 0, 0, 0, 0, 0, 0, 0, 0]"

definition demo_file :: mmap where
  "demo_file =
     demo_volm_bytes @ demo_nset_bytes @ demo_ttoc_bytes @ demo_vdef_bytes @ demo_vchn0_bytes
     @ demo_vchn1_bytes @ demo_xdef_bytes @ demo_vtoc_bytes @ demo_voff0_bytes
     @ demo_voff1_bytes @ demo_mlov_bytes @ demo_vset0_bytes @ demo_vnam0_bytes
     @ demo_zdat0_bytes @ demo_ddat0_bytes @ demo_vset1_bytes @ demo_vnam1_bytes
     @ demo_zdat1_bytes @ demo_ddat1_bytes @ demo_tail_bytes"

definition demo_volm_header :: ARDFHeader where
  "demo_volm_header =
     \<lparr>h_offset = 0, h_crc = 2216636686, h_size = 32, h_name = [86, 79, 76, 77], h_flags = 0\<rparr>"

definition demo_nset_header :: ARDFHeader where
  "demo_nset_header =
     \<lparr>h_offset = 32, h_crc = 2916920070, h_size = 24, h_name = [78, 83, 69, 84], h_flags = 0\<rparr>"

definition demo_ttoc_header :: ARDFHeader where
  "demo_ttoc_header =
     \<lparr>h_offset = 56, h_crc = 2898055591, h_size = 32, h_name = [84, 84, 79, 67], h_flags = 0\<rparr>"

definition demo_vdef_header :: ARDFHeader where
  "demo_vdef_header =
     \<lparr>h_offset = 88, h_crc = 1903528578, h_size = 208, h_name = [86, 68, 69, 70], h_flags = 0\<rparr>"

definition demo_vchn0_header :: ARDFHeader where
  "demo_vchn0_header =
     \<lparr>h_offset = 296, h_crc = 1542506316, h_size = 80, h_name = [86, 67, 72, 78], h_flags = 0\<rparr>"

definition demo_vchn1_header :: ARDFHeader where
  "demo_vchn1_header =
     \<lparr>h_offset = 376, h_crc = 2689162334, h_size = 80, h_name = [86, 67, 72, 78], h_flags = 0\<rparr>"

definition demo_xdef_header :: ARDFHeader where
  "demo_xdef_header =
     \<lparr>h_offset = 456, h_crc = 216876741, h_size = 96, h_name = [88, 68, 69, 70], h_flags = 0\<rparr>"

definition demo_vtoc_header :: ARDFHeader where
  "demo_vtoc_header =
     \<lparr>h_offset = 552, h_crc = 978319966, h_size = 32, h_name = [86, 84, 79, 67], h_flags = 0\<rparr>"

definition demo_voff0_header :: ARDFHeader where
  "demo_voff0_header =
     \<lparr>h_offset = 584, h_crc = 3932313642, h_size = 40, h_name = [86, 79, 70, 70], h_flags = 0\<rparr>"

definition demo_voff1_header :: ARDFHeader where
  "demo_voff1_header =
     \<lparr>h_offset = 624, h_crc = 2924116963, h_size = 40, h_name = [86, 79, 70, 70], h_flags = 0\<rparr>"

definition demo_mlov_header :: ARDFHeader where
  "demo_mlov_header =
     \<lparr>h_offset = 664, h_crc = 262365552, h_size = 16, h_name = [77, 76, 79, 86], h_flags = 0\<rparr>"

definition demo_vset0_header :: ARDFHeader where
  "demo_vset0_header =
     \<lparr>h_offset = 680, h_crc = 1433388036, h_size = 48, h_name = [86, 83, 69, 84], h_flags = 0\<rparr>"

definition demo_vnam0_header :: ARDFHeader where
  "demo_vnam0_header =
     \<lparr>h_offset = 728, h_crc = 2497157831, h_size = 16, h_name = [86, 78, 65, 77], h_flags = 0\<rparr>"

definition demo_zdat0_header :: ARDFHeader where
  "demo_zdat0_header =
     \<lparr>h_offset = 744, h_crc = 4052397935, h_size = 72, h_name = [86, 68, 65, 84], h_flags = 0\<rparr>"

definition demo_ddat0_header :: ARDFHeader where
  "demo_ddat0_header =
     \<lparr>h_offset = 816, h_crc = 1691851471, h_size = 72, h_name = [86, 68, 65, 84], h_flags = 0\<rparr>"

definition demo_vset1_header :: ARDFHeader where
  "demo_vset1_header =
     \<lparr>h_offset = 888, h_crc = 1966991639, h_size = 48, h_name = [86, 83, 69, 84], h_flags = 0\<rparr>"

definition demo_vnam1_header :: ARDFHeader where
  "demo_vnam1_header =
     \<lparr>h_offset = 936, h_crc = 2497157831, h_size = 16, h_name = [86, 78, 65, 77], h_flags = 0\<rparr>"

definition demo_zdat1_header :: ARDFHeader where
  "demo_zdat1_header =
     \<lparr>h_offset = 952, h_crc = 4162070094, h_size = 72, h_name = [86, 68, 65, 84], h_flags = 0\<rparr>"

definition demo_ddat1_header :: ARDFHeader where
  "demo_ddat1_header =
     \<lparr>h_offset = 1024, h_crc = 2968962072, h_size = 72, h_name = [86, 68, 65, 84], h_flags = 0\<rparr>"

definition demo_tail_header :: ARDFHeader where
  "demo_tail_header =
     \<lparr>h_offset = 1096, h_crc = 0, h_size = 0, h_name = [0, 0, 0, 0], h_flags = 0\<rparr>"

definition demo_vtoc :: ARDFVolumeTableOfContents where
  "demo_vtoc = \<lparr>vtoc_offset = 552, vtoc_size = 112, vtoc_lines = [0, 1],
     vtoc_points = [0, 0], vtoc_pointers = [680, 888]\<rparr>"

definition demo_channels :: ChanMap where
  "demo_channels = [''Raw'' \<mapsto> (0, \<lparr>vchan_name = ''Raw'', vchan_unit = ''m''\<rparr>),
     ''Defl'' \<mapsto> (1, \<lparr>vchan_name = ''Defl'', vchan_unit = ''m''\<rparr>)]"

definition demo_reader :: ARDFForceMapReader where
  "demo_reader = \<lparr>fm_data = demo_file, fm_vtoc = demo_vtoc, fm_lines = 3, fm_points = 2,
     fm_vtype = 2, fm_channels = demo_channels, fm_seen_vsets = Map.empty\<rparr>"

definition demo_volume :: ARDFVolume where
  "demo_volume = \<lparr>volm_offset = 0, volm_reader = demo_reader, volm_shape = (2, 3),
     volm_x_step = 4487126258331716666, volm_y_step = 4491629857959087162, volm_t_step = 4557750909289998844,
     volm_x_units = ''m'', volm_y_units = ''m'', volm_t_units = ''s'',
     volm_xdef = \<lparr>xdef_offset = 456, xdef_size = 96, xdef_xdef = [''Ext'', ''Ret'']\<rparr>\<rparr>"

definition demo_vset0 :: ARDFVset where
  "demo_vset0 = \<lparr>vset_offset = 680, vset_size = 48, vset_force_index = 0, vset_line = 0,
     vset_point = 0, vset_vtype = 2, vset_prev_vset_offset = 0, vset_next_vset_offset = 888\<rparr>"

definition demo_vset1 :: ARDFVset where
  "demo_vset1 = \<lparr>vset_offset = 888, vset_size = 48, vset_force_index = 1, vset_line = 1,
     vset_point = 0, vset_vtype = 2, vset_prev_vset_offset = 680, vset_next_vset_offset = 1096\<rparr>"

definition demo_curve0 :: curve where
  "demo_curve0 =
     (([Scaled 1065353216, Scaled 1073741824], [Scaled 1077936128, Scaled 1082130432]),
      ([Scaled 1056964608, Scaled 1048576000], [Scaled 1040187392, Scaled 1031798784]))"

definition demo_curve1 :: curve where
  "demo_curve1 =
     (([Scaled 1084227584, Scaled 1086324736], [Scaled 1088421888, Scaled 1090519040]),
      ([Scaled 3212836864, Scaled 3221225472], [Scaled 3225419776, Scaled 3229614080]))"

definition demo_seen :: "nat \<times> nat \<times> nat \<rightharpoonup> ARDFVset" where
  "demo_seen = [(0, 0, 2) \<mapsto> demo_vset0, (1, 0, 2) \<mapsto> demo_vset1]"

subsection \<open>Small tables of contents\<close>

text \<open>A table of contents that declares two entries of stride 24 in a size of 56; its checksum is right.\<close>

definition bad_toc :: mmap where
  "bad_toc =
    [119, 20, 98, 232, 32, 0, 0, 0, 70, 84, 79, 67, 0, 0, 0, 0, 56, 0, 0, 0, 0, 0, 0, 0, 2, 0,
     0, 0, 24, 0, 0, 0]"

definition bad_toc_header :: ARDFHeader where
  "bad_toc_header =
     \<lparr>h_offset = 0, h_crc = 3898741879, h_size = 32, h_name = tag ''FTOC'', h_flags = 0\<rparr>"

text \<open>A text table of contents that declares a stride of 24; its checksum is right.\<close>

definition bad_ttoc :: mmap where
  "bad_ttoc =
    [166, 160, 189, 192, 32, 0, 0, 0, 84, 84, 79, 67, 0, 0, 0, 0, 56, 0, 0, 0, 0, 0, 0, 0, 1,
     0, 0, 0, 24, 0, 0, 0]"

definition bad_ttoc_header :: ARDFHeader where
  "bad_ttoc_header =
     \<lparr>h_offset = 0, h_crc = 3233652902, h_size = 32, h_name = tag ''TTOC'', h_flags = 0\<rparr>"

text \<open>A volume table of contents that declares three entries of stride 40 in a size of 112.\<close>

definition bad_vtoc :: mmap where
  "bad_vtoc =
    [192, 250, 229, 246, 32, 0, 0, 0, 86, 84, 79, 67, 0, 0, 0, 0, 112, 0, 0, 0, 0, 0, 0, 0, 3,
     0, 0, 0, 40, 0, 0, 0]"

definition bad_vtoc_header :: ARDFHeader where
  "bad_vtoc_header =
     \<lparr>h_offset = 0, h_crc = 4142267072, h_size = 32, h_name = tag ''VTOC'', h_flags = 0\<rparr>"

text \<open>A volume table of contents of one entry (line 7, pointer 4096) whose own header carries a wrong checksum; the entry's checksum is right.\<close>

definition unchecked_vtoc :: mmap where
  "unchecked_vtoc =
    [238, 39, 203, 54, 32, 0, 0, 0, 86, 84, 79, 67, 0, 0, 0, 0, 72, 0, 0, 0, 0, 0, 0, 0, 1, 0,
     0, 0, 40, 0, 0, 0, 103, 143, 207, 130, 40, 0, 0, 0, 86, 79, 70, 70, 0, 0, 0, 0, 0, 0, 0,
     0, 7, 0, 0, 0, 0, 0, 0, 0, 0, 0, 0, 0, 0, 16, 0, 0, 0, 0, 0, 0]"

definition unchecked_vtoc_header :: ARDFHeader where
  "unchecked_vtoc_header =
     \<lparr>h_offset = 0, h_crc = 919283694, h_size = 32, h_name = tag ''VTOC'', h_flags = 0\<rparr>"

definition unchecked_voff_header :: ARDFHeader where
  "unchecked_voff_header =
     \<lparr>h_offset = 32, h_crc = 2194640743, h_size = 40, h_name = tag ''VOFF'', h_flags = 0\<rparr>"

subsection \<open>Auxiliary notions for the cache and the carried-over data\<close>

definition remember :: "ARDFVset \<Rightarrow> (nat \<times> nat \<times> nat \<rightharpoonup> ARDFVset) \<Rightarrow> (nat \<times> nat \<times> nat \<rightharpoonup> ARDFVset)" where
  "remember vset seen = (if vset_index vset \<notin> dom seen then seen(vset_index vset \<mapsto> vset) else seen)"

definition merge_zd :: "'a option \<times> 'b option \<Rightarrow> 'a option \<times> 'b option \<Rightarrow> 'a option \<times> 'b option" where
  "merge_zd old new =
     (case fst new of None \<Rightarrow> fst old | Some z \<Rightarrow> Some z,
      case snd new of None \<Rightarrow> snd old | Some d \<Rightarrow> Some d)"

subsection \<open>The example volume after an interrupted scan\<close>





section \<open>The checksum is the CRC-32 of the format description\<close>

lemma rev_poly: "word_reverse (0x04C11DB7 :: 32 word) = 0xEDB88320"
  by (simp add: word_reverse_def upt_conv_Cons)

lemma rev_xor: "word_reverse (a XOR b) = word_reverse a XOR word_reverse (b :: 32 word)"
  by (rule bit_word_eqI) (simp add: bit_simps)

lemma bit_times2: "bit (c * 2 :: 32 word) n \<longleftrightarrow> 0 < n \<and> n < 32 \<and> bit c (n - 1)"
  using bit_push_bit_iff [of 1 c n] by (auto simp add: push_bit_eq_mult dest: bit_imp_le_length)

lemma rev_push1: "word_reverse (push_bit 1 (c :: 32 word)) = drop_bit 1 (word_reverse c)"
proof (rule bit_word_eqI)
  fix n assume "n < LENGTH(32)"
  then have n: "n < 32" by simp
  have "31 - n - 1 = 32 - Suc (Suc n)" using n by simp
  then show "bit (word_reverse (push_bit 1 c)) n \<longleftrightarrow> bit (drop_bit 1 (word_reverse c)) n"
    using n by (auto simp add: bit_simps bit_times2)
qed

lemma rev_top_bit: "bit (word_reverse (c :: 32 word)) 0 \<longleftrightarrow> bit c 31"
  by (simp add: bit_simps)

lemma rev_msb_shift: "word_reverse (msb_shift c) = crc_shift (word_reverse c)"
  by (cases "bit c 31")
    (simp_all only: msb_shift_def crc_shift_def rev_xor rev_push1 rev_poly rev_top_bit if_True if_False)

lemma rev_msb_shift_pow: "word_reverse ((msb_shift ^^ n) c) = (crc_shift ^^ n) (word_reverse c)"
  by (induction n) (simp_all add: rev_msb_shift)

lemma rev_byte_in:
  "word_reverse (push_bit 24 (ucast (word_reverse (b :: byte))) :: 32 word) = ucast b"
proof (rule bit_word_eqI)
  fix n assume "n < LENGTH(32)"
  show "bit (word_reverse (push_bit 24 (ucast (word_reverse b))) :: 32 word) n
      \<longleftrightarrow> bit (ucast b :: 32 word) n"
  proof (cases "n < 8")
    case True
    then have "7 - (7 - n) = n" "24 \<le> 31 - n" "31 - n - 24 = 7 - n" by simp_all
    with True show ?thesis by (auto simp add: bit_simps)
  next
    case False
    then have "\<not> bit b n" by (auto dest: bit_imp_le_length)
    with False show ?thesis by (auto simp add: bit_simps)
  qed
qed

lemma rev_spec_update: "word_reverse (spec_update c b) = crc_update (word_reverse c) b"
  by (simp add: spec_update_def crc_update_def rev_msb_shift_pow rev_xor rev_byte_in)

lemma rev_fold: "word_reverse (foldl spec_update c bs) = foldl crc_update (word_reverse c) bs"
  by (induction bs arbitrary: c) (simp_all add: rev_spec_update)

lemma rev_ones: "word_reverse (0xFFFFFFFF :: 32 word) = 0xFFFFFFFF"
proof -
  have a: "(0xFFFFFFFF :: 32 word) = - 1" by simp
  have "word_reverse (- 1 :: 32 word) = - 1"
    by (rule bit_word_eqI) (simp add: bit_simps)
  then show ?thesis unfolding a .
qed

lemma zlib_crc32_spec: "zlib_crc32 bs = spec_crc32 bs"
  by (simp only: zlib_crc32_def spec_crc32_def rev_fold rev_ones)

subsection \<open>A changed byte changes the checksum\<close>

lemma poly_top: "bit (0xEDB88320 :: 32 word) 31"
  by (simp add: bit_numeral_rec)

lemma drop1_top: "\<not> bit (drop_bit 1 (c :: 32 word)) 31"
  by (auto simp add: bit_simps dest: bit_imp_le_length)

lemma push_drop1: "push_bit 1 (drop_bit 1 c) OR of_bool (bit c 0) = (c :: 32 word)"
  apply (rule bit_word_eqI)
  subgoal for n by (cases n) (auto simp add: bit_simps bit_times2)
  done

lemma crc_unshift_shift: "crc_unshift (crc_shift c) = c"
proof (cases "bit c 0")
  case True
  have "bit (drop_bit 1 c XOR 0xEDB88320) 31"
    using poly_top drop1_top [of c] by (simp only: bit_xor_iff) simp
  moreover have "(drop_bit 1 c XOR 0xEDB88320) XOR 0xEDB88320 = drop_bit 1 c"
    by (simp only: xor.assoc xor_self_eq xor.right_neutral)
  ultimately show ?thesis
    using True push_drop1 [of c] by (simp only: crc_shift_def crc_unshift_def if_True of_bool_eq)
next
  case False
  then show ?thesis
    using drop1_top [of c] push_drop1 [of c]
    by (simp only: crc_shift_def crc_unshift_def if_False of_bool_eq or.right_neutral)
qed

lemma crc_shift_inj: "crc_shift c = crc_shift d \<Longrightarrow> c = d"
  by (metis crc_unshift_shift)

lemma crc_shift_pow_inj: "(crc_shift ^^ n) c = (crc_shift ^^ n) d \<Longrightarrow> c = d"
  by (induction n) (auto dest: crc_shift_inj)

lemma xor_cancel_right: "(a :: 32 word) XOR k = b XOR k \<Longrightarrow> a = b"
proof -
  assume "a XOR k = b XOR k"
  then have "(a XOR k) XOR k = (b XOR k) XOR k" by simp
  then show "a = b" by (simp only: xor.assoc xor_self_eq xor.right_neutral)
qed

lemma xor_cancel_left: "(k :: 32 word) XOR a = k XOR b \<Longrightarrow> a = b"
  by (rule xor_cancel_right [of a k b]) (simp only: xor.commute)

lemma ucast_byte_inj: "(ucast (a :: byte) :: 32 word) = ucast b \<Longrightarrow> a = b"
proof (rule bit_word_eqI)
  fix n assume eq: "(ucast a :: 32 word) = ucast b" and "n < LENGTH(8)"
  then have n: "n < 32" by simp
  have "bit (ucast a :: 32 word) n = bit (ucast b :: 32 word) n" using eq by simp
  then show "bit a n = bit b n" using n by (simp add: bit_ucast_iff)
qed

lemma crc_update_inj_state: "crc_update c b = crc_update d b \<Longrightarrow> c = d"
  unfolding crc_update_def by (drule crc_shift_pow_inj) (rule xor_cancel_right)

lemma crc_update_inj_byte: "crc_update c a = crc_update c b \<Longrightarrow> a = b"
  unfolding crc_update_def by (drule crc_shift_pow_inj) (auto dest: xor_cancel_left ucast_byte_inj)

lemma foldl_crc_inj: "foldl crc_update c bs = foldl crc_update d bs \<Longrightarrow> c = d"
  by (induction bs arbitrary: c d) (auto dest: crc_update_inj_state)

lemma zlib_crc32_update_neq:
  assumes "j < length bs" and "b \<noteq> bs ! j"
  shows "zlib_crc32 (bs[j := b]) \<noteq> zlib_crc32 bs"
proof
  assume eq: "zlib_crc32 (bs[j := b]) = zlib_crc32 bs"
  let ?c = "foldl crc_update 0xFFFFFFFF (take j bs)"
  have l: "bs[j := b] = take j bs @ b # drop (Suc j) bs"
    using assms(1) by (rule upd_conv_take_nth_drop)
  have r: "bs = take j bs @ bs ! j # drop (Suc j) bs"
    using assms(1) by (rule id_take_nth_drop)
  have "foldl crc_update 0xFFFFFFFF (bs[j := b]) = foldl crc_update 0xFFFFFFFF bs"
    using eq unfolding zlib_crc32_def by (rule xor_cancel_right)
  then have "foldl crc_update (crc_update ?c b) (drop (Suc j) bs)
      = foldl crc_update (crc_update ?c (bs ! j)) (drop (Suc j) bs)"
    by (subst (asm) l, subst (asm) (3) r) simp
  then have "crc_update ?c b = crc_update ?c (bs ! j)" by (rule foldl_crc_inj)
  then have "b = bs ! j" by (rule crc_update_inj_byte)
  with assms(2) show False by contradiction
qed

lemma py_slice_update:
  assumes "a \<le> i" and "i < b" and "i < length xs"
  shows "py_slice (xs[i := v]) a b = (py_slice xs a b)[i - a := v]"
    and "i - a < length (py_slice xs a b)"
    and "py_slice xs a b ! (i - a) = xs ! i"
  using assms by (auto simp add: py_slice_def drop_update_swap take_update_swap)

subsection \<open>Evaluating the checksum\<close>

lemma unat_crc_shift: "unat (crc_shift c) = ncrc_shift (unat c)"
proof -
  have "bit c 0 \<longleftrightarrow> odd (unat c)"
    using bit_unsigned_iff [of c 0, where ?'a = nat] by (simp add: bit_0)
  moreover have "unat (drop_bit 1 c) = unat c div 2"
    by (simp add: unat_div drop_bit_eq_div)
  ultimately show ?thesis
    by (simp add: crc_shift_def ncrc_shift_def unsigned_xor_eq)
qed

lemma unat_crc_shift_pow: "unat ((crc_shift ^^ n) c) = (ncrc_shift ^^ n) (unat c)"
  by (induction n) (simp_all add: unat_crc_shift)

lemma unat_ucast_byte: "unat (ucast (b :: byte) :: 32 word) = unat b"
proof -
  have "unat b < 2 ^ 8" using unsigned_less [of b, where ?'a = nat] by simp
  then have "unat b < 2 ^ 32" by simp
  then show ?thesis by (simp add: unsigned_ucast_eq take_bit_nat_eq_self)
qed

lemma unat_crc_update: "unat (crc_update c b) = ncrc_update (unat c) (unat b)"
  by (simp add: crc_update_def ncrc_update_def unat_crc_shift_pow unsigned_xor_eq unat_ucast_byte)

lemma unat_foldl_crc: "unat (foldl crc_update c bs) = foldl ncrc_update (unat c) (map unat bs)"
  by (induction bs arbitrary: c) (simp_all add: unat_crc_update)

lemma unat_zlib_crc32: "unat (zlib_crc32 bs) = ncrc32 (map unat bs)"
  by (simp add: zlib_crc32_def ncrc32_def unsigned_xor_eq unat_foldl_crc)

lemma ncrc_update_unfold:
  "ncrc_update c b = ncrc_shift (ncrc_shift (ncrc_shift (ncrc_shift
     (ncrc_shift (ncrc_shift (ncrc_shift (ncrc_shift (c XOR b))))))))"
  by (simp add: ncrc_update_def eval_nat_numeral)

lemma ncrc_shift_num:
  "ncrc_shift 0 = 0"
  "ncrc_shift 1 = 0xEDB88320"
  "ncrc_shift (Suc 0) = 0xEDB88320"
  "ncrc_shift (numeral (Num.Bit0 n)) = numeral n"
  "ncrc_shift (numeral (Num.Bit1 n)) = numeral n XOR 0xEDB88320"
  by (simp_all add: ncrc_shift_def)

lemma nxor_num:
  "(0::nat) XOR x = x" "x XOR (0::nat) = x"
  "(1::nat) XOR 1 = 0" "Suc 0 XOR Suc 0 = 0"
  "(1::nat) XOR numeral (Num.Bit0 y) = numeral (Num.Bit1 y)"
  "(1::nat) XOR numeral (Num.Bit1 y) = numeral (Num.Bit0 y)"
  "numeral (Num.Bit0 y) XOR (1::nat) = numeral (Num.Bit1 y)"
  "numeral (Num.Bit1 y) XOR (1::nat) = numeral (Num.Bit0 y)"
  "Suc 0 XOR numeral (Num.Bit0 y) = numeral (Num.Bit1 y)"
  "Suc 0 XOR numeral (Num.Bit1 y) = numeral (Num.Bit0 y)"
  "numeral (Num.Bit0 y) XOR Suc 0 = numeral (Num.Bit1 y)"
  "numeral (Num.Bit1 y) XOR Suc 0 = numeral (Num.Bit0 y)"
  "(numeral m :: nat) XOR numeral n = (case xor_num m n of None \<Rightarrow> 0 | Some k \<Rightarrow> numeral k)"
  by (simp_all add: numeral_xor_num)

lemmas ncrc_eval = ncrc32_def foldl.simps ncrc_update_unfold ncrc_shift_num nxor_num xor_num.simps
  option.case option.map

lemma validate_eval:
  "validate data h =
     (if h_crc h \<noteq> ncrc32 (map unat (py_slice data (h_offset h + 4) (h_offset h + h_size h)))
      then Inl (ChecksumMismatch h) else Inr True)"
  by (simp add: validate_def unat_zlib_crc32)

text \<open>
  C3. \<open>validate\<close> succeeds exactly when the stored checksum is the CRC-32 (polynomial
  \<open>0x04C11DB7\<close>, reflected in and out, initial value and final XOR \<open>0xFFFFFFFF\<close>) of
  the bytes \<open>[offset + 4, offset + size)\<close> of the map; otherwise it fails with the
  checksum error that carries the header; and after a successful validation, changing
  any one byte of that range makes the validation of the same header fail.
\<close>

theorem validate_crc32:
  "(validate data h = Inr True \<longleftrightarrow>
      h_crc h = unat (spec_crc32 (py_slice data (h_offset h + 4) (h_offset h + h_size h))))
   \<and> (validate data h \<noteq> Inr True \<longrightarrow> validate data h = Inl (ChecksumMismatch h))
   \<and> (validate data h = Inr True \<and> h_offset h + 4 \<le> i \<and> i < h_offset h + h_size h
        \<and> i < length data \<and> b \<noteq> data ! i
      \<longrightarrow> validate (data[i := b]) h = Inl (ChecksumMismatch h))"
proof (intro conjI impI)
  show "validate data h = Inr True \<longleftrightarrow>
      h_crc h = unat (spec_crc32 (py_slice data (h_offset h + 4) (h_offset h + h_size h)))"
    by (simp add: validate_def Let_def zlib_crc32_spec)
  show "validate data h = Inl (ChecksumMismatch h)" if "validate data h \<noteq> Inr True"
    using that by (simp add: validate_def Let_def split: if_splits)
  show "validate (data[i := b]) h = Inl (ChecksumMismatch h)"
    if a: "validate data h = Inr True \<and> h_offset h + 4 \<le> i \<and> i < h_offset h + h_size h
        \<and> i < length data \<and> b \<noteq> data ! i"
  proof -
    let ?bs = "py_slice data (h_offset h + 4) (h_offset h + h_size h)"
    let ?j = "i - (h_offset h + 4)"
    from a have ok: "h_crc h = unat (zlib_crc32 ?bs)"
      by (simp add: validate_def Let_def split: if_splits)
    from a have sl: "py_slice (data[i := b]) (h_offset h + 4) (h_offset h + h_size h) = ?bs[?j := b]"
      and j: "?j < length ?bs" and nth: "?bs ! ?j = data ! i"
      by (simp_all add: py_slice_update)
    from a nth have "b \<noteq> ?bs ! ?j" by simp
    with j have "zlib_crc32 (?bs[?j := b]) \<noteq> zlib_crc32 ?bs"
      by (rule zlib_crc32_update_neq)
    then have "unat (zlib_crc32 (?bs[?j := b])) \<noteq> h_crc h"
      using ok by (simp add: word_unat_eq_iff)
    then show ?thesis
      by (simp add: validate_def Let_def sl)
  qed
qed

lemma ardf_header_unpack: "ARDFHeader_unpack ardf_header_bytes 0 = Inr ardf_header"
  by (simp add: ARDFHeader_unpack_def unpack_from_def ardf_header_bytes_def ardf_header_def
      field_def tag_def)

lemma ardf_header_crc: "ncrc32 [16, 0, 0, 0, 65, 82, 68, 70, 0, 0, 0, 0] = 1707799789"
  by (simp only: ncrc_eval)

lemma ardf_header_valid: "validate ardf_header_bytes ardf_header = Inr True"
  by (simp add: validate_eval ardf_header_bytes_def ardf_header_def py_slice_def ardf_header_crc)

theorem validate_crc32_witness:
  "validate ardf_header_bytes ardf_header = Inr True
   \<and> h_crc ardf_header = unat (spec_crc32 (py_slice ardf_header_bytes 4 16))
   \<and> validate (ardf_header_bytes[8 := 0]) ardf_header = Inl (ChecksumMismatch ardf_header)"
proof -
  have "h_offset ardf_header + 4 \<le> 8" "8 < h_offset ardf_header + h_size ardf_header"
    "8 < length ardf_header_bytes" "0 \<noteq> ardf_header_bytes ! 8"
    "h_offset ardf_header + 4 = 4" "h_offset ardf_header + h_size ardf_header = 16"
    by (simp_all add: ardf_header_def ardf_header_bytes_def)
  then show ?thesis
    using validate_crc32 [of ardf_header_bytes ardf_header 8 0] ardf_header_valid
    by simp
qed

section \<open>The row bisection\<close>

lemma bisect_left_bounds:
  "min_idx \<le> max_idx \<Longrightarrow> min_idx \<le> bisect_left a key min_idx max_idx \<and> bisect_left a key min_idx max_idx \<le> max_idx"
proof (induction a key min_idx max_idx rule: bisect_left.induct)
  case (1 a key min_idx max_idx)
  show ?case
  proof (cases "min_idx < max_idx")
    case True
    let ?mid = "min_idx + (max_idx - min_idx) div 2"
    have m: "min_idx \<le> ?mid" "?mid < max_idx" using True by auto
    show ?thesis
    proof (cases "a ! ?mid < key")
      case lt: True
      from "1.IH"(1) [OF True refl lt] m have
        "?mid + 1 \<le> bisect_left a key (?mid + 1) max_idx \<and> bisect_left a key (?mid + 1) max_idx \<le> max_idx"
        by simp
      with True lt m show ?thesis by (subst (1 2) bisect_left.simps) (simp add: Let_def)
    next
      case ge: False
      from "1.IH"(2) [OF True refl ge] m have
        "min_idx \<le> bisect_left a key min_idx ?mid \<and> bisect_left a key min_idx ?mid \<le> ?mid"
        by simp
      with True ge m show ?thesis by (subst (1 2) bisect_left.simps) (simp add: Let_def)
    qed
  next
    case False
    with "1.prems" show ?thesis by (subst (1 2) bisect_left.simps) simp
  qed
qed

lemma bisect_left_sorted:
  assumes "sorted a" "min_idx \<le> max_idx" "max_idx \<le> length a"
    and "\<forall>j<min_idx. a ! j < key" and "\<forall>j. max_idx \<le> j \<and> j < length a \<longrightarrow> key \<le> a ! j"
  shows "(\<forall>j<bisect_left a key min_idx max_idx. a ! j < key)
       \<and> (\<forall>j. bisect_left a key min_idx max_idx \<le> j \<and> j < length a \<longrightarrow> key \<le> a ! j)"
  using assms
proof (induction a key min_idx max_idx rule: bisect_left.induct)
  case (1 a key min_idx max_idx)
  show ?case
  proof (cases "min_idx < max_idx")
    case True
    let ?mid = "min_idx + (max_idx - min_idx) div 2"
    have m: "min_idx \<le> ?mid" "?mid < max_idx" using True by auto
    show ?thesis
    proof (cases "a ! ?mid < key")
      case lt: True
      have below: "\<forall>j<?mid + 1. a ! j < key"
      proof (intro allI impI)
        fix j assume "j < ?mid + 1"
        then have "j \<le> ?mid" by simp
        with \<open>sorted a\<close> m "1.prems"(3) have "a ! j \<le> a ! ?mid"
          by (auto intro: sorted_nth_mono)
        with lt show "a ! j < key" by simp
      qed
      have "(\<forall>j<bisect_left a key (?mid + 1) max_idx. a ! j < key)
       \<and> (\<forall>j. bisect_left a key (?mid + 1) max_idx \<le> j \<and> j < length a \<longrightarrow> key \<le> a ! j)"
        using "1.IH"(1) [OF True refl lt] "1.prems" m below by simp
      with True lt show ?thesis by (subst (1 2) bisect_left.simps) (simp add: Let_def)
    next
      case ge: False
      have above: "\<forall>j. ?mid \<le> j \<and> j < length a \<longrightarrow> key \<le> a ! j"
      proof (intro allI impI)
        fix j assume "?mid \<le> j \<and> j < length a"
        with \<open>sorted a\<close> have "a ! ?mid \<le> a ! j"
          by (auto intro: sorted_nth_mono)
        with ge show "key \<le> a ! j" by simp
      qed
      have "(\<forall>j<bisect_left a key min_idx ?mid. a ! j < key)
       \<and> (\<forall>j. bisect_left a key min_idx ?mid \<le> j \<and> j < length a \<longrightarrow> key \<le> a ! j)"
        using "1.IH"(2) [OF True refl ge] "1.prems" m above by simp
      with True ge show ?thesis by (subst (1 2) bisect_left.simps) (simp add: Let_def)
    qed
  next
    case False
    with "1.prems" have "min_idx = max_idx" by simp
    with "1.prems" show ?thesis by (subst (1 2) bisect_left.simps) simp
  qed
qed

lemma searchsorted_sorted:
  assumes "sorted a"
  shows "searchsorted a key \<le> length a"
    and "key \<in> set a \<Longrightarrow> searchsorted a key < length a \<and> a ! searchsorted a key = key"
    and "key \<notin> set a \<Longrightarrow> searchsorted a key < length a \<Longrightarrow> a ! searchsorted a key \<noteq> key"
proof -
  let ?i = "searchsorted a key"
  show le: "?i \<le> length a"
    using bisect_left_bounds [of 0 "length a" a key] by (simp add: searchsorted_def)
  have inv: "(\<forall>j<?i. a ! j < key) \<and> (\<forall>j. ?i \<le> j \<and> j < length a \<longrightarrow> key \<le> a ! j)"
    unfolding searchsorted_def using assms by (intro bisect_left_sorted) simp_all
  show "?i < length a \<and> a ! ?i = key" if "key \<in> set a"
  proof -
    from that obtain k where k: "k < length a" "a ! k = key" by (auto simp add: in_set_conv_nth)
    with inv have "\<not> k < ?i" by auto
    then have ik: "?i \<le> k" by simp
    with k have lt: "?i < length a" by simp
    with assms ik k have "a ! ?i \<le> key" by (auto intro: sorted_nth_mono)
    moreover from inv lt have "key \<le> a ! ?i" by simp
    ultimately show ?thesis using lt by simp
  qed
  show "a ! ?i \<noteq> key" if "key \<notin> set a" "?i < length a"
    using that by (auto simp add: in_set_conv_nth)
qed

lemma sorted_rev_hd_last:
  assumes "xs \<noteq> []" "sorted (rev xs)" "\<not> hd xs > last xs"
  shows "sorted (xs :: nat list)"
proof -
  have rng: "last xs \<le> x \<and> x \<le> hd xs" if "x \<in> set xs" for x
  proof -
    from that obtain k where k: "k < length xs" "xs ! k = x" by (auto simp add: in_set_conv_nth)
    have "rev xs ! 0 \<le> rev xs ! (length xs - 1 - k)"
      using assms(2) k by (intro sorted_nth_mono) auto
    moreover have "rev xs ! (length xs - 1 - k) \<le> rev xs ! (length xs - 1)"
      using assms(2) k by (intro sorted_nth_mono) auto
    ultimately show ?thesis
      using k assms(1) by (simp add: rev_nth hd_conv_nth last_conv_nth)
  qed
  have "x = hd xs" if "x \<in> set xs" for x
    using rng [OF that] assms(3) by simp
  then have "\<forall>x\<in>set xs. \<forall>y\<in>set xs. x \<le> y" by (metis order_refl)
  then show ?thesis by (simp add: sorted_wrt_iff_nth_less)
qed

lemma sorted_hd_last:
  assumes "xs \<noteq> []" "sorted xs"
  shows "hd xs \<le> (last xs :: nat)"
  using assms by (simp add: hd_conv_nth last_conv_nth sorted_nth_mono)

lemma bisect_row_pointer_unfold:
  assumes "vtoc_lines vtoc \<noteq> []"
  shows "bisect_row_pointer vtoc r =
    (let reversed = hd (vtoc_lines vtoc) > last (vtoc_lines vtoc);
         lines_sl = (if reversed then rev (vtoc_lines vtoc) else vtoc_lines vtoc);
         pointers_sl = (if reversed then rev (vtoc_pointers vtoc) else vtoc_pointers vtoc);
         i = searchsorted lines_sl r
     in if i \<ge> length (vtoc_lines vtoc) \<or> r \<noteq> lines_sl ! i then Inr None
        else if i < length pointers_sl then Inr (Some (pointers_sl ! i))
        else Inl IndexError)"
  using assms by (simp add: bisect_row_pointer_def)

lemma bisect_row_pointer_absent:
  assumes ne: "vtoc_lines vtoc \<noteq> []" and absent: "r \<notin> set (vtoc_lines vtoc)"
  shows "bisect_row_pointer vtoc r = Inr None"
proof -
  let ?ls = "vtoc_lines vtoc"
  let ?lsl = "if hd ?ls > last ?ls then rev ?ls else ?ls"
  let ?i = "searchsorted ?lsl r"
  have set_eq: "set ?lsl = set ?ls" and len_eq: "length ?lsl = length ?ls" by simp_all
  have "?i \<ge> length ?ls \<or> r \<noteq> ?lsl ! ?i"
  proof (rule disjCI)
    assume "\<not> r \<noteq> ?lsl ! ?i"
    then have eq: "r = ?lsl ! ?i" by simp
    show "?i \<ge> length ?ls"
    proof (rule ccontr)
      assume "\<not> ?i \<ge> length ?ls"
      then have "?i < length ?lsl" using len_eq by simp
      then have "?lsl ! ?i \<in> set ?lsl" by (rule nth_mem)
      with eq set_eq absent show False by simp
    qed
  qed
  then show ?thesis
    by (simp only: bisect_row_pointer_unfold [OF ne] Let_def) simp
qed

lemma bisect_row_pointer_present:
  assumes ne: "vtoc_lines vtoc \<noteq> []"
    and mono: "sorted (vtoc_lines vtoc) \<or> sorted (rev (vtoc_lines vtoc))"
    and len: "length (vtoc_pointers vtoc) = length (vtoc_lines vtoc)"
    and present: "r \<in> set (vtoc_lines vtoc)"
  shows "\<exists>k<length (vtoc_lines vtoc). vtoc_lines vtoc ! k = r
              \<and> bisect_row_pointer vtoc r = Inr (Some (vtoc_pointers vtoc ! k))"
proof -
  let ?ls = "vtoc_lines vtoc" and ?ps = "vtoc_pointers vtoc"
  let ?rv = "hd ?ls > last ?ls"
  let ?lsl = "if ?rv then rev ?ls else ?ls"
  let ?psl = "if ?rv then rev ?ps else ?ps"
  let ?i = "searchsorted ?lsl r"
  have srt: "sorted ?lsl"
  proof (cases ?rv)
    case True
    with ne mono sorted_hd_last [of ?ls] show ?thesis by auto
  next
    case False
    with ne mono sorted_rev_hd_last [of ?ls] show ?thesis by auto
  qed
  have set_eq: "set ?lsl = set ?ls" and len_eq: "length ?lsl = length ?ls" "length ?psl = length ?ls"
    using len by simp_all
  from present set_eq have "r \<in> set ?lsl" by simp
  from searchsorted_sorted(2) [OF srt this] len_eq
  have i: "?i < length ?ls" "?lsl ! ?i = r" by simp_all
  then have res: "bisect_row_pointer vtoc r = Inr (Some (?psl ! ?i))"
    using len_eq by (simp only: bisect_row_pointer_unfold [OF ne] Let_def) simp
  show ?thesis
  proof (cases ?rv)
    case True
    let ?k = "length ?ls - Suc ?i"
    have "?k < length ?ls" using i by simp
    moreover have "?ls ! ?k = r" using i True by (simp add: rev_nth)
    moreover have "?psl ! ?i = ?ps ! ?k" using i True len by (simp add: rev_nth)
    ultimately show ?thesis using res by metis
  next
    case False
    with i res show ?thesis by auto
  qed
qed

lemma searchsorted_desc_7: "searchsorted [Suc 0, 3, 5, 7, 9] 7 = 3"
  by (simp add: searchsorted_def bisect_left.simps Let_def)

lemma searchsorted_desc_6: "searchsorted [Suc 0, 3, 5, 7, 9] 6 = 3"
  by (simp add: searchsorted_def bisect_left.simps Let_def)

lemma bisect_row_pointer_example:
  assumes "vtoc_lines vt = [9, 7, 5, 3, 1]" "vtoc_pointers vt = [p0, p1, p2, p3, p4]"
  shows "bisect_row_pointer vt 7 = Inr (Some p1)" "bisect_row_pointer vt 6 = Inr None"
  using assms by (simp_all add: bisect_row_pointer_def Let_def searchsorted_desc_7 searchsorted_desc_6)

lemma get_curve_row_not_found:
  assumes "0 \<le> r" "r < int (fm_lines rd)" "0 \<le> c" "c < int (fm_points rd)"
    and "(nat r, nat c, fm_vtype rd) \<notin> dom (fm_seen_vsets rd)"
    and "bisect_row_pointer (fm_vtoc rd) (nat r) = Inr None"
  shows "get_curve fuel rd r c = Some (Inr (nan_curve, rd))"
  using assms by (simp add: get_curve_def seek_row_def Let_def)

text \<open>
  C5. The bisection of \<open>get_curve\<close> serves ascending and descending line columns, told
  apart by their first and last entries: in a sorted column of either direction a row
  that is present is found, with the pointer of an entry of that row, and a row that is
  absent is not. For the descending column \<open>[9, 7, 5, 3, 1]\<close>, row 7 is found at the
  entry of index 1, and row 6 is not found, so that \<open>get_curve\<close> returns the
  placeholder filled with \<open>NaN\<close>.
\<close>

theorem row_bisection:
  "(vtoc_lines vtoc \<noteq> [] \<and> (sorted (vtoc_lines vtoc) \<or> sorted (rev (vtoc_lines vtoc)))
      \<and> length (vtoc_pointers vtoc) = length (vtoc_lines vtoc) \<longrightarrow>
      (r \<in> set (vtoc_lines vtoc) \<longrightarrow>
         (\<exists>k<length (vtoc_lines vtoc). vtoc_lines vtoc ! k = r
            \<and> bisect_row_pointer vtoc r = Inr (Some (vtoc_pointers vtoc ! k))))
      \<and> (r \<notin> set (vtoc_lines vtoc) \<longrightarrow> bisect_row_pointer vtoc r = Inr None))
   \<and> (vtoc_lines vt = [9, 7, 5, 3, 1] \<and> vtoc_pointers vt = [p0, p1, p2, p3, p4] \<longrightarrow>
        bisect_row_pointer vt 7 = Inr (Some ([p0, p1, p2, p3, p4] ! 1))
        \<and> bisect_row_pointer vt 6 = Inr None)
   \<and> (vtoc_lines (fm_vtoc rd) = [9, 7, 5, 3, 1] \<and> 6 < fm_lines rd
        \<and> 0 \<le> c \<and> c < int (fm_points rd)
        \<and> (6, nat c, fm_vtype rd) \<notin> dom (fm_seen_vsets rd) \<longrightarrow>
        get_curve fuel rd 6 c = Some (Inr (nan_curve, rd)))"
proof (intro conjI impI)
  assume a: "vtoc_lines vtoc \<noteq> [] \<and> (sorted (vtoc_lines vtoc) \<or> sorted (rev (vtoc_lines vtoc)))
      \<and> length (vtoc_pointers vtoc) = length (vtoc_lines vtoc)"
  show "\<exists>k<length (vtoc_lines vtoc). vtoc_lines vtoc ! k = r
            \<and> bisect_row_pointer vtoc r = Inr (Some (vtoc_pointers vtoc ! k))"
    if "r \<in> set (vtoc_lines vtoc)"
    using a that by (intro bisect_row_pointer_present) simp_all
  show "bisect_row_pointer vtoc r = Inr None" if "r \<notin> set (vtoc_lines vtoc)"
    using a that by (intro bisect_row_pointer_absent) simp_all
next
  assume "vtoc_lines vt = [9, 7, 5, 3, 1] \<and> vtoc_pointers vt = [p0, p1, p2, p3, p4]"
  then show "bisect_row_pointer vt 7 = Inr (Some ([p0, p1, p2, p3, p4] ! 1))"
    and "bisect_row_pointer vt 6 = Inr None"
    using bisect_row_pointer_example [of vt p0 p1 p2 p3 p4] by simp_all
next
  assume a: "vtoc_lines (fm_vtoc rd) = [9, 7, 5, 3, 1] \<and> 6 < fm_lines rd
        \<and> 0 \<le> c \<and> c < int (fm_points rd)
        \<and> (6, nat c, fm_vtype rd) \<notin> dom (fm_seen_vsets rd)"
  then have "bisect_row_pointer (fm_vtoc rd) (nat 6) = Inr None"
    by (intro bisect_row_pointer_absent) simp_all
  with a show "get_curve fuel rd 6 c = Some (Inr (nan_curve, rd))"
    by (intro get_curve_row_not_found) simp_all
qed

theorem row_bisection_witness:
  "sorted (rev (vtoc_lines descending_vtoc))
   \<and> 7 \<in> set (vtoc_lines descending_vtoc)
   \<and> (\<exists>k<length (vtoc_lines descending_vtoc). vtoc_lines descending_vtoc ! k = 7
        \<and> bisect_row_pointer descending_vtoc 7 = Inr (Some (vtoc_pointers descending_vtoc ! k)))
   \<and> bisect_row_pointer descending_vtoc 7 = Inr (Some 2000)
   \<and> bisect_row_pointer descending_vtoc 6 = Inr None
   \<and> get_curve 0 descending_reader 6 3 = Some (Inr (nan_curve, descending_reader))"
proof -
  note t = row_bisection [of descending_vtoc 7 descending_vtoc 1000 2000 3000 4000 5000
      descending_reader 3 0]
  have s: "sorted (rev (vtoc_lines descending_vtoc))"
    and m: "7 \<in> set (vtoc_lines descending_vtoc)"
    by (simp_all add: descending_vtoc_def)
  have p1: "vtoc_lines descending_vtoc \<noteq> []
      \<and> (sorted (vtoc_lines descending_vtoc) \<or> sorted (rev (vtoc_lines descending_vtoc)))
      \<and> length (vtoc_pointers descending_vtoc) = length (vtoc_lines descending_vtoc)"
    using s by (simp add: descending_vtoc_def)
  have p2: "vtoc_lines descending_vtoc = [9, 7, 5, 3, 1]
      \<and> vtoc_pointers descending_vtoc = [1000, 2000, 3000, 4000, 5000]"
    by (simp add: descending_vtoc_def)
  have p3: "vtoc_lines (fm_vtoc descending_reader) = [9, 7, 5, 3, 1] \<and> 6 < fm_lines descending_reader
        \<and> 0 \<le> (3 :: int) \<and> 3 < int (fm_points descending_reader)
        \<and> (6, nat 3, fm_vtype descending_reader) \<notin> dom (fm_seen_vsets descending_reader)"
    by (simp add: descending_vtoc_def descending_reader_def)
  from t p1 m have c1: "\<exists>k<length (vtoc_lines descending_vtoc). vtoc_lines descending_vtoc ! k = 7
        \<and> bisect_row_pointer descending_vtoc 7 = Inr (Some (vtoc_pointers descending_vtoc ! k))"
    by blast
  from t p2 have c2: "bisect_row_pointer descending_vtoc 7 = Inr (Some ([1000, 2000, 3000, 4000, 5000] ! 1))"
    and c3: "bisect_row_pointer descending_vtoc 6 = Inr None"
    by blast+
  from t p3 have c4: "get_curve 0 descending_reader 6 3 = Some (Inr (nan_curve, descending_reader))"
    by blast
  from c2 have c2': "bisect_row_pointer descending_vtoc 7 = Inr (Some 2000)" by simp
  from s m c1 c2' c3 c4 show ?thesis by blast
qed



section \<open>The example volume\<close>

lemma demo_lengths:
  "length demo_volm_bytes = 32"
  "length demo_nset_bytes = 24"
  "length demo_ttoc_bytes = 32"
  "length demo_vdef_bytes = 208"
  "length demo_vchn0_bytes = 80"
  "length demo_vchn1_bytes = 80"
  "length demo_xdef_bytes = 96"
  "length demo_vtoc_bytes = 32"
  "length demo_voff0_bytes = 40"
  "length demo_voff1_bytes = 40"
  "length demo_mlov_bytes = 16"
  "length demo_vset0_bytes = 48"
  "length demo_vnam0_bytes = 16"
  "length demo_zdat0_bytes = 72"
  "length demo_ddat0_bytes = 72"
  "length demo_vset1_bytes = 48"
  "length demo_vnam1_bytes = 16"
  "length demo_zdat1_bytes = 72"
  "length demo_ddat1_bytes = 72"
  "length demo_tail_bytes = 16"
  by (simp_all add: demo_volm_bytes_def demo_nset_bytes_def demo_ttoc_bytes_def demo_vdef_bytes_def
    demo_vchn0_bytes_def demo_vchn1_bytes_def demo_xdef_bytes_def demo_vtoc_bytes_def
    demo_voff0_bytes_def demo_voff1_bytes_def demo_mlov_bytes_def demo_vset0_bytes_def
    demo_vnam0_bytes_def demo_zdat0_bytes_def demo_ddat0_bytes_def demo_vset1_bytes_def
    demo_vnam1_bytes_def demo_zdat1_bytes_def demo_ddat1_bytes_def demo_tail_bytes_def)

lemma demo_file_length: "length demo_file = 1112"
  by (simp add: demo_file_def demo_lengths)

lemma demo_at_0_16: "take 16 demo_file =
    [14, 49, 31, 132, 32, 0, 0, 0, 86, 79, 76, 77, 0, 0, 0, 0]"
  by (simp add: demo_file_def demo_lengths demo_volm_bytes_def)

lemma demo_at_4_28: "take 28 (drop 4 demo_file) =
    [32, 0, 0, 0, 86, 79, 76, 77, 0, 0, 0, 0, 56, 0, 0, 0, 0, 0, 0, 0, 1, 0, 0, 0, 24, 0, 0, 0]"
  by (simp add: demo_file_def demo_lengths demo_volm_bytes_def)

lemma demo_at_16_16: "take 16 (drop 16 demo_file) =
    [56, 0, 0, 0, 0, 0, 0, 0, 1, 0, 0, 0, 24, 0, 0, 0]"
  by (simp add: demo_file_def demo_lengths demo_volm_bytes_def)

lemma demo_at_32_16: "take 16 (drop 32 demo_file) =
    [6, 171, 220, 173, 24, 0, 0, 0, 78, 83, 69, 84, 0, 0, 0, 0]"
  by (simp add: demo_file_def demo_lengths demo_nset_bytes_def)

lemma demo_at_36_20: "take 20 (drop 36 demo_file) =
    [24, 0, 0, 0, 78, 83, 69, 84, 0, 0, 0, 0, 2, 0, 0, 0, 0, 0, 0, 0]"
  by (simp add: demo_file_def demo_lengths demo_nset_bytes_def)

lemma demo_at_32_24: "take 24 (drop 32 demo_file) =
    [6, 171, 220, 173, 24, 0, 0, 0, 78, 83, 69, 84, 0, 0, 0, 0, 2, 0, 0, 0, 0, 0, 0, 0]"
  by (simp add: demo_file_def demo_lengths demo_nset_bytes_def)

lemma demo_at_56_16: "take 16 (drop 56 demo_file) =
    [167, 209, 188, 172, 32, 0, 0, 0, 84, 84, 79, 67, 0, 0, 0, 0]"
  by (simp add: demo_file_def demo_lengths demo_ttoc_bytes_def)

lemma demo_at_60_28: "take 28 (drop 60 demo_file) =
    [32, 0, 0, 0, 84, 84, 79, 67, 0, 0, 0, 0, 32, 0, 0, 0, 0, 0, 0, 0, 0, 0, 0, 0, 32, 0, 0, 0]"
  by (simp add: demo_file_def demo_lengths demo_ttoc_bytes_def)

lemma demo_at_72_16: "take 16 (drop 72 demo_file) =
    [32, 0, 0, 0, 0, 0, 0, 0, 0, 0, 0, 0, 32, 0, 0, 0]"
  by (simp add: demo_file_def demo_lengths demo_ttoc_bytes_def)

lemma demo_at_88_16: "take 16 (drop 88 demo_file) =
    [130, 138, 117, 113, 208, 0, 0, 0, 86, 68, 69, 70, 0, 0, 0, 0]"
  by (simp add: demo_file_def demo_lengths demo_vdef_bytes_def)

lemma demo_at_92_204: "take 204 (drop 92 demo_file) =
    [208, 0, 0, 0, 86, 68, 69, 70, 0, 0, 0, 0, 2, 0, 0, 0, 3, 0, 0, 0, 0, 0, 0, 0, 0, 0, 0, 0,
     0, 0, 0, 0, 0, 0, 0, 0, 0, 0, 0, 0, 0, 0, 0, 0, 58, 140, 48, 226, 142, 121, 69, 62, 58,
     140, 48, 226, 142, 121, 85, 62, 252, 169, 241, 210, 77, 98, 64, 63, 109, 0, 0, 0, 0, 0, 0,
     0, 0, 0, 0, 0, 0, 0, 0, 0, 0, 0, 0, 0, 0, 0, 0, 0, 0, 0, 0, 0, 0, 0, 0, 0, 109, 0, 0, 0,
     0, 0, 0, 0, 0, 0, 0, 0, 0, 0, 0, 0, 0, 0, 0, 0, 0, 0, 0, 0, 0, 0, 0, 0, 0, 0, 0, 0, 115,
     0, 0, 0, 0, 0, 0, 0, 0, 0, 0, 0, 0, 0, 0, 0, 0, 0, 0, 0, 0, 0, 0, 0, 0, 0, 0, 0, 0, 0, 0,
     0, 69, 120, 116, 59, 82, 101, 116, 59, 0, 0, 0, 0, 0, 0, 0, 0, 0, 0, 0, 0, 0, 0, 0, 0, 0,
     0, 0, 0, 0, 0, 0, 0, 2, 0, 0, 0, 0, 0, 0, 0]"
  by (simp add: demo_file_def demo_lengths demo_vdef_bytes_def)

lemma demo_at_104_192: "take 192 (drop 104 demo_file) =
    [2, 0, 0, 0, 3, 0, 0, 0, 0, 0, 0, 0, 0, 0, 0, 0, 0, 0, 0, 0, 0, 0, 0, 0, 0, 0, 0, 0, 0, 0,
     0, 0, 58, 140, 48, 226, 142, 121, 69, 62, 58, 140, 48, 226, 142, 121, 85, 62, 252, 169,
     241, 210, 77, 98, 64, 63, 109, 0, 0, 0, 0, 0, 0, 0, 0, 0, 0, 0, 0, 0, 0, 0, 0, 0, 0, 0, 0,
     0, 0, 0, 0, 0, 0, 0, 0, 0, 0, 0, 109, 0, 0, 0, 0, 0, 0, 0, 0, 0, 0, 0, 0, 0, 0, 0, 0, 0,
     0, 0, 0, 0, 0, 0, 0, 0, 0, 0, 0, 0, 0, 0, 115, 0, 0, 0, 0, 0, 0, 0, 0, 0, 0, 0, 0, 0, 0,
     0, 0, 0, 0, 0, 0, 0, 0, 0, 0, 0, 0, 0, 0, 0, 0, 0, 69, 120, 116, 59, 82, 101, 116, 59, 0,
     0, 0, 0, 0, 0, 0, 0, 0, 0, 0, 0, 0, 0, 0, 0, 0, 0, 0, 0, 0, 0, 0, 0, 2, 0, 0, 0, 0, 0, 0,
     0]"
  by (simp add: demo_file_def demo_lengths demo_vdef_bytes_def)

lemma demo_at_296_16: "take 16 (drop 296 demo_file) =
    [76, 199, 240, 91, 80, 0, 0, 0, 86, 67, 72, 78, 0, 0, 0, 0]"
  by (simp add: demo_file_def demo_lengths demo_vchn0_bytes_def)

lemma demo_at_300_76: "take 76 (drop 300 demo_file) =
    [80, 0, 0, 0, 86, 67, 72, 78, 0, 0, 0, 0, 82, 97, 119, 0, 0, 0, 0, 0, 0, 0, 0, 0, 0, 0, 0,
     0, 0, 0, 0, 0, 0, 0, 0, 0, 0, 0, 0, 0, 0, 0, 0, 0, 109, 0, 0, 0, 0, 0, 0, 0, 0, 0, 0, 0,
     0, 0, 0, 0, 0, 0, 0, 0, 0, 0, 0, 0, 0, 0, 0, 0, 0, 0, 0, 0]"
  by (simp add: demo_file_def demo_lengths demo_vchn0_bytes_def)

lemma demo_at_312_64: "take 64 (drop 312 demo_file) =
    [82, 97, 119, 0, 0, 0, 0, 0, 0, 0, 0, 0, 0, 0, 0, 0, 0, 0, 0, 0, 0, 0, 0, 0, 0, 0, 0, 0, 0,
     0, 0, 0, 109, 0, 0, 0, 0, 0, 0, 0, 0, 0, 0, 0, 0, 0, 0, 0, 0, 0, 0, 0, 0, 0, 0, 0, 0, 0,
     0, 0, 0, 0, 0, 0]"
  by (simp add: demo_file_def demo_lengths demo_vchn0_bytes_def)

lemma demo_at_376_16: "take 16 (drop 376 demo_file) =
    [94, 92, 73, 160, 80, 0, 0, 0, 86, 67, 72, 78, 0, 0, 0, 0]"
  by (simp add: demo_file_def demo_lengths demo_vchn1_bytes_def)

lemma demo_at_380_76: "take 76 (drop 380 demo_file) =
    [80, 0, 0, 0, 86, 67, 72, 78, 0, 0, 0, 0, 68, 101, 102, 108, 0, 0, 0, 0, 0, 0, 0, 0, 0, 0,
     0, 0, 0, 0, 0, 0, 0, 0, 0, 0, 0, 0, 0, 0, 0, 0, 0, 0, 109, 0, 0, 0, 0, 0, 0, 0, 0, 0, 0,
     0, 0, 0, 0, 0, 0, 0, 0, 0, 0, 0, 0, 0, 0, 0, 0, 0, 0, 0, 0, 0]"
  by (simp add: demo_file_def demo_lengths demo_vchn1_bytes_def)

lemma demo_at_392_64: "take 64 (drop 392 demo_file) =
    [68, 101, 102, 108, 0, 0, 0, 0, 0, 0, 0, 0, 0, 0, 0, 0, 0, 0, 0, 0, 0, 0, 0, 0, 0, 0, 0, 0,
     0, 0, 0, 0, 109, 0, 0, 0, 0, 0, 0, 0, 0, 0, 0, 0, 0, 0, 0, 0, 0, 0, 0, 0, 0, 0, 0, 0, 0,
     0, 0, 0, 0, 0, 0, 0]"
  by (simp add: demo_file_def demo_lengths demo_vchn1_bytes_def)

lemma demo_at_456_16: "take 16 (drop 456 demo_file) =
    [197, 70, 237, 12, 96, 0, 0, 0, 88, 68, 69, 70, 0, 0, 0, 0]"
  by (simp add: demo_file_def demo_lengths demo_xdef_bytes_def)

lemma demo_at_460_92: "take 92 (drop 460 demo_file) =
    [96, 0, 0, 0, 88, 68, 69, 70, 0, 0, 0, 0, 0, 0, 0, 0, 8, 0, 0, 0, 69, 120, 116, 59, 82,
     101, 116, 59, 0, 0, 0, 0, 0, 0, 0, 0, 0, 0, 0, 0, 0, 0, 0, 0, 0, 0, 0, 0, 0, 0, 0, 0, 0,
     0, 0, 0, 0, 0, 0, 0, 0, 0, 0, 0, 0, 0, 0, 0, 0, 0, 0, 0, 0, 0, 0, 0, 0, 0, 0, 0, 0, 0, 0,
     0, 0, 0, 0, 0, 0, 0, 0, 0]"
  by (simp add: demo_file_def demo_lengths demo_xdef_bytes_def)

lemma demo_at_472_8: "take 8 (drop 472 demo_file) =
    [0, 0, 0, 0, 8, 0, 0, 0]"
  by (simp add: demo_file_def demo_lengths demo_xdef_bytes_def)

lemma demo_at_480_8: "take 8 (drop 480 demo_file) =
    [69, 120, 116, 59, 82, 101, 116, 59]"
  by (simp add: demo_file_def demo_lengths demo_xdef_bytes_def)

lemma demo_at_552_16: "take 16 (drop 552 demo_file) =
    [94, 250, 79, 58, 32, 0, 0, 0, 86, 84, 79, 67, 0, 0, 0, 0]"
  by (simp add: demo_file_def demo_lengths demo_vtoc_bytes_def)

lemma demo_at_556_28: "take 28 (drop 556 demo_file) =
    [32, 0, 0, 0, 86, 84, 79, 67, 0, 0, 0, 0, 112, 0, 0, 0, 0, 0, 0, 0, 2, 0, 0, 0, 40, 0, 0, 0]"
  by (simp add: demo_file_def demo_lengths demo_vtoc_bytes_def)

lemma demo_at_568_16: "take 16 (drop 568 demo_file) =
    [112, 0, 0, 0, 0, 0, 0, 0, 2, 0, 0, 0, 40, 0, 0, 0]"
  by (simp add: demo_file_def demo_lengths demo_vtoc_bytes_def)

lemma demo_at_584_16: "take 16 (drop 584 demo_file) =
    [42, 88, 98, 234, 40, 0, 0, 0, 86, 79, 70, 70, 0, 0, 0, 0]"
  by (simp add: demo_file_def demo_lengths demo_voff0_bytes_def)

lemma demo_at_588_36: "take 36 (drop 588 demo_file) =
    [40, 0, 0, 0, 86, 79, 70, 70, 0, 0, 0, 0, 0, 0, 0, 0, 0, 0, 0, 0, 0, 0, 0, 0, 0, 0, 0, 0,
     168, 2, 0, 0, 0, 0, 0, 0]"
  by (simp add: demo_file_def demo_lengths demo_voff0_bytes_def)

lemma demo_at_600_24: "take 24 (drop 600 demo_file) =
    [0, 0, 0, 0, 0, 0, 0, 0, 0, 0, 0, 0, 0, 0, 0, 0, 168, 2, 0, 0, 0, 0, 0, 0]"
  by (simp add: demo_file_def demo_lengths demo_voff0_bytes_def)

lemma demo_at_624_16: "take 16 (drop 624 demo_file) =
    [227, 123, 74, 174, 40, 0, 0, 0, 86, 79, 70, 70, 0, 0, 0, 0]"
  by (simp add: demo_file_def demo_lengths demo_voff1_bytes_def)

lemma demo_at_628_36: "take 36 (drop 628 demo_file) =
    [40, 0, 0, 0, 86, 79, 70, 70, 0, 0, 0, 0, 1, 0, 0, 0, 1, 0, 0, 0, 0, 0, 0, 0, 0, 0, 0, 0,
     120, 3, 0, 0, 0, 0, 0, 0]"
  by (simp add: demo_file_def demo_lengths demo_voff1_bytes_def)

lemma demo_at_640_24: "take 24 (drop 640 demo_file) =
    [1, 0, 0, 0, 1, 0, 0, 0, 0, 0, 0, 0, 0, 0, 0, 0, 120, 3, 0, 0, 0, 0, 0, 0]"
  by (simp add: demo_file_def demo_lengths demo_voff1_bytes_def)

lemma demo_at_664_16: "take 16 (drop 664 demo_file) =
    [112, 97, 163, 15, 16, 0, 0, 0, 77, 76, 79, 86, 0, 0, 0, 0]"
  by (simp add: demo_file_def demo_lengths demo_mlov_bytes_def)

lemma demo_at_668_12: "take 12 (drop 668 demo_file) =
    [16, 0, 0, 0, 77, 76, 79, 86, 0, 0, 0, 0]"
  by (simp add: demo_file_def demo_lengths demo_mlov_bytes_def)

lemma demo_at_680_16: "take 16 (drop 680 demo_file) =
    [4, 196, 111, 85, 48, 0, 0, 0, 86, 83, 69, 84, 0, 0, 0, 0]"
  by (simp add: demo_file_def demo_lengths demo_vset0_bytes_def)

lemma demo_at_684_44: "take 44 (drop 684 demo_file) =
    [48, 0, 0, 0, 86, 83, 69, 84, 0, 0, 0, 0, 0, 0, 0, 0, 0, 0, 0, 0, 0, 0, 0, 0, 2, 0, 0, 0,
     0, 0, 0, 0, 0, 0, 0, 0, 120, 3, 0, 0, 0, 0, 0, 0]"
  by (simp add: demo_file_def demo_lengths demo_vset0_bytes_def)

lemma demo_at_696_32: "take 32 (drop 696 demo_file) =
    [0, 0, 0, 0, 0, 0, 0, 0, 0, 0, 0, 0, 2, 0, 0, 0, 0, 0, 0, 0, 0, 0, 0, 0, 120, 3, 0, 0, 0,
     0, 0, 0]"
  by (simp add: demo_file_def demo_lengths demo_vset0_bytes_def)

lemma demo_at_728_16: "take 16 (drop 728 demo_file) =
    [199, 154, 215, 148, 16, 0, 0, 0, 86, 78, 65, 77, 0, 0, 0, 0]"
  by (simp add: demo_file_def demo_lengths demo_vnam0_bytes_def)

lemma demo_at_732_12: "take 12 (drop 732 demo_file) =
    [16, 0, 0, 0, 86, 78, 65, 77, 0, 0, 0, 0]"
  by (simp add: demo_file_def demo_lengths demo_vnam0_bytes_def)

lemma demo_at_744_16: "take 16 (drop 744 demo_file) =
    [111, 175, 138, 241, 72, 0, 0, 0, 86, 68, 65, 84, 0, 0, 0, 0]"
  by (simp add: demo_file_def demo_lengths demo_zdat0_bytes_def)

lemma demo_at_748_68: "take 68 (drop 748 demo_file) =
    [72, 0, 0, 0, 86, 68, 65, 84, 0, 0, 0, 0, 0, 0, 0, 0, 0, 0, 0, 0, 0, 0, 0, 0, 4, 0, 0, 0,
     0, 0, 0, 0, 0, 0, 0, 0, 2, 0, 0, 0, 4, 0, 0, 0, 0, 0, 0, 0, 0, 0, 0, 0, 0, 0, 128, 63, 0,
     0, 0, 64, 0, 0, 64, 64, 0, 0, 128, 64]"
  by (simp add: demo_file_def demo_lengths demo_zdat0_bytes_def)

lemma demo_at_760_40: "take 40 (drop 760 demo_file) =
    [0, 0, 0, 0, 0, 0, 0, 0, 0, 0, 0, 0, 4, 0, 0, 0, 0, 0, 0, 0, 0, 0, 0, 0, 2, 0, 0, 0, 4, 0,
     0, 0, 0, 0, 0, 0, 0, 0, 0, 0]"
  by (simp add: demo_file_def demo_lengths demo_zdat0_bytes_def)

lemma demo_at_800_4: "take 4 (drop 800 demo_file) =
    [0, 0, 128, 63]"
  by (simp add: demo_file_def demo_lengths demo_zdat0_bytes_def)

lemma demo_at_804_4: "take 4 (drop 804 demo_file) =
    [0, 0, 0, 64]"
  by (simp add: demo_file_def demo_lengths demo_zdat0_bytes_def)

lemma demo_at_808_4: "take 4 (drop 808 demo_file) =
    [0, 0, 64, 64]"
  by (simp add: demo_file_def demo_lengths demo_zdat0_bytes_def)

lemma demo_at_812_4: "take 4 (drop 812 demo_file) =
    [0, 0, 128, 64]"
  by (simp add: demo_file_def demo_lengths demo_zdat0_bytes_def)

lemma demo_at_816_16: "take 16 (drop 816 demo_file) =
    [207, 154, 215, 100, 72, 0, 0, 0, 86, 68, 65, 84, 0, 0, 0, 0]"
  by (simp add: demo_file_def demo_lengths demo_ddat0_bytes_def)

lemma demo_at_820_68: "take 68 (drop 820 demo_file) =
    [72, 0, 0, 0, 86, 68, 65, 84, 0, 0, 0, 0, 0, 0, 0, 0, 0, 0, 0, 0, 0, 0, 0, 0, 4, 0, 0, 0,
     1, 0, 0, 0, 0, 0, 0, 0, 2, 0, 0, 0, 4, 0, 0, 0, 0, 0, 0, 0, 0, 0, 0, 0, 0, 0, 0, 63, 0, 0,
     128, 62, 0, 0, 0, 62, 0, 0, 128, 61]"
  by (simp add: demo_file_def demo_lengths demo_ddat0_bytes_def)

lemma demo_at_832_40: "take 40 (drop 832 demo_file) =
    [0, 0, 0, 0, 0, 0, 0, 0, 0, 0, 0, 0, 4, 0, 0, 0, 1, 0, 0, 0, 0, 0, 0, 0, 2, 0, 0, 0, 4, 0,
     0, 0, 0, 0, 0, 0, 0, 0, 0, 0]"
  by (simp add: demo_file_def demo_lengths demo_ddat0_bytes_def)

lemma demo_at_872_4: "take 4 (drop 872 demo_file) =
    [0, 0, 0, 63]"
  by (simp add: demo_file_def demo_lengths demo_ddat0_bytes_def)

lemma demo_at_876_4: "take 4 (drop 876 demo_file) =
    [0, 0, 128, 62]"
  by (simp add: demo_file_def demo_lengths demo_ddat0_bytes_def)

lemma demo_at_880_4: "take 4 (drop 880 demo_file) =
    [0, 0, 0, 62]"
  by (simp add: demo_file_def demo_lengths demo_ddat0_bytes_def)

lemma demo_at_884_4: "take 4 (drop 884 demo_file) =
    [0, 0, 128, 61]"
  by (simp add: demo_file_def demo_lengths demo_ddat0_bytes_def)

lemma demo_at_888_16: "take 16 (drop 888 demo_file) =
    [23, 233, 61, 117, 48, 0, 0, 0, 86, 83, 69, 84, 0, 0, 0, 0]"
  by (simp add: demo_file_def demo_lengths demo_vset1_bytes_def)

lemma demo_at_892_44: "take 44 (drop 892 demo_file) =
    [48, 0, 0, 0, 86, 83, 69, 84, 0, 0, 0, 0, 1, 0, 0, 0, 1, 0, 0, 0, 0, 0, 0, 0, 2, 0, 0, 0,
     168, 2, 0, 0, 0, 0, 0, 0, 72, 4, 0, 0, 0, 0, 0, 0]"
  by (simp add: demo_file_def demo_lengths demo_vset1_bytes_def)

lemma demo_at_904_32: "take 32 (drop 904 demo_file) =
    [1, 0, 0, 0, 1, 0, 0, 0, 0, 0, 0, 0, 2, 0, 0, 0, 168, 2, 0, 0, 0, 0, 0, 0, 72, 4, 0, 0, 0,
     0, 0, 0]"
  by (simp add: demo_file_def demo_lengths demo_vset1_bytes_def)

lemma demo_at_936_16: "take 16 (drop 936 demo_file) =
    [199, 154, 215, 148, 16, 0, 0, 0, 86, 78, 65, 77, 0, 0, 0, 0]"
  by (simp add: demo_file_def demo_lengths demo_vnam1_bytes_def)

lemma demo_at_940_12: "take 12 (drop 940 demo_file) =
    [16, 0, 0, 0, 86, 78, 65, 77, 0, 0, 0, 0]"
  by (simp add: demo_file_def demo_lengths demo_vnam1_bytes_def)

lemma demo_at_952_16: "take 16 (drop 952 demo_file) =
    [78, 38, 20, 248, 72, 0, 0, 0, 86, 68, 65, 84, 0, 0, 0, 0]"
  by (simp add: demo_file_def demo_lengths demo_zdat1_bytes_def)

lemma demo_at_956_68: "take 68 (drop 956 demo_file) =
    [72, 0, 0, 0, 86, 68, 65, 84, 0, 0, 0, 0, 1, 0, 0, 0, 1, 0, 0, 0, 0, 0, 0, 0, 4, 0, 0, 0,
     0, 0, 0, 0, 0, 0, 0, 0, 2, 0, 0, 0, 4, 0, 0, 0, 0, 0, 0, 0, 0, 0, 0, 0, 0, 0, 160, 64, 0,
     0, 192, 64, 0, 0, 224, 64, 0, 0, 0, 65]"
  by (simp add: demo_file_def demo_lengths demo_zdat1_bytes_def)

lemma demo_at_968_40: "take 40 (drop 968 demo_file) =
    [1, 0, 0, 0, 1, 0, 0, 0, 0, 0, 0, 0, 4, 0, 0, 0, 0, 0, 0, 0, 0, 0, 0, 0, 2, 0, 0, 0, 4, 0,
     0, 0, 0, 0, 0, 0, 0, 0, 0, 0]"
  by (simp add: demo_file_def demo_lengths demo_zdat1_bytes_def)

lemma demo_at_1008_4: "take 4 (drop 1008 demo_file) =
    [0, 0, 160, 64]"
  by (simp add: demo_file_def demo_lengths demo_zdat1_bytes_def)

lemma demo_at_1012_4: "take 4 (drop 1012 demo_file) =
    [0, 0, 192, 64]"
  by (simp add: demo_file_def demo_lengths demo_zdat1_bytes_def)

lemma demo_at_1016_4: "take 4 (drop 1016 demo_file) =
    [0, 0, 224, 64]"
  by (simp add: demo_file_def demo_lengths demo_zdat1_bytes_def)

lemma demo_at_1020_4: "take 4 (drop 1020 demo_file) =
    [0, 0, 0, 65]"
  by (simp add: demo_file_def demo_lengths demo_zdat1_bytes_def)

lemma demo_at_1024_16: "take 16 (drop 1024 demo_file) =
    [24, 196, 246, 176, 72, 0, 0, 0, 86, 68, 65, 84, 0, 0, 0, 0]"
  by (simp add: demo_file_def demo_lengths demo_ddat1_bytes_def)

lemma demo_at_1028_68: "take 68 (drop 1028 demo_file) =
    [72, 0, 0, 0, 86, 68, 65, 84, 0, 0, 0, 0, 1, 0, 0, 0, 1, 0, 0, 0, 0, 0, 0, 0, 4, 0, 0, 0,
     1, 0, 0, 0, 0, 0, 0, 0, 2, 0, 0, 0, 4, 0, 0, 0, 0, 0, 0, 0, 0, 0, 0, 0, 0, 0, 128, 191, 0,
     0, 0, 192, 0, 0, 64, 192, 0, 0, 128, 192]"
  by (simp add: demo_file_def demo_lengths demo_ddat1_bytes_def)

lemma demo_at_1040_40: "take 40 (drop 1040 demo_file) =
    [1, 0, 0, 0, 1, 0, 0, 0, 0, 0, 0, 0, 4, 0, 0, 0, 1, 0, 0, 0, 0, 0, 0, 0, 2, 0, 0, 0, 4, 0,
     0, 0, 0, 0, 0, 0, 0, 0, 0, 0]"
  by (simp add: demo_file_def demo_lengths demo_ddat1_bytes_def)

lemma demo_at_1080_4: "take 4 (drop 1080 demo_file) =
    [0, 0, 128, 191]"
  by (simp add: demo_file_def demo_lengths demo_ddat1_bytes_def)

lemma demo_at_1084_4: "take 4 (drop 1084 demo_file) =
    [0, 0, 0, 192]"
  by (simp add: demo_file_def demo_lengths demo_ddat1_bytes_def)

lemma demo_at_1088_4: "take 4 (drop 1088 demo_file) =
    [0, 0, 64, 192]"
  by (simp add: demo_file_def demo_lengths demo_ddat1_bytes_def)

lemma demo_at_1092_4: "take 4 (drop 1092 demo_file) =
    [0, 0, 128, 192]"
  by (simp add: demo_file_def demo_lengths demo_ddat1_bytes_def)

lemma demo_at_1096_16: "take 16 (drop 1096 demo_file) =
    [0, 0, 0, 0, 0, 0, 0, 0, 0, 0, 0, 0, 0, 0, 0, 0]"
  by (simp add: demo_file_def demo_lengths demo_tail_bytes_def)

lemmas demo_at =
  demo_at_0_16 demo_at_4_28 demo_at_16_16 demo_at_32_16 demo_at_36_20
  demo_at_32_24 demo_at_56_16 demo_at_60_28 demo_at_72_16 demo_at_88_16
  demo_at_92_204 demo_at_104_192 demo_at_296_16 demo_at_300_76 demo_at_312_64
  demo_at_376_16 demo_at_380_76 demo_at_392_64 demo_at_456_16 demo_at_460_92
  demo_at_472_8 demo_at_480_8 demo_at_552_16 demo_at_556_28 demo_at_568_16
  demo_at_584_16 demo_at_588_36 demo_at_600_24 demo_at_624_16 demo_at_628_36
  demo_at_640_24 demo_at_664_16 demo_at_668_12 demo_at_680_16 demo_at_684_44
  demo_at_696_32 demo_at_728_16 demo_at_732_12 demo_at_744_16 demo_at_748_68
  demo_at_760_40 demo_at_800_4 demo_at_804_4 demo_at_808_4 demo_at_812_4
  demo_at_816_16 demo_at_820_68 demo_at_832_40 demo_at_872_4 demo_at_876_4
  demo_at_880_4 demo_at_884_4 demo_at_888_16 demo_at_892_44 demo_at_904_32
  demo_at_936_16 demo_at_940_12 demo_at_952_16 demo_at_956_68 demo_at_968_40
  demo_at_1008_4 demo_at_1012_4 demo_at_1016_4 demo_at_1020_4 demo_at_1024_16
  demo_at_1028_68 demo_at_1040_40 demo_at_1080_4 demo_at_1084_4 demo_at_1088_4
  demo_at_1092_4 demo_at_1096_16

lemma demo_volm_crc: "ncrc32
    [32, 0, 0, 0, 86, 79, 76, 77, 0, 0, 0, 0, 56, 0, 0, 0, 0, 0, 0, 0, Suc 0, 0, 0, 0, 24, 0,
     0, 0] = 2216636686"
  by (simp only: ncrc_eval)

lemma demo_volm_valid: "validate demo_file demo_volm_header = Inr True"
  by (simp add: validate_eval demo_volm_header_def py_slice_def demo_at demo_volm_crc)

lemma demo_nset_crc: "ncrc32
    [24, 0, 0, 0, 78, 83, 69, 84, 0, 0, 0, 0, 2, 0, 0, 0, 0, 0, 0, 0] = 2916920070"
  by (simp only: ncrc_eval)

lemma demo_nset_valid: "validate demo_file demo_nset_header = Inr True"
  by (simp add: validate_eval demo_nset_header_def py_slice_def demo_at demo_nset_crc)

lemma demo_ttoc_crc: "ncrc32
    [32, 0, 0, 0, 84, 84, 79, 67, 0, 0, 0, 0, 32, 0, 0, 0, 0, 0, 0, 0, 0, 0, 0, 0, 32, 0, 0, 0] = 2898055591"
  by (simp only: ncrc_eval)

lemma demo_ttoc_valid: "validate demo_file demo_ttoc_header = Inr True"
  by (simp add: validate_eval demo_ttoc_header_def py_slice_def demo_at demo_ttoc_crc)

lemma demo_vdef_crc: "ncrc32
    [208, 0, 0, 0, 86, 68, 69, 70, 0, 0, 0, 0, 2, 0, 0, 0, 3, 0, 0, 0, 0, 0, 0, 0, 0, 0, 0, 0,
     0, 0, 0, 0, 0, 0, 0, 0, 0, 0, 0, 0, 0, 0, 0, 0, 58, 140, 48, 226, 142, 121, 69, 62, 58,
     140, 48, 226, 142, 121, 85, 62, 252, 169, 241, 210, 77, 98, 64, 63, 109, 0, 0, 0, 0, 0, 0,
     0, 0, 0, 0, 0, 0, 0, 0, 0, 0, 0, 0, 0, 0, 0, 0, 0, 0, 0, 0, 0, 0, 0, 0, 0, 109, 0, 0, 0,
     0, 0, 0, 0, 0, 0, 0, 0, 0, 0, 0, 0, 0, 0, 0, 0, 0, 0, 0, 0, 0, 0, 0, 0, 0, 0, 0, 0, 115,
     0, 0, 0, 0, 0, 0, 0, 0, 0, 0, 0, 0, 0, 0, 0, 0, 0, 0, 0, 0, 0, 0, 0, 0, 0, 0, 0, 0, 0, 0,
     0, 69, 120, 116, 59, 82, 101, 116, 59, 0, 0, 0, 0, 0, 0, 0, 0, 0, 0, 0, 0, 0, 0, 0, 0, 0,
     0, 0, 0, 0, 0, 0, 0, 2, 0, 0, 0, 0, 0, 0, 0] = 1903528578"
  by (simp only: ncrc_eval)

lemma demo_vdef_valid: "validate demo_file demo_vdef_header = Inr True"
  by (simp add: validate_eval demo_vdef_header_def py_slice_def demo_at demo_vdef_crc)

lemma demo_vchn0_crc: "ncrc32
    [80, 0, 0, 0, 86, 67, 72, 78, 0, 0, 0, 0, 82, 97, 119, 0, 0, 0, 0, 0, 0, 0, 0, 0, 0, 0, 0,
     0, 0, 0, 0, 0, 0, 0, 0, 0, 0, 0, 0, 0, 0, 0, 0, 0, 109, 0, 0, 0, 0, 0, 0, 0, 0, 0, 0, 0,
     0, 0, 0, 0, 0, 0, 0, 0, 0, 0, 0, 0, 0, 0, 0, 0, 0, 0, 0, 0] = 1542506316"
  by (simp only: ncrc_eval)

lemma demo_vchn0_valid: "validate demo_file demo_vchn0_header = Inr True"
  by (simp add: validate_eval demo_vchn0_header_def py_slice_def demo_at demo_vchn0_crc)

lemma demo_vchn1_crc: "ncrc32
    [80, 0, 0, 0, 86, 67, 72, 78, 0, 0, 0, 0, 68, 101, 102, 108, 0, 0, 0, 0, 0, 0, 0, 0, 0, 0,
     0, 0, 0, 0, 0, 0, 0, 0, 0, 0, 0, 0, 0, 0, 0, 0, 0, 0, 109, 0, 0, 0, 0, 0, 0, 0, 0, 0, 0,
     0, 0, 0, 0, 0, 0, 0, 0, 0, 0, 0, 0, 0, 0, 0, 0, 0, 0, 0, 0, 0] = 2689162334"
  by (simp only: ncrc_eval)

lemma demo_vchn1_valid: "validate demo_file demo_vchn1_header = Inr True"
  by (simp add: validate_eval demo_vchn1_header_def py_slice_def demo_at demo_vchn1_crc)

lemma demo_xdef_crc: "ncrc32
    [96, 0, 0, 0, 88, 68, 69, 70, 0, 0, 0, 0, 0, 0, 0, 0, 8, 0, 0, 0, 69, 120, 116, 59, 82,
     101, 116, 59, 0, 0, 0, 0, 0, 0, 0, 0, 0, 0, 0, 0, 0, 0, 0, 0, 0, 0, 0, 0, 0, 0, 0, 0, 0,
     0, 0, 0, 0, 0, 0, 0, 0, 0, 0, 0, 0, 0, 0, 0, 0, 0, 0, 0, 0, 0, 0, 0, 0, 0, 0, 0, 0, 0, 0,
     0, 0, 0, 0, 0, 0, 0, 0, 0] = 216876741"
  by (simp only: ncrc_eval)

lemma demo_xdef_valid: "validate demo_file demo_xdef_header = Inr True"
  by (simp add: validate_eval demo_xdef_header_def py_slice_def demo_at demo_xdef_crc)

lemma demo_vtoc_crc: "ncrc32
    [32, 0, 0, 0, 86, 84, 79, 67, 0, 0, 0, 0, 112, 0, 0, 0, 0, 0, 0, 0, 2, 0, 0, 0, 40, 0, 0, 0] = 978319966"
  by (simp only: ncrc_eval)

lemma demo_vtoc_valid: "validate demo_file demo_vtoc_header = Inr True"
  by (simp add: validate_eval demo_vtoc_header_def py_slice_def demo_at demo_vtoc_crc)

lemma demo_voff0_crc: "ncrc32
    [40, 0, 0, 0, 86, 79, 70, 70, 0, 0, 0, 0, 0, 0, 0, 0, 0, 0, 0, 0, 0, 0, 0, 0, 0, 0, 0, 0,
     168, 2, 0, 0, 0, 0, 0, 0] = 3932313642"
  by (simp only: ncrc_eval)

lemma demo_voff0_valid: "validate demo_file demo_voff0_header = Inr True"
  by (simp add: validate_eval demo_voff0_header_def py_slice_def demo_at demo_voff0_crc)

lemma demo_voff1_crc: "ncrc32
    [40, 0, 0, 0, 86, 79, 70, 70, 0, 0, 0, 0, Suc 0, 0, 0, 0, Suc 0, 0, 0, 0, 0, 0, 0, 0, 0, 0,
     0, 0, 120, 3, 0, 0, 0, 0, 0, 0] = 2924116963"
  by (simp only: ncrc_eval)

lemma demo_voff1_valid: "validate demo_file demo_voff1_header = Inr True"
  by (simp add: validate_eval demo_voff1_header_def py_slice_def demo_at demo_voff1_crc)

lemma demo_mlov_crc: "ncrc32
    [16, 0, 0, 0, 77, 76, 79, 86, 0, 0, 0, 0] = 262365552"
  by (simp only: ncrc_eval)

lemma demo_mlov_valid: "validate demo_file demo_mlov_header = Inr True"
  by (simp add: validate_eval demo_mlov_header_def py_slice_def demo_at demo_mlov_crc)

lemma demo_vset0_crc: "ncrc32
    [48, 0, 0, 0, 86, 83, 69, 84, 0, 0, 0, 0, 0, 0, 0, 0, 0, 0, 0, 0, 0, 0, 0, 0, 2, 0, 0, 0,
     0, 0, 0, 0, 0, 0, 0, 0, 120, 3, 0, 0, 0, 0, 0, 0] = 1433388036"
  by (simp only: ncrc_eval)

lemma demo_vset0_valid: "validate demo_file demo_vset0_header = Inr True"
  by (simp add: validate_eval demo_vset0_header_def py_slice_def demo_at demo_vset0_crc)

lemma demo_vnam0_crc: "ncrc32
    [16, 0, 0, 0, 86, 78, 65, 77, 0, 0, 0, 0] = 2497157831"
  by (simp only: ncrc_eval)

lemma demo_vnam0_valid: "validate demo_file demo_vnam0_header = Inr True"
  by (simp add: validate_eval demo_vnam0_header_def py_slice_def demo_at demo_vnam0_crc)

lemma demo_zdat0_crc: "ncrc32
    [72, 0, 0, 0, 86, 68, 65, 84, 0, 0, 0, 0, 0, 0, 0, 0, 0, 0, 0, 0, 0, 0, 0, 0, 4, 0, 0, 0,
     0, 0, 0, 0, 0, 0, 0, 0, 2, 0, 0, 0, 4, 0, 0, 0, 0, 0, 0, 0, 0, 0, 0, 0, 0, 0, 128, 63, 0,
     0, 0, 64, 0, 0, 64, 64, 0, 0, 128, 64] = 4052397935"
  by (simp only: ncrc_eval)

lemma demo_zdat0_valid: "validate demo_file demo_zdat0_header = Inr True"
  by (simp add: validate_eval demo_zdat0_header_def py_slice_def demo_at demo_zdat0_crc)

lemma demo_ddat0_crc: "ncrc32
    [72, 0, 0, 0, 86, 68, 65, 84, 0, 0, 0, 0, 0, 0, 0, 0, 0, 0, 0, 0, 0, 0, 0, 0, 4, 0, 0, 0,
     Suc 0, 0, 0, 0, 0, 0, 0, 0, 2, 0, 0, 0, 4, 0, 0, 0, 0, 0, 0, 0, 0, 0, 0, 0, 0, 0, 0, 63,
     0, 0, 128, 62, 0, 0, 0, 62, 0, 0, 128, 61] = 1691851471"
  by (simp only: ncrc_eval)

lemma demo_ddat0_valid: "validate demo_file demo_ddat0_header = Inr True"
  by (simp add: validate_eval demo_ddat0_header_def py_slice_def demo_at demo_ddat0_crc)

lemma demo_vset1_crc: "ncrc32
    [48, 0, 0, 0, 86, 83, 69, 84, 0, 0, 0, 0, Suc 0, 0, 0, 0, Suc 0, 0, 0, 0, 0, 0, 0, 0, 2, 0,
     0, 0, 168, 2, 0, 0, 0, 0, 0, 0, 72, 4, 0, 0, 0, 0, 0, 0] = 1966991639"
  by (simp only: ncrc_eval)

lemma demo_vset1_valid: "validate demo_file demo_vset1_header = Inr True"
  by (simp add: validate_eval demo_vset1_header_def py_slice_def demo_at demo_vset1_crc)

lemma demo_vnam1_crc: "ncrc32
    [16, 0, 0, 0, 86, 78, 65, 77, 0, 0, 0, 0] = 2497157831"
  by (simp only: ncrc_eval)

lemma demo_vnam1_valid: "validate demo_file demo_vnam1_header = Inr True"
  by (simp add: validate_eval demo_vnam1_header_def py_slice_def demo_at demo_vnam1_crc)

lemma demo_zdat1_crc: "ncrc32
    [72, 0, 0, 0, 86, 68, 65, 84, 0, 0, 0, 0, Suc 0, 0, 0, 0, Suc 0, 0, 0, 0, 0, 0, 0, 0, 4, 0,
     0, 0, 0, 0, 0, 0, 0, 0, 0, 0, 2, 0, 0, 0, 4, 0, 0, 0, 0, 0, 0, 0, 0, 0, 0, 0, 0, 0, 160,
     64, 0, 0, 192, 64, 0, 0, 224, 64, 0, 0, 0, 65] = 4162070094"
  by (simp only: ncrc_eval)

lemma demo_zdat1_valid: "validate demo_file demo_zdat1_header = Inr True"
  by (simp add: validate_eval demo_zdat1_header_def py_slice_def demo_at demo_zdat1_crc)

lemma demo_ddat1_crc: "ncrc32
    [72, 0, 0, 0, 86, 68, 65, 84, 0, 0, 0, 0, Suc 0, 0, 0, 0, Suc 0, 0, 0, 0, 0, 0, 0, 0, 4, 0,
     0, 0, Suc 0, 0, 0, 0, 0, 0, 0, 0, 2, 0, 0, 0, 4, 0, 0, 0, 0, 0, 0, 0, 0, 0, 0, 0, 0, 0,
     128, 191, 0, 0, 0, 192, 0, 0, 64, 192, 0, 0, 128, 192] = 2968962072"
  by (simp only: ncrc_eval)

lemma demo_ddat1_valid: "validate demo_file demo_ddat1_header = Inr True"
  by (simp add: validate_eval demo_ddat1_header_def py_slice_def demo_at demo_ddat1_crc)

lemmas demo_valid =
  demo_volm_valid demo_nset_valid demo_ttoc_valid demo_vdef_valid demo_vchn0_valid
  demo_vchn1_valid demo_xdef_valid demo_vtoc_valid demo_voff0_valid demo_voff1_valid
  demo_mlov_valid demo_vset0_valid demo_vnam0_valid demo_zdat0_valid demo_ddat0_valid
  demo_vset1_valid demo_vnam1_valid demo_zdat1_valid demo_ddat1_valid

lemma demo_volm_header_unpack: "ARDFHeader_unpack demo_file 0 = Inr demo_volm_header"
  by (simp add: ARDFHeader_unpack_def unpack_from_def demo_file_length demo_at field_def demo_volm_header_def)

lemma demo_nset_header_unpack: "ARDFHeader_unpack demo_file 32 = Inr demo_nset_header"
  by (simp add: ARDFHeader_unpack_def unpack_from_def demo_file_length demo_at field_def demo_nset_header_def)

lemma demo_ttoc_header_unpack: "ARDFHeader_unpack demo_file 56 = Inr demo_ttoc_header"
  by (simp add: ARDFHeader_unpack_def unpack_from_def demo_file_length demo_at field_def demo_ttoc_header_def)

lemma demo_vdef_header_unpack: "ARDFHeader_unpack demo_file 88 = Inr demo_vdef_header"
  by (simp add: ARDFHeader_unpack_def unpack_from_def demo_file_length demo_at field_def demo_vdef_header_def)

lemma demo_vchn0_header_unpack: "ARDFHeader_unpack demo_file 296 = Inr demo_vchn0_header"
  by (simp add: ARDFHeader_unpack_def unpack_from_def demo_file_length demo_at field_def demo_vchn0_header_def)

lemma demo_vchn1_header_unpack: "ARDFHeader_unpack demo_file 376 = Inr demo_vchn1_header"
  by (simp add: ARDFHeader_unpack_def unpack_from_def demo_file_length demo_at field_def demo_vchn1_header_def)

lemma demo_xdef_header_unpack: "ARDFHeader_unpack demo_file 456 = Inr demo_xdef_header"
  by (simp add: ARDFHeader_unpack_def unpack_from_def demo_file_length demo_at field_def demo_xdef_header_def)

lemma demo_vtoc_header_unpack: "ARDFHeader_unpack demo_file 552 = Inr demo_vtoc_header"
  by (simp add: ARDFHeader_unpack_def unpack_from_def demo_file_length demo_at field_def demo_vtoc_header_def)

lemma demo_voff0_header_unpack: "ARDFHeader_unpack demo_file 584 = Inr demo_voff0_header"
  by (simp add: ARDFHeader_unpack_def unpack_from_def demo_file_length demo_at field_def demo_voff0_header_def)

lemma demo_voff1_header_unpack: "ARDFHeader_unpack demo_file 624 = Inr demo_voff1_header"
  by (simp add: ARDFHeader_unpack_def unpack_from_def demo_file_length demo_at field_def demo_voff1_header_def)

lemma demo_mlov_header_unpack: "ARDFHeader_unpack demo_file 664 = Inr demo_mlov_header"
  by (simp add: ARDFHeader_unpack_def unpack_from_def demo_file_length demo_at field_def demo_mlov_header_def)

lemma demo_vset0_header_unpack: "ARDFHeader_unpack demo_file 680 = Inr demo_vset0_header"
  by (simp add: ARDFHeader_unpack_def unpack_from_def demo_file_length demo_at field_def demo_vset0_header_def)

lemma demo_vnam0_header_unpack: "ARDFHeader_unpack demo_file 728 = Inr demo_vnam0_header"
  by (simp add: ARDFHeader_unpack_def unpack_from_def demo_file_length demo_at field_def demo_vnam0_header_def)

lemma demo_zdat0_header_unpack: "ARDFHeader_unpack demo_file 744 = Inr demo_zdat0_header"
  by (simp add: ARDFHeader_unpack_def unpack_from_def demo_file_length demo_at field_def demo_zdat0_header_def)

lemma demo_ddat0_header_unpack: "ARDFHeader_unpack demo_file 816 = Inr demo_ddat0_header"
  by (simp add: ARDFHeader_unpack_def unpack_from_def demo_file_length demo_at field_def demo_ddat0_header_def)

lemma demo_vset1_header_unpack: "ARDFHeader_unpack demo_file 888 = Inr demo_vset1_header"
  by (simp add: ARDFHeader_unpack_def unpack_from_def demo_file_length demo_at field_def demo_vset1_header_def)

lemma demo_vnam1_header_unpack: "ARDFHeader_unpack demo_file 936 = Inr demo_vnam1_header"
  by (simp add: ARDFHeader_unpack_def unpack_from_def demo_file_length demo_at field_def demo_vnam1_header_def)

lemma demo_zdat1_header_unpack: "ARDFHeader_unpack demo_file 952 = Inr demo_zdat1_header"
  by (simp add: ARDFHeader_unpack_def unpack_from_def demo_file_length demo_at field_def demo_zdat1_header_def)

lemma demo_ddat1_header_unpack: "ARDFHeader_unpack demo_file 1024 = Inr demo_ddat1_header"
  by (simp add: ARDFHeader_unpack_def unpack_from_def demo_file_length demo_at field_def demo_ddat1_header_def)

lemma demo_tail_header_unpack: "ARDFHeader_unpack demo_file 1096 = Inr demo_tail_header"
  by (simp add: ARDFHeader_unpack_def unpack_from_def demo_file_length demo_at field_def demo_tail_header_def)

lemmas demo_unpack =
  demo_volm_header_unpack demo_nset_header_unpack demo_ttoc_header_unpack demo_vdef_header_unpack demo_vchn0_header_unpack
  demo_vchn1_header_unpack demo_xdef_header_unpack demo_vtoc_header_unpack demo_voff0_header_unpack demo_voff1_header_unpack
  demo_mlov_header_unpack demo_vset0_header_unpack demo_vnam0_header_unpack demo_zdat0_header_unpack demo_ddat0_header_unpack
  demo_vset1_header_unpack demo_vnam1_header_unpack demo_zdat1_header_unpack demo_ddat1_header_unpack demo_tail_header_unpack

lemma demo_volm_sel:
  "h_offset demo_volm_header = 0" "h_crc demo_volm_header = 2216636686" "h_size demo_volm_header = 32"
  "h_flags demo_volm_header = 0"
  by (simp_all add: demo_volm_header_def)

lemma demo_volm_name: "h_name demo_volm_header = tag ''VOLM''"
  by (simp add: demo_volm_header_def tag_def)

lemma demo_nset_sel:
  "h_offset demo_nset_header = 32" "h_crc demo_nset_header = 2916920070" "h_size demo_nset_header = 24"
  "h_flags demo_nset_header = 0"
  by (simp_all add: demo_nset_header_def)

lemma demo_nset_name: "h_name demo_nset_header = tag ''NSET''"
  by (simp add: demo_nset_header_def tag_def)

lemma demo_ttoc_sel:
  "h_offset demo_ttoc_header = 56" "h_crc demo_ttoc_header = 2898055591" "h_size demo_ttoc_header = 32"
  "h_flags demo_ttoc_header = 0"
  by (simp_all add: demo_ttoc_header_def)

lemma demo_ttoc_name: "h_name demo_ttoc_header = tag ''TTOC''"
  by (simp add: demo_ttoc_header_def tag_def)

lemma demo_vdef_sel:
  "h_offset demo_vdef_header = 88" "h_crc demo_vdef_header = 1903528578" "h_size demo_vdef_header = 208"
  "h_flags demo_vdef_header = 0"
  by (simp_all add: demo_vdef_header_def)

lemma demo_vdef_name: "h_name demo_vdef_header = tag ''VDEF''"
  by (simp add: demo_vdef_header_def tag_def)

lemma demo_vchn0_sel:
  "h_offset demo_vchn0_header = 296" "h_crc demo_vchn0_header = 1542506316" "h_size demo_vchn0_header = 80"
  "h_flags demo_vchn0_header = 0"
  by (simp_all add: demo_vchn0_header_def)

lemma demo_vchn0_name: "h_name demo_vchn0_header = tag ''VCHN''"
  by (simp add: demo_vchn0_header_def tag_def)

lemma demo_vchn1_sel:
  "h_offset demo_vchn1_header = 376" "h_crc demo_vchn1_header = 2689162334" "h_size demo_vchn1_header = 80"
  "h_flags demo_vchn1_header = 0"
  by (simp_all add: demo_vchn1_header_def)

lemma demo_vchn1_name: "h_name demo_vchn1_header = tag ''VCHN''"
  by (simp add: demo_vchn1_header_def tag_def)

lemma demo_xdef_sel:
  "h_offset demo_xdef_header = 456" "h_crc demo_xdef_header = 216876741" "h_size demo_xdef_header = 96"
  "h_flags demo_xdef_header = 0"
  by (simp_all add: demo_xdef_header_def)

lemma demo_xdef_name: "h_name demo_xdef_header = tag ''XDEF''"
  by (simp add: demo_xdef_header_def tag_def)

lemma demo_vtoc_sel:
  "h_offset demo_vtoc_header = 552" "h_crc demo_vtoc_header = 978319966" "h_size demo_vtoc_header = 32"
  "h_flags demo_vtoc_header = 0"
  by (simp_all add: demo_vtoc_header_def)

lemma demo_vtoc_name: "h_name demo_vtoc_header = tag ''VTOC''"
  by (simp add: demo_vtoc_header_def tag_def)

lemma demo_voff0_sel:
  "h_offset demo_voff0_header = 584" "h_crc demo_voff0_header = 3932313642" "h_size demo_voff0_header = 40"
  "h_flags demo_voff0_header = 0"
  by (simp_all add: demo_voff0_header_def)

lemma demo_voff0_name: "h_name demo_voff0_header = tag ''VOFF''"
  by (simp add: demo_voff0_header_def tag_def)

lemma demo_voff1_sel:
  "h_offset demo_voff1_header = 624" "h_crc demo_voff1_header = 2924116963" "h_size demo_voff1_header = 40"
  "h_flags demo_voff1_header = 0"
  by (simp_all add: demo_voff1_header_def)

lemma demo_voff1_name: "h_name demo_voff1_header = tag ''VOFF''"
  by (simp add: demo_voff1_header_def tag_def)

lemma demo_mlov_sel:
  "h_offset demo_mlov_header = 664" "h_crc demo_mlov_header = 262365552" "h_size demo_mlov_header = 16"
  "h_flags demo_mlov_header = 0"
  by (simp_all add: demo_mlov_header_def)

lemma demo_mlov_name: "h_name demo_mlov_header = tag ''MLOV''"
  by (simp add: demo_mlov_header_def tag_def)

lemma demo_vset0_sel:
  "h_offset demo_vset0_header = 680" "h_crc demo_vset0_header = 1433388036" "h_size demo_vset0_header = 48"
  "h_flags demo_vset0_header = 0"
  by (simp_all add: demo_vset0_header_def)

lemma demo_vset0_name: "h_name demo_vset0_header = tag ''VSET''"
  by (simp add: demo_vset0_header_def tag_def)

lemma demo_vnam0_sel:
  "h_offset demo_vnam0_header = 728" "h_crc demo_vnam0_header = 2497157831" "h_size demo_vnam0_header = 16"
  "h_flags demo_vnam0_header = 0"
  by (simp_all add: demo_vnam0_header_def)

lemma demo_vnam0_name: "h_name demo_vnam0_header = tag ''VNAM''"
  by (simp add: demo_vnam0_header_def tag_def)

lemma demo_zdat0_sel:
  "h_offset demo_zdat0_header = 744" "h_crc demo_zdat0_header = 4052397935" "h_size demo_zdat0_header = 72"
  "h_flags demo_zdat0_header = 0"
  by (simp_all add: demo_zdat0_header_def)

lemma demo_zdat0_name: "h_name demo_zdat0_header = tag ''VDAT''"
  by (simp add: demo_zdat0_header_def tag_def)

lemma demo_ddat0_sel:
  "h_offset demo_ddat0_header = 816" "h_crc demo_ddat0_header = 1691851471" "h_size demo_ddat0_header = 72"
  "h_flags demo_ddat0_header = 0"
  by (simp_all add: demo_ddat0_header_def)

lemma demo_ddat0_name: "h_name demo_ddat0_header = tag ''VDAT''"
  by (simp add: demo_ddat0_header_def tag_def)

lemma demo_vset1_sel:
  "h_offset demo_vset1_header = 888" "h_crc demo_vset1_header = 1966991639" "h_size demo_vset1_header = 48"
  "h_flags demo_vset1_header = 0"
  by (simp_all add: demo_vset1_header_def)

lemma demo_vset1_name: "h_name demo_vset1_header = tag ''VSET''"
  by (simp add: demo_vset1_header_def tag_def)

lemma demo_vnam1_sel:
  "h_offset demo_vnam1_header = 936" "h_crc demo_vnam1_header = 2497157831" "h_size demo_vnam1_header = 16"
  "h_flags demo_vnam1_header = 0"
  by (simp_all add: demo_vnam1_header_def)

lemma demo_vnam1_name: "h_name demo_vnam1_header = tag ''VNAM''"
  by (simp add: demo_vnam1_header_def tag_def)

lemma demo_zdat1_sel:
  "h_offset demo_zdat1_header = 952" "h_crc demo_zdat1_header = 4162070094" "h_size demo_zdat1_header = 72"
  "h_flags demo_zdat1_header = 0"
  by (simp_all add: demo_zdat1_header_def)

lemma demo_zdat1_name: "h_name demo_zdat1_header = tag ''VDAT''"
  by (simp add: demo_zdat1_header_def tag_def)

lemma demo_ddat1_sel:
  "h_offset demo_ddat1_header = 1024" "h_crc demo_ddat1_header = 2968962072" "h_size demo_ddat1_header = 72"
  "h_flags demo_ddat1_header = 0"
  by (simp_all add: demo_ddat1_header_def)

lemma demo_ddat1_name: "h_name demo_ddat1_header = tag ''VDAT''"
  by (simp add: demo_ddat1_header_def tag_def)

lemma demo_tail_sel:
  "h_offset demo_tail_header = 1096" "h_crc demo_tail_header = 0" "h_size demo_tail_header = 0"
  "h_flags demo_tail_header = 0"
  by (simp_all add: demo_tail_header_def)

lemma demo_tail_name: "h_name demo_tail_header = [0, 0, 0, 0]"
  by (simp add: demo_tail_header_def)

lemmas demo_sel =
  demo_volm_sel demo_volm_name demo_nset_sel demo_nset_name
  demo_ttoc_sel demo_ttoc_name demo_vdef_sel demo_vdef_name
  demo_vchn0_sel demo_vchn0_name demo_vchn1_sel demo_vchn1_name
  demo_xdef_sel demo_xdef_name demo_vtoc_sel demo_vtoc_name
  demo_voff0_sel demo_voff0_name demo_voff1_sel demo_voff1_name
  demo_mlov_sel demo_mlov_name demo_vset0_sel demo_vset0_name
  demo_vnam0_sel demo_vnam0_name demo_zdat0_sel demo_zdat0_name
  demo_ddat0_sel demo_ddat0_name demo_vset1_sel demo_vset1_name
  demo_vnam1_sel demo_vnam1_name demo_zdat1_sel demo_zdat1_name
  demo_ddat1_sel demo_ddat1_name demo_tail_sel demo_tail_name

lemma replicate_numeral_Cons: "replicate (numeral k) x = x # replicate (pred_numeral k) x"
  by (simp add: numeral_eq_Suc)

lemmas demo_read = unpack_from_def field_def demo_file_length demo_at demo_sel demo_valid
  demo_unpack tag_def Let_def

lemma demo_volm_toc:
  "ARDFTableOfContents_unpack demo_file demo_volm_header =
     Inr \<lparr>toc_offset = 0, toc_size = 56, toc_entries = [(demo_nset_header, 2)]\<rparr>"
  by (simp add: ARDFTableOfContents_unpack_def toc_prebody_def py_range_def demo_read
      demo_nset_header_def [symmetric] upt_conv_Cons)

lemma demo_ttoc:
  "ARDFTextTableOfContents_unpack demo_file demo_ttoc_header =
     Inr \<lparr>ttoc_offset = 56, ttoc_size = 32, ttoc_entries = []\<rparr>"
  by (simp add: ARDFTextTableOfContents_unpack_def toc_prebody_def py_range_def demo_read)

lemma demo_vtoc_unpack:
  "ARDFVolumeTableOfContents_unpack demo_file demo_vtoc_header = Inr demo_vtoc"
  by (simp add: ARDFVolumeTableOfContents_unpack_def toc_prebody_def py_range_def demo_read
      demo_vtoc_def upt_conv_Cons replicate_numeral_Cons)

lemma demo_vset_unpack:
  "ARDFVset_unpack demo_file demo_vset0_header = Inr demo_vset0"
  "ARDFVset_unpack demo_file demo_vset1_header = Inr demo_vset1"
  by (simp_all add: ARDFVset_unpack_def demo_read demo_vset0_def demo_vset1_def)

lemma demo_vchn_unpack:
  "ARDFVchan_unpack demo_file demo_vchn0_header = Inr \<lparr>vchan_name = ''Raw'', vchan_unit = ''m''\<rparr>"
  "ARDFVchan_unpack demo_file demo_vchn1_header = Inr \<lparr>vchan_name = ''Defl'', vchan_unit = ''m''\<rparr>"
  by (simp_all add: ARDFVchan_unpack_def decode_cstring_def decode_1252_def demo_read
      char_of_def bit_iff_odd)

lemma demo_channels_read:
  "read_channels demo_file [0..<5] 296 Map.empty = Inr (demo_xdef_header, demo_channels)"
  by (simp add: upt_conv_Cons demo_unpack demo_sel demo_vchn_unpack tag_def demo_channels_def)

lemma demo_xdef_unpack:
  "ARDFXdef_unpack demo_file demo_xdef_header =
     Inr \<lparr>xdef_offset = 456, xdef_size = 96, xdef_xdef = [''Ext'', ''Ret'']\<rparr>"
  by (simp add: ARDFXdef_unpack_def decode_1252_def py_slice_def demo_read
      char_of_def bit_iff_odd)

lemma upt_0_4: "[0..<4] = [0, 1, 2, 3]"
  by (simp add: upt_conv_Cons)

lemma demo_parse: "parse_volm demo_file demo_volm_header = Inr demo_volume"
  by (simp add: parse_volm_def and_then_def require_def demo_volm_toc demo_ttoc
      unpack_vdef_def decode_cstring_def decode_1252_def char_of_def bit_iff_odd
      demo_channels_read demo_xdef_unpack demo_vtoc_unpack demo_vset_unpack demo_read
      upt_0_4 demo_volume_def demo_reader_def demo_vtoc_def demo_vset0_def)

subsection \<open>Loops on numeral fuel\<close>

lemma fill_row_numeral:
  "fill_row (numeral k) data r pointer seen =
     (case next_vset data seen pointer of
        Inl e \<Rightarrow> Some (Inl e)
      | Inr None \<Rightarrow> Some (Inr seen)
      | Inr (Some (vset, seen')) \<Rightarrow>
          if vset_line vset \<noteq> r then Some (Inr seen')
          else fill_row (pred_numeral k) data r (vset_next_vset_offset vset) seen')"
  by (simp add: numeral_eq_Suc)

lemma read_vdats_numeral:
  "read_vdats (numeral k) rd zn pointer zd =
     (case next_vdat (fm_data rd) pointer of
        Inl e \<Rightarrow> Some (Inl e)
      | Inr None \<Rightarrow> Some (Inr zd)
      | Inr (Some (vdat, pointer')) \<Rightarrow>
          (case select_channel rd zn vdat zd of
             Inl e \<Rightarrow> Some (Inl e)
           | Inr zd' \<Rightarrow> read_vdats (pred_numeral k) rd zn pointer' zd'))"
  by (simp add: numeral_eq_Suc)

lemma demo_next_vset:
  "next_vset demo_file seen 680 =
     Inr (Some (demo_vset0, if (0, 0, 2) \<notin> dom seen then seen((0, 0, 2) \<mapsto> demo_vset0) else seen))"
  "next_vset demo_file seen 888 =
     Inr (Some (demo_vset1, if (1, 0, 2) \<notin> dom seen then seen((1, 0, 2) \<mapsto> demo_vset1) else seen))"
  "next_vset demo_file seen 1096 = Inr None"
  by (simp_all add: next_vset_def demo_unpack demo_sel demo_vset_unpack tag_def Let_def
      demo_vset0_def demo_vset1_def)

lemma demo_vset_sel:
  "vset_offset demo_vset0 = 680" "vset_size demo_vset0 = 48" "vset_line demo_vset0 = 0"
  "vset_point demo_vset0 = 0" "vset_vtype demo_vset0 = 2" "vset_next_vset_offset demo_vset0 = 888"
  "vset_offset demo_vset1 = 888" "vset_size demo_vset1 = 48" "vset_line demo_vset1 = 1"
  "vset_point demo_vset1 = 0" "vset_vtype demo_vset1 = 2" "vset_next_vset_offset demo_vset1 = 1096"
  by (simp_all add: demo_vset0_def demo_vset1_def)

lemma demo_reader_sel:
  "fm_data demo_reader = demo_file" "fm_vtoc demo_reader = demo_vtoc" "fm_lines demo_reader = 3"
  "fm_points demo_reader = 2" "fm_vtype demo_reader = 2" "fm_channels demo_reader = demo_channels"
  "fm_seen_vsets demo_reader = Map.empty"
  by (simp_all add: demo_reader_def)

lemma demo_read_zd:
  "read_zd 5 demo_reader ''Raw'' demo_vset0 zd = Some (Inr (Some (fst demo_curve0), Some (snd demo_curve0)))"
  "read_zd 5 demo_reader ''Raw'' demo_vset1 zd = Some (Inr (Some (fst demo_curve1), Some (snd demo_curve1)))"
  by (simp_all add: read_zd_def vdats_start_def read_vdats_numeral next_vdat_def
      ARDFVdata_unpack_def select_channel_def channel_index_def get_ndarray_def array_offset_def
      split_xr_def py_slice_def upt_conv_Cons
      demo_reader_sel demo_vset_sel demo_channels_def demo_read demo_curve0_def demo_curve1_def)

subsection \<open>The small tables of contents\<close>

lemma bad_toc_unpack: "ARDFHeader_unpack bad_toc 0 = Inr bad_toc_header"
  by (simp add: ARDFHeader_unpack_def unpack_from_def field_def tag_def bad_toc_def bad_toc_header_def)

lemma bad_toc_crc: "ncrc32
    [32, 0, 0, 0, 70, 84, 79, 67, 0, 0, 0, 0, 56, 0, 0, 0, 0, 0, 0, 0, 2, 0, 0, 0, 24, 0, 0, 0] = 3898741879"
  by (simp only: ncrc_eval)

lemma bad_ttoc_unpack: "ARDFHeader_unpack bad_ttoc 0 = Inr bad_ttoc_header"
  by (simp add: ARDFHeader_unpack_def unpack_from_def field_def tag_def bad_ttoc_def bad_ttoc_header_def)

lemma bad_ttoc_crc: "ncrc32
    [32, 0, 0, 0, 84, 84, 79, 67, 0, 0, 0, 0, 56, 0, 0, 0, 0, 0, 0, 0, Suc 0, 0, 0, 0, 24, 0,
     0, 0] = 3233652902"
  by (simp only: ncrc_eval)

lemma bad_vtoc_unpack: "ARDFHeader_unpack bad_vtoc 0 = Inr bad_vtoc_header"
  by (simp add: ARDFHeader_unpack_def unpack_from_def field_def tag_def bad_vtoc_def bad_vtoc_header_def)

lemma bad_vtoc_crc: "ncrc32
    [32, 0, 0, 0, 86, 84, 79, 67, 0, 0, 0, 0, 112, 0, 0, 0, 0, 0, 0, 0, 3, 0, 0, 0, 40, 0, 0, 0] = 4142267072"
  by (simp only: ncrc_eval)

lemma unchecked_vtoc_unpack: "ARDFHeader_unpack unchecked_vtoc 0 = Inr unchecked_vtoc_header"
  by (simp add: ARDFHeader_unpack_def unpack_from_def field_def tag_def unchecked_vtoc_def unchecked_vtoc_header_def)

lemma unchecked_vtoc_crc: "ncrc32
    [32, 0, 0, 0, 86, 84, 79, 67, 0, 0, 0, 0, 72, 0, 0, 0, 0, 0, 0, 0, Suc 0, 0, 0, 0, 40, 0,
     0, 0] = 919283473"
  by (simp only: ncrc_eval)

lemma unchecked_voff_crc: "ncrc32
    [40, 0, 0, 0, 86, 79, 70, 70, 0, 0, 0, 0, 0, 0, 0, 0, 7, 0, 0, 0, 0, 0, 0, 0, 0, 0, 0, 0,
     0, 16, 0, 0, 0, 0, 0, 0] = 2194640743"
  by (simp only: ncrc_eval)

section \<open>Tables of contents and the volume descriptor\<close>

lemma take_drop_prefix:
  assumes "take m xs = take m ys" "a + n \<le> m"
  shows "take n (drop a xs) = take n (drop a ys)"
proof -
  have "take n (drop a zs) = take n (drop a (take m zs))" for zs :: "'a list"
    using assms(2) by (simp add: drop_take min_def)
  with assms(1) show ?thesis by metis
qed

lemma length_prefix:
  assumes "take m xs = take m ys" "k \<le> m"
  shows "k \<le> length xs \<longleftrightarrow> k \<le> length ys"
proof -
  have "k \<le> length zs \<longleftrightarrow> k \<le> length (take m zs)" for zs :: "'a list"
    using assms(2) by simp
  with assms(1) show ?thesis by metis
qed

lemma unpack_from_prefix:
  assumes "take m xs = take m ys" "a + n \<le> m"
  shows "unpack_from n xs a = unpack_from n ys a"
  using take_drop_prefix [OF assms] length_prefix [OF assms]
  by (simp add: unpack_from_def)

lemma toc_prebody_prefix:
  assumes "take (a + 32) xs = take (a + 32) ys"
  shows "toc_prebody xs a = toc_prebody ys a"
  using unpack_from_prefix [OF assms, of "a + 16" 16] by (simp add: toc_prebody_def)

lemma validate_prefix:
  assumes "take m xs = take m ys" "h_offset h + h_size h \<le> m"
  shows "validate xs h = validate ys h"
proof (cases "h_size h \<le> 4")
  case True
  then show ?thesis by (simp add: validate_def py_slice_def)
next
  case False
  then have "h_offset h + 4 + (h_size h - 4) \<le> m" using assms(2) by simp
  from take_drop_prefix [OF assms(1) this] False show ?thesis
    by (simp add: validate_def py_slice_def)
qed

lemma triple_iff: "int sz - 32 \<noteq> int (n * stride) \<longleftrightarrow> n * stride + 32 \<noteq> sz"
proof -
  have "int sz - 32 = int (n * stride) \<longleftrightarrow> int sz = int (n * stride + 32)" by auto
  also have "\<dots> \<longleftrightarrow> sz = n * stride + 32" by (simp only: int_int_eq)
  finally show ?thesis by auto
qed

lemma toc_unpack_triple:
  assumes "ARDFTableOfContents_unpack data header = Inr toc"
  shows "\<exists>n. toc_prebody data (h_offset header) = Inr (toc_size toc, n, 24) \<and> n * 24 + 32 = toc_size toc"
  using assms
  by (auto simp add: ARDFTableOfContents_unpack_def triple_iff split: if_splits sum.splits prod.splits)

lemma ttoc_unpack_triple:
  assumes "ARDFTextTableOfContents_unpack data header = Inr ttoc"
  shows "\<exists>n. toc_prebody data (h_offset header) = Inr (ttoc_size ttoc, n, 32) \<and> n * 32 + 32 = ttoc_size ttoc"
  using assms
  by (auto simp add: ARDFTextTableOfContents_unpack_def triple_iff split: if_splits sum.splits prod.splits)

lemma vtoc_unpack_triple:
  assumes "ARDFVolumeTableOfContents_unpack data header = Inr vtoc"
  shows "\<exists>n. toc_prebody data (h_offset header) = Inr (vtoc_size vtoc, n, 40) \<and> n * 40 + 32 = vtoc_size vtoc"
  using assms
  by (auto simp add: ARDFVolumeTableOfContents_unpack_def triple_iff Let_def
      split: if_splits sum.splits prod.splits)

lemma toc_unpack_inconsistent:
  assumes pre: "toc_prebody data (h_offset header) = Inr (sz, n, stride)"
    and bad: "\<not> (stride = 24 \<and> n * stride + 32 = sz)"
    and same: "take (h_offset header + 32) data' = take (h_offset header + 32) data"
  shows "\<exists>e. ARDFTableOfContents_unpack data header = Inl e
           \<and> ARDFTableOfContents_unpack data' header = Inl e"
proof -
  have pre': "toc_prebody data' (h_offset header) = Inr (sz, n, stride)"
    using toc_prebody_prefix [OF same] pre by simp
  have val: "h_size header = 32 \<Longrightarrow> validate data' header = validate data header"
    using validate_prefix [OF same, of header] by simp
  show ?thesis
    using pre pre' bad val
    by (auto simp add: ARDFTableOfContents_unpack_def triple_iff split: sum.splits)
qed

lemma ttoc_unpack_inconsistent:
  assumes pre: "toc_prebody data (h_offset header) = Inr (sz, n, stride)"
    and bad: "\<not> (stride = 32 \<and> n * stride + 32 = sz)"
    and same: "take (h_offset header + 32) data' = take (h_offset header + 32) data"
  shows "\<exists>e. ARDFTextTableOfContents_unpack data header = Inl e
           \<and> ARDFTextTableOfContents_unpack data' header = Inl e"
proof -
  have pre': "toc_prebody data' (h_offset header) = Inr (sz, n, stride)"
    using toc_prebody_prefix [OF same] pre by simp
  have val: "h_size header = 32 \<Longrightarrow> validate data' header = validate data header"
    using validate_prefix [OF same, of header] by simp
  show ?thesis
    using pre pre' bad val
    by (auto simp add: ARDFTextTableOfContents_unpack_def triple_iff split: sum.splits)
qed

lemma vtoc_unpack_inconsistent:
  assumes pre: "toc_prebody data (h_offset header) = Inr (sz, n, stride)"
    and bad: "\<not> (stride = 40 \<and> n * stride + 32 = sz)"
    and same: "take (h_offset header + 32) data' = take (h_offset header + 32) data"
  shows "\<exists>e. ARDFVolumeTableOfContents_unpack data header = Inl e
           \<and> ARDFVolumeTableOfContents_unpack data' header = Inl e"
proof -
  have pre': "toc_prebody data' (h_offset header) = Inr (sz, n, stride)"
    using toc_prebody_prefix [OF same] pre by simp
  show ?thesis
    using pre pre' bad
    by (auto simp add: ARDFVolumeTableOfContents_unpack_def triple_iff split: sum.splits)
qed

lemma and_then_Inr: "and_then m f = Inr y \<longleftrightarrow> (\<exists>x. m = Inr x \<and> f x = Inr y)"
  by (cases m) (simp_all add: and_then_def)

lemma require_Inr: "require ok e = Inr u \<longleftrightarrow> ok"
  by (simp add: require_def)

lemma ARDFHeader_unpack_offset: "ARDFHeader_unpack data p = Inr h \<Longrightarrow> h_offset h = p"
  by (auto simp add: ARDFHeader_unpack_def split: sum.splits)

lemma parse_volm_shape_lemma:
  assumes "parse_volm data volm_header = Inr vol"
  shows "\<exists>volm_toc ttoc_header ttoc vdef.
      ARDFTableOfContents_unpack data volm_header = Inr volm_toc
    \<and> ARDFHeader_unpack data (toc_offset volm_toc + toc_size volm_toc) = Inr ttoc_header
    \<and> ARDFTextTableOfContents_unpack data ttoc_header = Inr ttoc
    \<and> unpack_vdef data (ttoc_offset ttoc + ttoc_size ttoc + 16) = Inr vdef
    \<and> volm_shape vol = (vdef_points vdef, vdef_lines vdef)
    \<and> fm_lines (volm_reader vol) = vdef_lines vdef
    \<and> fm_points (volm_reader vol) = vdef_points vdef"
proof -
  from assms obtain volm_toc ttoc_header ttoc vdef_header vdef where
    s: "ARDFTableOfContents_unpack data volm_header = Inr volm_toc"
      "ARDFHeader_unpack data (toc_offset volm_toc + toc_size volm_toc) = Inr ttoc_header"
      "ARDFTextTableOfContents_unpack data ttoc_header = Inr ttoc"
      "ARDFHeader_unpack data (ttoc_offset ttoc + ttoc_size ttoc) = Inr vdef_header"
      "unpack_vdef data (h_offset vdef_header + 16) = Inr vdef"
    and v: "volm_shape vol = (vdef_points vdef, vdef_lines vdef)"
      "fm_lines (volm_reader vol) = vdef_lines vdef"
      "fm_points (volm_reader vol) = vdef_points vdef"
    unfolding parse_volm_def
    by (auto simp add: and_then_Inr require_Inr split: prod.splits)
  from s(4) have "h_offset vdef_header = ttoc_offset ttoc + ttoc_size ttoc"
    by (rule ARDFHeader_unpack_offset)
  with s v show ?thesis by auto
qed

lemma bad_toc_valid:
  "validate bad_toc bad_toc_header = Inr True"
  "validate bad_ttoc bad_ttoc_header = Inr True"
  by (simp_all add: validate_eval py_slice_def bad_toc_def bad_toc_header_def bad_toc_crc
      bad_ttoc_def bad_ttoc_header_def bad_ttoc_crc)

lemma bad_toc_prebody:
  "toc_prebody bad_toc 0 = Inr (56, 2, 24)"
  "toc_prebody bad_ttoc 0 = Inr (56, 1, 24)"
  "toc_prebody bad_vtoc 0 = Inr (112, 3, 40)"
  by (simp_all add: toc_prebody_def unpack_from_def field_def bad_toc_def bad_ttoc_def bad_vtoc_def)

lemma bad_toc_sel:
  "h_offset bad_toc_header = 0" "h_size bad_toc_header = 32"
  "h_offset bad_ttoc_header = 0" "h_size bad_ttoc_header = 32"
  "h_name bad_ttoc_header = tag ''TTOC''"
  "h_offset bad_vtoc_header = 0" "h_size bad_vtoc_header = 32"
  "h_name bad_vtoc_header = tag ''VTOC''"
  "h_offset unchecked_vtoc_header = 0" "h_size unchecked_vtoc_header = 32"
  "h_name unchecked_vtoc_header = tag ''VTOC''"
  by (simp_all add: bad_toc_header_def bad_ttoc_header_def bad_vtoc_header_def
      unchecked_vtoc_header_def)

lemma bad_toc_unpack_fails:
  "ARDFTableOfContents_unpack bad_toc bad_toc_header = Inl AssertionError"
  "ARDFTextTableOfContents_unpack bad_ttoc bad_ttoc_header = Inl AssertionError"
  "ARDFVolumeTableOfContents_unpack bad_vtoc bad_vtoc_header = Inl AssertionError"
  by (simp_all add: ARDFTableOfContents_unpack_def ARDFTextTableOfContents_unpack_def
      ARDFVolumeTableOfContents_unpack_def bad_toc_valid bad_toc_prebody bad_toc_sel)

lemma demo_prebody:
  "toc_prebody demo_file 0 = Inr (56, 1, 24)"
  "toc_prebody demo_file 56 = Inr (32, 0, 32)"
  "toc_prebody demo_file 552 = Inr (112, 2, 40)"
  by (simp_all add: toc_prebody_def demo_read)

text \<open>
  C7. A table of contents of any of the three kinds that was built has a consistent
  triple: its pre-body declares the stride of its kind (24, 32, 40) and
  \<open>entry_count * stride + 32 = size\<close>. When the declared triple is inconsistent the
  construction fails, and it fails before any entry is read: the result is the same for
  every map that agrees on the chunk header and the pre-body, the 32 bytes before the
  first entry.
\<close>

theorem toc_triple_checked:
  "(ARDFTableOfContents_unpack data header = Inr toc \<longrightarrow>
      (\<exists>n. toc_prebody data (h_offset header) = Inr (toc_size toc, n, 24)
         \<and> n * 24 + 32 = toc_size toc))
   \<and> (ARDFTextTableOfContents_unpack data header = Inr ttoc \<longrightarrow>
      (\<exists>n. toc_prebody data (h_offset header) = Inr (ttoc_size ttoc, n, 32)
         \<and> n * 32 + 32 = ttoc_size ttoc))
   \<and> (ARDFVolumeTableOfContents_unpack data header = Inr vtoc \<longrightarrow>
      (\<exists>n. toc_prebody data (h_offset header) = Inr (vtoc_size vtoc, n, 40)
         \<and> n * 40 + 32 = vtoc_size vtoc))
   \<and> (toc_prebody data (h_offset header) = Inr (sz, n, stride)
        \<and> \<not> (stride = 24 \<and> n * stride + 32 = sz)
        \<and> take (h_offset header + 32) data' = take (h_offset header + 32) data \<longrightarrow>
      (\<exists>e. ARDFTableOfContents_unpack data header = Inl e
         \<and> ARDFTableOfContents_unpack data' header = Inl e))
   \<and> (toc_prebody data (h_offset header) = Inr (sz, n, stride)
        \<and> \<not> (stride = 32 \<and> n * stride + 32 = sz)
        \<and> take (h_offset header + 32) data' = take (h_offset header + 32) data \<longrightarrow>
      (\<exists>e. ARDFTextTableOfContents_unpack data header = Inl e
         \<and> ARDFTextTableOfContents_unpack data' header = Inl e))
   \<and> (toc_prebody data (h_offset header) = Inr (sz, n, stride)
        \<and> \<not> (stride = 40 \<and> n * stride + 32 = sz)
        \<and> take (h_offset header + 32) data' = take (h_offset header + 32) data \<longrightarrow>
      (\<exists>e. ARDFVolumeTableOfContents_unpack data header = Inl e
         \<and> ARDFVolumeTableOfContents_unpack data' header = Inl e))"
  using toc_unpack_triple [of data header toc] ttoc_unpack_triple [of data header ttoc]
    vtoc_unpack_triple [of data header vtoc]
    toc_unpack_inconsistent [of data header sz n stride data']
    ttoc_unpack_inconsistent [of data header sz n stride data']
    vtoc_unpack_inconsistent [of data header sz n stride data']
  by blast

theorem toc_triple_checked_witness:
  "ARDFTableOfContents_unpack demo_file demo_volm_header =
      Inr \<lparr>toc_offset = 0, toc_size = 56, toc_entries = [(demo_nset_header, 2)]\<rparr>
   \<and> (\<exists>n. toc_prebody demo_file 0 = Inr (56, n, 24) \<and> n * 24 + 32 = 56)
   \<and> ARDFTextTableOfContents_unpack demo_file demo_ttoc_header =
      Inr \<lparr>ttoc_offset = 56, ttoc_size = 32, ttoc_entries = []\<rparr>
   \<and> (\<exists>n. toc_prebody demo_file 56 = Inr (32, n, 32) \<and> n * 32 + 32 = 32)
   \<and> ARDFVolumeTableOfContents_unpack demo_file demo_vtoc_header = Inr demo_vtoc
   \<and> (\<exists>n. toc_prebody demo_file 552 = Inr (112, n, 40) \<and> n * 40 + 32 = 112)
   \<and> toc_prebody bad_toc 0 = Inr (56, 2, 24)
   \<and> (\<exists>e. ARDFTableOfContents_unpack bad_toc bad_toc_header = Inl e
         \<and> ARDFTableOfContents_unpack (bad_toc @ [1, 2, 3]) bad_toc_header = Inl e)
   \<and> toc_prebody bad_ttoc 0 = Inr (56, 1, 24)
   \<and> (\<exists>e. ARDFTextTableOfContents_unpack bad_ttoc bad_ttoc_header = Inl e
         \<and> ARDFTextTableOfContents_unpack (bad_ttoc @ [1, 2, 3]) bad_ttoc_header = Inl e)
   \<and> toc_prebody bad_vtoc 0 = Inr (112, 3, 40)
   \<and> (\<exists>e. ARDFVolumeTableOfContents_unpack bad_vtoc bad_vtoc_header = Inl e
         \<and> ARDFVolumeTableOfContents_unpack (bad_vtoc @ [1, 2, 3]) bad_vtoc_header = Inl e)"
proof -
  let ?toc = "\<lparr>toc_offset = 0, toc_size = 56, toc_entries = [(demo_nset_header, 2)]\<rparr>"
  let ?ttoc = "\<lparr>ttoc_offset = 56, ttoc_size = 32, ttoc_entries = []\<rparr>"
  have a1: "\<exists>n. toc_prebody demo_file 0 = Inr (56, n, 24) \<and> n * 24 + 32 = 56"
    using toc_triple_checked [of demo_file demo_volm_header ?toc] demo_volm_toc
    by (simp add: demo_sel)
  have a2: "\<exists>n. toc_prebody demo_file 56 = Inr (32, n, 32) \<and> n * 32 + 32 = 32"
    using toc_triple_checked [of demo_file demo_ttoc_header _ ?ttoc] demo_ttoc
    by (simp add: demo_sel)
  have a3: "\<exists>n. toc_prebody demo_file 552 = Inr (112, n, 40) \<and> n * 40 + 32 = 112"
    using toc_triple_checked [of demo_file demo_vtoc_header _ _ demo_vtoc] demo_vtoc_unpack
    by (simp add: demo_sel demo_vtoc_def)
  have o: "h_offset bad_toc_header = 0" "h_offset bad_ttoc_header = 0" "h_offset bad_vtoc_header = 0"
    by (simp_all add: bad_toc_header_def bad_ttoc_header_def bad_vtoc_header_def)
  have p: "take (0 + 32) (bad_toc @ [1, 2, 3]) = take (0 + 32) bad_toc"
    "take (0 + 32) (bad_ttoc @ [1, 2, 3]) = take (0 + 32) bad_ttoc"
    "take (0 + 32) (bad_vtoc @ [1, 2, 3]) = take (0 + 32) bad_vtoc"
    by (simp_all add: bad_toc_def bad_ttoc_def bad_vtoc_def)
  have b1: "\<exists>e. ARDFTableOfContents_unpack bad_toc bad_toc_header = Inl e
         \<and> ARDFTableOfContents_unpack (bad_toc @ [1, 2, 3]) bad_toc_header = Inl e"
    using toc_triple_checked [of bad_toc bad_toc_header _ _ _ 56 2 24 "bad_toc @ [1, 2, 3]"]
      bad_toc_prebody(1) p(1)
    by (simp only: o) simp
  have b2: "\<exists>e. ARDFTextTableOfContents_unpack bad_ttoc bad_ttoc_header = Inl e
         \<and> ARDFTextTableOfContents_unpack (bad_ttoc @ [1, 2, 3]) bad_ttoc_header = Inl e"
    using toc_triple_checked [of bad_ttoc bad_ttoc_header _ _ _ 56 1 24 "bad_ttoc @ [1, 2, 3]"]
      bad_toc_prebody(2) p(2)
    by (simp only: o) simp
  have b3: "\<exists>e. ARDFVolumeTableOfContents_unpack bad_vtoc bad_vtoc_header = Inl e
         \<and> ARDFVolumeTableOfContents_unpack (bad_vtoc @ [1, 2, 3]) bad_vtoc_header = Inl e"
    using toc_triple_checked [of bad_vtoc bad_vtoc_header _ _ _ 112 3 40 "bad_vtoc @ [1, 2, 3]"]
      bad_toc_prebody(3) p(3)
    by (simp only: o) simp
  from a1 a2 a3 b1 b2 b3 demo_volm_toc demo_ttoc demo_vtoc_unpack bad_toc_prebody
  show ?thesis by blast
qed

lemma unchecked_vtoc_invalid:
  "validate unchecked_vtoc unchecked_vtoc_header = Inl (ChecksumMismatch unchecked_vtoc_header)"
  by (simp add: validate_eval py_slice_def unchecked_vtoc_def unchecked_vtoc_header_def
      unchecked_vtoc_crc)

lemma unchecked_voff_unpack:
  "ARDFHeader_unpack unchecked_vtoc 32 = Inr unchecked_voff_header"
  by (simp add: ARDFHeader_unpack_def unpack_from_def field_def tag_def unchecked_vtoc_def
      unchecked_voff_header_def)

lemma unchecked_voff_valid: "validate unchecked_vtoc unchecked_voff_header = Inr True"
  by (simp add: validate_eval py_slice_def unchecked_vtoc_def unchecked_voff_header_def
      unchecked_voff_crc)

lemma unchecked_voff_sel:
  "h_crc unchecked_voff_header = 2194640743" "h_name unchecked_voff_header = tag ''VOFF''"
  by (simp_all add: unchecked_voff_header_def)

lemma unchecked_vtoc_reads:
  "toc_prebody unchecked_vtoc 0 = Inr (72, 1, 40)"
  "unpack_from 24 unchecked_vtoc 48 = Inr [0, 0, 0, 0, 7, 0, 0, 0, 0, 0, 0, 0, 0, 0, 0, 0, 0, 16, 0, 0, 0, 0, 0, 0]"
  by (simp_all add: toc_prebody_def unpack_from_def field_def unchecked_vtoc_def)

text \<open>
  C8. The volume table of contents is unpacked without validating its own header. Here
  the header that \<open>ARDFHeader.unpack\<close> reads fails \<open>validate\<close>, and
  \<open>ARDFVolumeTableOfContents.unpack\<close> still decodes the entry behind it. The generic
  and the text table of contents call \<open>header.validate()\<close> first.
\<close>

theorem vtoc_unpack_skips_validate:
  "ARDFHeader_unpack unchecked_vtoc 0 = Inr unchecked_vtoc_header
   \<and> validate unchecked_vtoc unchecked_vtoc_header = Inl (ChecksumMismatch unchecked_vtoc_header)
   \<and> ARDFVolumeTableOfContents_unpack unchecked_vtoc unchecked_vtoc_header =
       Inr \<lparr>vtoc_offset = 0, vtoc_size = 72, vtoc_lines = [7], vtoc_points = [0],
            vtoc_pointers = [4096]\<rparr>
   \<and> (\<exists>e. ARDFTableOfContents_unpack unchecked_vtoc unchecked_vtoc_header = Inl e)
   \<and> (\<exists>e. ARDFTextTableOfContents_unpack unchecked_vtoc unchecked_vtoc_header = Inl e)"
proof (intro conjI)
  show "ARDFHeader_unpack unchecked_vtoc 0 = Inr unchecked_vtoc_header"
    by (rule unchecked_vtoc_unpack)
  show "validate unchecked_vtoc unchecked_vtoc_header = Inl (ChecksumMismatch unchecked_vtoc_header)"
    by (rule unchecked_vtoc_invalid)
  show "ARDFVolumeTableOfContents_unpack unchecked_vtoc unchecked_vtoc_header =
       Inr \<lparr>vtoc_offset = 0, vtoc_size = 72, vtoc_lines = [7], vtoc_points = [0],
            vtoc_pointers = [4096]\<rparr>"
    by (simp add: ARDFVolumeTableOfContents_unpack_def py_range_def field_def Let_def
        unchecked_vtoc_reads unchecked_voff_unpack unchecked_voff_valid unchecked_voff_sel
        bad_toc_sel replicate_numeral_Cons)
  show "\<exists>e. ARDFTableOfContents_unpack unchecked_vtoc unchecked_vtoc_header = Inl e"
    by (simp add: ARDFTableOfContents_unpack_def unchecked_vtoc_invalid bad_toc_sel)
  show "\<exists>e. ARDFTextTableOfContents_unpack unchecked_vtoc unchecked_vtoc_header = Inl e"
    by (simp add: ARDFTextTableOfContents_unpack_def unchecked_vtoc_invalid bad_toc_sel)
qed

theorem vtoc_unpack_skips_validate_witness:
  "isl (validate unchecked_vtoc unchecked_vtoc_header)
   \<and> \<not> isl (ARDFVolumeTableOfContents_unpack unchecked_vtoc unchecked_vtoc_header)"
  using vtoc_unpack_skips_validate by simp

text \<open>
  C9. The shape of a parsed volume is the pair (points, lines) of the volume definition
  chunk, in the order the chunk stores them; the reader is given the same two counts as
  its lines and points.
\<close>

theorem parse_volm_shape:
  "parse_volm data volm_header = Inr vol \<Longrightarrow>
     \<exists>volm_toc ttoc_header ttoc vdef.
        ARDFTableOfContents_unpack data volm_header = Inr volm_toc
      \<and> ARDFHeader_unpack data (toc_offset volm_toc + toc_size volm_toc) = Inr ttoc_header
      \<and> ARDFTextTableOfContents_unpack data ttoc_header = Inr ttoc
      \<and> unpack_vdef data (ttoc_offset ttoc + ttoc_size ttoc + 16) = Inr vdef
      \<and> volm_shape vol = (vdef_points vdef, vdef_lines vdef)
      \<and> fm_lines (volm_reader vol) = vdef_lines vdef
      \<and> fm_points (volm_reader vol) = vdef_points vdef"
  by (rule parse_volm_shape_lemma)

theorem parse_volm_shape_witness:
  "parse_volm demo_file demo_volm_header = Inr demo_volume
   \<and> (\<exists>volm_toc ttoc_header ttoc vdef.
        ARDFTableOfContents_unpack demo_file demo_volm_header = Inr volm_toc
      \<and> ARDFHeader_unpack demo_file (toc_offset volm_toc + toc_size volm_toc) = Inr ttoc_header
      \<and> ARDFTextTableOfContents_unpack demo_file ttoc_header = Inr ttoc
      \<and> unpack_vdef demo_file (ttoc_offset ttoc + ttoc_size ttoc + 16) = Inr vdef
      \<and> volm_shape demo_volume = (vdef_points vdef, vdef_lines vdef)
      \<and> fm_lines (volm_reader demo_volume) = vdef_lines vdef
      \<and> fm_points (volm_reader demo_volume) = vdef_points vdef)
   \<and> volm_shape demo_volume = (2, 3)"
  using parse_volm_shape [OF demo_parse] demo_parse by (simp add: demo_volume_def)

text \<open>
  The example volume declares 3 lines and 2 points in its definition chunk at offset 88,
  and the shape of the parsed volume is not (3, 2).
\<close>

theorem parse_volm_shape_counterexample:
  "parse_volm demo_file demo_volm_header = Inr demo_volume
   \<and> map_sum id (\<lambda>vdef. (vdef_lines vdef, vdef_points vdef)) (unpack_vdef demo_file (88 + 16))
        = Inr (3, 2)
   \<and> volm_shape demo_volume \<noteq> (3, 2)"
  by (simp add: demo_parse unpack_vdef_def demo_read demo_volume_def)

section \<open>Random access and iteration over force curves\<close>

subsection \<open>Filling the cache for one row\<close>

lemma next_vset_vset_at:
  "next_vset data seen pointer =
     (case vset_at data pointer of
        Inl e \<Rightarrow> Inl e
      | Inr None \<Rightarrow> Inr None
      | Inr (Some vset) \<Rightarrow> Inr (Some (vset, remember vset seen)))"
  by (simp add: next_vset_def vset_at_def remember_def vset_index_def Let_def split: sum.splits)


lemma remember_dom: "dom (remember vset seen) = insert (vset_index vset) (dom seen)"
  by (auto simp add: remember_def)



lemma fill_row_dom:
  "fill_row fuel data r pointer seen = Some (Inr seen') \<Longrightarrow>
     dom seen' = dom seen \<union> vset_index ` set (row_vsets fuel data r pointer)"
proof (induction fuel arbitrary: pointer seen)
  case 0
  then show ?case by simp
next
  case (Suc fuel)
  show ?case
  proof (cases "vset_at data pointer")
    case (Inl e)
    with Suc.prems show ?thesis by (simp add: next_vset_vset_at)
  next
    case (Inr found)
    show ?thesis
    proof (cases found)
      case None
      with Inr Suc.prems show ?thesis by (simp add: next_vset_vset_at)
    next
      case (Some vset)
      show ?thesis
      proof (cases "vset_line vset \<noteq> r")
        case True
        with Inr Some Suc.prems have "seen' = remember vset seen"
          by (simp add: next_vset_vset_at)
        with Inr Some True show ?thesis
          by (simp add: remember_dom)
      next
        case False
        with Inr Some Suc.prems
        have "fill_row fuel data r (vset_next_vset_offset vset) (remember vset seen) = Some (Inr seen')"
          by (simp add: next_vset_vset_at)
        from Suc.IH [OF this] Inr Some False show ?thesis
          by (simp add: remember_dom)
      qed
    qed
  qed
qed

lemma get_curve_uncached:
  assumes "0 \<le> r" "r < int (fm_lines rd)" "0 \<le> c" "c < int (fm_points rd)"
    and "(nat r, nat c, fm_vtype rd) \<notin> dom (fm_seen_vsets rd)"
    and "bisect_row_pointer (fm_vtoc rd) (nat r) = Inr (Some pointer)"
    and "fill_row fuel (fm_data rd) (nat r) pointer (fm_seen_vsets rd) = Some (Inr seen')"
  shows "get_curve fuel rd r c =
     (case seen' (nat r, nat c, fm_vtype rd) of
        None \<Rightarrow> Some (Inl KeyError)
      | Some vset \<Rightarrow>
          (case read_zd fuel rd (zname rd) vset (None, None) of
             None \<Rightarrow> None
           | Some (Inl e) \<Rightarrow> Some (Inl e)
           | Some (Inr zd) \<Rightarrow>
               (case bound_zd zd of
                  Inl e \<Rightarrow> Some (Inl e)
                | Inr zdxr \<Rightarrow> Some (Inr (zdxr, rd\<lparr>fm_seen_vsets := seen'\<rparr>)))))"
  using assms by (simp add: get_curve_def seek_row_def Let_def)

subsection \<open>Volume data: what a volume set assigns overrides what was carried in\<close>

lemma merge_zd_empty [simp]: "merge_zd (None, None) u = u" "merge_zd u (None, None) = u"
  by (cases u; simp add: merge_zd_def split: option.splits)+



lemma merge_zd_full [simp]: "merge_zd a (Some z, Some d) = (Some z, Some d)"
  by (simp add: merge_zd_def)



lemma read_vdats_mono:
  "read_vdats n rd zn pointer zd = Some x \<Longrightarrow> read_vdats (n + k) rd zn pointer zd = Some x"
proof (induction n arbitrary: pointer zd)
  case 0
  then show ?case by simp
next
  case (Suc n)
  then show ?case
    by (auto split: sum.splits option.splits prod.splits)
qed


lemma read_zd_mono:
  "read_zd n rd zn vset zd = Some x \<Longrightarrow> read_zd (n + k) rd zn vset zd = Some x"
  by (auto simp add: read_zd_def read_vdats_mono split: sum.splits)


subsection \<open>The chain\<close>







subsection \<open>What the iteration yields\<close>


subsection \<open>The example volume, read through the reader\<close>


lemma row_vsets_numeral:
  "row_vsets (numeral k) data r pointer =
     (case vset_at data pointer of
        Inr (Some vset) \<Rightarrow>
          vset # (if vset_line vset \<noteq> r then []
                  else row_vsets (pred_numeral k) data r (vset_next_vset_offset vset))
      | _ \<Rightarrow> [])"
  by (simp add: numeral_eq_Suc)


lemma gather_vdats_numeral:
  "gather_vdats (numeral k) rd pointer (zvdat, dvdat, last_vdat) =
     (case next_vdat (fm_data rd) pointer of
        Inl e \<Rightarrow> Some (Inl e)
      | Inr None \<Rightarrow> Some (Inr (zvdat, dvdat, last_vdat))
      | Inr (Some (vdat, pointer')) \<Rightarrow>
          (case channel_index (fm_channels rd) ''ZSnsr'' of
             Inl e \<Rightarrow> Some (Inl e)
           | Inr zi \<Rightarrow>
               if vdat_channel vdat = zi
               then gather_vdats (pred_numeral k) rd pointer' (Some vdat, dvdat, Some vdat)
               else (case channel_index (fm_channels rd) ''Defl'' of
                       Inl e \<Rightarrow> Some (Inl e)
                     | Inr di \<Rightarrow>
                         if vdat_channel vdat = di
                         then gather_vdats (pred_numeral k) rd pointer' (zvdat, Some vdat, Some vdat)
                         else gather_vdats (pred_numeral k) rd pointer' (zvdat, dvdat, Some vdat))))"
  by (simp add: numeral_eq_Suc)

lemma gather_vsets_numeral:
  "gather_vsets (numeral k) rd pointer g =
     (case next_vset (fm_data rd) (g_seen g) pointer of
        Inl e \<Rightarrow> Some (Inl e)
      | Inr None \<Rightarrow> Some (Inr g)
      | Inr (Some (vset, seen')) \<Rightarrow>
          if vset_vtype vset \<noteq> fm_vtype rd
          then gather_vsets (pred_numeral k) rd (vset_next_vset_offset vset)
                 (g\<lparr>g_vset_bound := True, g_seen := seen'\<rparr>)
          else (case vdats_start (fm_data rd) (vset_offset vset + vset_size vset) of
                  Inl e \<Rightarrow> Some (Inl e)
                | Inr p \<Rightarrow>
                    (case gather_vdats (pred_numeral k) rd p (g_locals g) of
                       None \<Rightarrow> None
                     | Some (Inl e) \<Rightarrow> Some (Inl e)
                     | Some (Inr (Some zvdat, Some dvdat, Some vdat)) \<Rightarrow>
                         gather_vsets (pred_numeral k) rd (vset_next_vset_offset vset)
                           \<lparr>g_minext = min (g_minext g) (vdat_seg_offsets vdat ! 1),
                            g_vdats = AList.update (vset_line vset, vset_point vset)
                                        (zvdat, dvdat) (g_vdats g),
                            g_locals = (Some zvdat, Some dvdat, Some vdat),
                            g_vset_bound = True, g_seen = seen'\<rparr>
                     | Some (Inr _) \<Rightarrow> Some (Inl UnboundLocalError))))"
  by (simp add: numeral_eq_Suc)

lemma demo_vset_at:
  "vset_at demo_file 680 = Inr (Some demo_vset0)"
  "vset_at demo_file 888 = Inr (Some demo_vset1)"
  "vset_at demo_file 1096 = Inr None"
  using demo_next_vset [of Map.empty]
  by (simp_all add: next_vset_vset_at split: sum.splits option.splits)

lemma demo_zname: "zname demo_reader = ''Raw''"
  by (simp add: zname_def demo_reader_sel demo_channels_def)


lemma demo_row_vsets: "row_vsets 8 demo_file 0 680 = [demo_vset0, demo_vset1]"
  by (simp add: row_vsets_numeral demo_vset_at demo_vset_sel)

lemma demo_fill_row: "fill_row 8 demo_file 0 680 Map.empty = Some (Inr demo_seen)"
  by (simp add: fill_row_numeral demo_next_vset demo_vset_sel demo_seen_def)

lemma demo_bisect: "bisect_row_pointer demo_vtoc 0 = Inr (Some 680)"
  by (simp add: bisect_row_pointer_def demo_vtoc_def searchsorted_def bisect_left.simps)

lemma demo_read_zd_8:
  "read_zd 8 demo_reader ''Raw'' demo_vset0 zd = Some (Inr (Some (fst demo_curve0), Some (snd demo_curve0)))"
  "read_zd 8 demo_reader ''Raw'' demo_vset1 zd = Some (Inr (Some (fst demo_curve1), Some (snd demo_curve1)))"
  "read_zd 7 demo_reader ''Raw'' demo_vset0 zd = Some (Inr (Some (fst demo_curve0), Some (snd demo_curve0)))"
  "read_zd 6 demo_reader ''Raw'' demo_vset1 zd = Some (Inr (Some (fst demo_curve1), Some (snd demo_curve1)))"
  using read_zd_mono [OF demo_read_zd(1) [of zd], of 3] read_zd_mono [OF demo_read_zd(2) [of zd], of 3]
    read_zd_mono [OF demo_read_zd(1) [of zd], of 2] read_zd_mono [OF demo_read_zd(2) [of zd], of 1]
  by simp_all

lemma demo_get_curve:
  "get_curve 8 demo_reader 0 0 = Some (Inr (demo_curve0, demo_reader\<lparr>fm_seen_vsets := demo_seen\<rparr>))"
  by (simp add: get_curve_def seek_row_def demo_bisect demo_fill_row demo_reader_sel demo_zname
      demo_read_zd_8 bound_zd_def Let_def demo_seen_def)

lemma demo_get_curve_missing: "get_curve 8 demo_reader 0 1 = Some (Inl KeyError)"
  by (simp add: get_curve_def seek_row_def demo_bisect demo_fill_row demo_reader_sel
      Let_def demo_seen_def)


lemma demo_get_all_curves: "get_all_curves 8 demo_reader = Some (Inl KeyError)"
  by (simp add: get_all_curves_def gather_vsets_numeral gather_vdats_numeral demo_reader_sel
      demo_vtoc_def demo_next_vset demo_vset_sel vdats_start_def next_vdat_def
      ARDFVdata_unpack_def channel_index_def demo_channels_def demo_read)



subsection \<open>The example volume after an interrupted scan\<close>

























subsection \<open>A point that is missing from its row\<close>

text \<open>
  C10. \<open>get_curve(r, c)\<close> with both indices inside the grid and the curve not yet in the
  traversal cache: when the bisection finds the row in the line column of the volume
  table of contents, and the loop over the row ends without an error, having met no
  volume set of index \<open>(r, c, vtype)\<close>, the lookup \<open>self._seen_vsets[curve]\<close> raises
  \<open>KeyError\<close>. The call returns neither the placeholder nor the index error.
\<close>

theorem get_curve_missing_point:
  assumes "0 \<le> r" "r < int (fm_lines rd)" "0 \<le> c" "c < int (fm_points rd)"
    and "(nat r, nat c, fm_vtype rd) \<notin> dom (fm_seen_vsets rd)"
    and "bisect_row_pointer (fm_vtoc rd) (nat r) = Inr (Some pointer)"
    and "fill_row fuel (fm_data rd) (nat r) pointer (fm_seen_vsets rd) = Some (Inr seen')"
    and "\<forall>vset \<in> set (row_vsets fuel (fm_data rd) (nat r) pointer).
           vset_index vset \<noteq> (nat r, nat c, fm_vtype rd)"
  shows "get_curve fuel rd r c = Some (Inl KeyError)"
proof -
  have "(nat r, nat c, fm_vtype rd) \<notin> dom seen'"
    using fill_row_dom [OF assms(7)] assms(5,8) by auto
  then have "seen' (nat r, nat c, fm_vtype rd) = None" by auto
  with get_curve_uncached [OF assms(1-7)] show ?thesis by simp
qed

theorem get_curve_missing_point_witness:
  "get_curve 8 demo_reader 0 1 = Some (Inl KeyError)
   \<and> bisect_row_pointer (fm_vtoc demo_reader) 0 = Inr (Some 680)
   \<and> row_vsets 8 (fm_data demo_reader) 0 680 = [demo_vset0, demo_vset1]
   \<and> vset_index demo_vset0 = (0, 0, 2) \<and> vset_index demo_vset1 = (1, 0, 2)"
proof -
  have 1: "(0 :: int) \<le> 0" "0 < int (fm_lines demo_reader)" "(0 :: int) \<le> 1"
    "1 < int (fm_points demo_reader)"
    by (simp_all add: demo_reader_sel)
  have 2: "(nat 0, nat 1, fm_vtype demo_reader) \<notin> dom (fm_seen_vsets demo_reader)"
    by (simp add: demo_reader_sel)
  have 3: "bisect_row_pointer (fm_vtoc demo_reader) (nat 0) = Inr (Some 680)"
    by (simp add: demo_reader_sel demo_bisect)
  have 4: "fill_row 8 (fm_data demo_reader) (nat 0) 680 (fm_seen_vsets demo_reader)
      = Some (Inr demo_seen)"
    by (simp add: demo_reader_sel demo_fill_row)
  have 5: "row_vsets 8 (fm_data demo_reader) (nat 0) 680 = [demo_vset0, demo_vset1]"
    by (simp add: demo_reader_sel demo_row_vsets)
  have 6: "vset_index demo_vset0 = (0, 0, 2)" "vset_index demo_vset1 = (1, 0, 2)"
    by (simp_all add: vset_index_def demo_vset_sel)
  have 7: "\<forall>vset \<in> set (row_vsets 8 (fm_data demo_reader) (nat 0) 680).
           vset_index vset \<noteq> (nat 0, nat 1, fm_vtype demo_reader)"
    by (simp add: demo_reader_sel demo_row_vsets vset_index_def demo_vset_sel)
  have "get_curve 8 demo_reader 0 1 = Some (Inl KeyError)"
    using get_curve_missing_point [OF 1 2 3 4 7] .
  with 3 5 6 show ?thesis by simp
qed

subsection \<open>Random access agrees with the iteration\<close>




subsection \<open>Loading every curve looks the height channel up under one name\<close>

lemma gather_vdats_no_ZSnsr:
  "fm_channels rd ''ZSnsr'' = None \<Longrightarrow> gather_vdats n rd pointer st = Some (Inr st') \<Longrightarrow> st' = st"
  by (cases n; cases st)
    (auto simp add: channel_index_def split: sum.splits option.splits)

lemma gather_vsets_no_ZSnsr:
  "fm_channels rd ''ZSnsr'' = None \<Longrightarrow> g_locals g = (None, None, None) \<Longrightarrow>
   gather_vsets n rd pointer g = Some (Inr g') \<Longrightarrow> g_locals g' = (None, None, None)"
proof (induction n arbitrary: pointer g)
  case 0
  then show ?case by simp
next
  case (Suc n)
  show ?case
  proof (cases "next_vset (fm_data rd) (g_seen g) pointer")
    case (Inl e)
    with Suc.prems show ?thesis by simp
  next
    case (Inr found)
    show ?thesis
    proof (cases found)
      case None
      with Inr Suc.prems show ?thesis by simp
    next
      case (Some a)
      obtain vset seen' where a: "a = (vset, seen')" by (cases a)
      show ?thesis
      proof (cases "vset_vtype vset \<noteq> fm_vtype rd")
        case True
        with Inr Some a Suc.prems(3)
        have "gather_vsets n rd (vset_next_vset_offset vset)
                 (g\<lparr>g_vset_bound := True, g_seen := seen'\<rparr>) = Some (Inr g')"
          by simp
        moreover have "g_locals (g\<lparr>g_vset_bound := True, g_seen := seen'\<rparr>) = (None, None, None)"
          using Suc.prems(2) by simp
        ultimately show ?thesis using Suc.IH Suc.prems(1) by blast
      next
        case False
        show ?thesis
        proof (cases "vdats_start (fm_data rd) (vset_offset vset + vset_size vset)")
          case (Inl e)
          with Inr Some a False Suc.prems(3) show ?thesis by simp
        next
          case p: (Inr p)
          show ?thesis
          proof (cases "gather_vdats n rd p (g_locals g)")
            case None
            with Inr Some a False p Suc.prems(3) show ?thesis by simp
          next
            case s: (Some res)
            show ?thesis
            proof (cases res)
              case (Inl e)
              with Inr Some a False p s Suc.prems(3) show ?thesis by simp
            next
              case r: (Inr st')
              with s Suc.prems(1) have "st' = g_locals g"
                by (auto dest: gather_vdats_no_ZSnsr)
              with Suc.prems(2) have "st' = (None, None, None)" by simp
              with Inr Some a False p s r Suc.prems(3) show ?thesis by simp
            qed
          qed
        qed
      qed
    qed
  qed
qed

lemma get_all_curves_no_ZSnsr:
  assumes "fm_channels rd ''ZSnsr'' = None"
  shows "get_all_curves fuel rd \<noteq> Some (Inr x)"
proof
  assume r: "get_all_curves fuel rd = Some (Inr x)"
  then obtain pointer ps where ps: "vtoc_pointers (fm_vtoc rd) = pointer # ps"
    by (cases "vtoc_pointers (fm_vtoc rd)") (auto simp add: get_all_curves_def)
  let ?g0 = "\<lparr>g_minext = 0xFFFFFFFF, g_vdats = [], g_locals = (None, None, None),
                   g_vset_bound = False, g_seen = fm_seen_vsets rd\<rparr>"
  from r ps obtain g where g: "gather_vsets fuel rd pointer ?g0 = Some (Inr g)"
    and b: "\<not> (\<not> g_vset_bound g \<or> snd (snd (g_locals g)) = None)"
    by (auto simp add: get_all_curves_def split: option.splits sum.splits if_splits)
  have "g_locals g = (None, None, None)"
    by (rule gather_vsets_no_ZSnsr [OF assms _ g]) simp
  with b show False by simp
qed

text \<open>
  C4. \<open>get_all_curves()\<close> looks the height channel up as \<open>self.channels["ZSnsr"]\<close>,
  where \<open>get_curve\<close> and \<open>iter_curves\<close> use \<open>self.zname\<close>, which is \<open>"Raw"\<close> when the
  volume has such a channel. On a volume without a channel named \<open>"ZSnsr"\<close> it never
  returns an array. The example volume has the channels \<open>"Raw"\<close> and \<open>"Defl"\<close>:
  \<open>get_curve(0, 0)\<close> returns the curve of the first pixel, and \<open>get_all_curves()\<close> raises
  \<open>KeyError\<close> at the first volume data of the first volume set.
\<close>

theorem get_all_curves_ignores_zname:
  "(fm_channels rd ''ZSnsr'' = None \<longrightarrow> get_all_curves fuel rd \<noteq> Some (Inr x))
   \<and> zname demo_reader = ''Raw''
   \<and> get_curve 8 demo_reader 0 0
       = Some (Inr (demo_curve0, demo_reader\<lparr>fm_seen_vsets := demo_seen\<rparr>))
   \<and> get_all_curves 8 demo_reader = Some (Inl KeyError)"
  using get_all_curves_no_ZSnsr [of rd fuel x] demo_zname demo_get_curve demo_get_all_curves
  by blast

theorem get_all_curves_ignores_zname_witness:
  "fm_channels demo_reader ''ZSnsr'' = None
   \<and> get_all_curves 20 demo_reader \<noteq> Some (Inr Map.empty)
   \<and> get_curve 8 demo_reader 0 0
       = Some (Inr (demo_curve0, demo_reader\<lparr>fm_seen_vsets := demo_seen\<rparr>))"
proof -
  have "fm_channels demo_reader ''ZSnsr'' = None"
    by (simp add: demo_reader_sel demo_channels_def)
  with get_all_curves_ignores_zname [of demo_reader 20 Map.empty] show ?thesis by blast
qed

end
